theory Spec2Isabelle
  imports Main "HOL-Library.AList" "HOL-Library.Multiset"
begin

section \<open>Python values, exceptions and methods\<close>

text \<open>
  Credentials are a Python dict from strings to strings, numbers or None; the providers
  only ever read it with \<^verbatim>\<open>dict.get\<close>.
\<close>

datatype pyval = PNone | PStr string | PInt int

text \<open>
  The exception classes the code raises or catches by name, and \<open>LibraryError\<close> for
  every other subclass of Exception raised by an external library (sqlite3, SQLAlchemy,
  pandas, boto3, google-cloud-bigquery, the Snowflake connector).
\<close>

datatype exn =
    ValueError | AttributeError | TypeError | IndexError | ClientError string | LibraryError string

type_synonym handle = nat

text \<open>
  A method runs on a state and either returns a value or raises; the state it leaves
  behind is kept in both cases, as the attributes of a Python object are.
\<close>

type_synonym ('s, 'a) meth = "'s \<Rightarrow> (exn + 'a) \<times> 's"

definition return :: "'a \<Rightarrow> ('s, 'a) meth" where
  "return x = (\<lambda>s. (Inr x, s))"

definition raise :: "exn \<Rightarrow> ('s, 'a) meth" where
  "raise e = (\<lambda>s. (Inl e, s))"

definition bind :: "('s, 'a) meth \<Rightarrow> ('a \<Rightarrow> ('s, 'b) meth) \<Rightarrow> ('s, 'b) meth" where
  "bind m f = (\<lambda>s. case m s of (Inl e, s') \<Rightarrow> (Inl e, s') | (Inr x, s') \<Rightarrow> f x s')"

definition seq :: "('s, 'a) meth \<Rightarrow> ('s, 'b) meth \<Rightarrow> ('s, 'b) meth" where
  "seq m k = bind m (\<lambda>x. k)"

text \<open>The value or the exception of a computation that does not touch the state.\<close>

definition lift :: "exn + 'a \<Rightarrow> ('s, 'a) meth" where
  "lift r = (case r of Inl e \<Rightarrow> raise e | Inr x \<Rightarrow> return x)"

text \<open>\<^verbatim>\<open>try: m  except Exception: h\<close> and \<^verbatim>\<open>try: m  except ClientError: h\<close>.\<close>

definition try_except :: "('s, 'a) meth \<Rightarrow> ('s, 'a) meth \<Rightarrow> ('s, 'a) meth" where
  "try_except m h = (\<lambda>s. case m s of (Inl e, s') \<Rightarrow> h s' | (Inr x, s') \<Rightarrow> (Inr x, s'))"

fun is_ClientError :: "exn \<Rightarrow> bool" where
  "is_ClientError (ClientError m) = True"
| "is_ClientError e = False"

definition try_except_ClientError :: "('s, 'a) meth \<Rightarrow> ('s, 'a) meth \<Rightarrow> ('s, 'a) meth" where
  "try_except_ClientError m h =
     (\<lambda>s. case m s of
        (Inl e, s') \<Rightarrow> if is_ClientError e then h s' else (Inl e, s')
      | (Inr x, s') \<Rightarrow> (Inr x, s'))"

text \<open>\<^verbatim>\<open>try: m  finally: f\<close>, where \<open>f\<close> cannot raise.\<close>

definition try_finally :: "('s, 'a) meth \<Rightarrow> ('s \<Rightarrow> 's) \<Rightarrow> ('s, 'a) meth" where
  "try_finally m f = (\<lambda>s. case m s of (r, s') \<Rightarrow> (r, f s'))"

text \<open>
  A provider method runs on the pair of the provider object and the outside world
  (files, databases, buckets). \<open>self\<close> reads the object, \<open>assign\<close> writes its
  attributes, \<open>ext\<close> is a call into an external library, which sees the world only.
\<close>

definition self :: "('o \<Rightarrow> ('o \<times> 'w, 'a) meth) \<Rightarrow> ('o \<times> 'w, 'a) meth" where
  "self f = (\<lambda>(ob, w). f ob (ob, w))"

definition assign :: "('o \<Rightarrow> 'o) \<Rightarrow> ('o \<times> 'w, unit) meth" where
  "assign f = (\<lambda>(ob, w). (Inr (), (f ob, w)))"

definition ext :: "('w, 'a) meth \<Rightarrow> ('o \<times> 'w, 'a) meth" where
  "ext c = (\<lambda>(ob, w). case c w of (r, w') \<Rightarrow> (r, (ob, w')))"

text \<open>An attribute access or method call on a handle that is still None.\<close>

definition attr :: "'h option \<Rightarrow> ('h \<Rightarrow> ('s, 'a) meth) \<Rightarrow> ('s, 'a) meth" where
  "attr h f = (case h of None \<Rightarrow> raise AttributeError | Some x \<Rightarrow> f x)"

subsection \<open>Truthiness, formatting and string tests\<close>

fun truthy :: "pyval \<Rightarrow> bool" where
  "truthy PNone = False"
| "truthy (PStr s) = (s \<noteq> [])"
| "truthy (PInt i) = (i \<noteq> 0)"

definition dict_get :: "(string \<rightharpoonup> pyval) \<Rightarrow> string \<Rightarrow> pyval" where
  "dict_get d k = (case d k of None \<Rightarrow> PNone | Some v \<Rightarrow> v)"

definition dict_get_default :: "(string \<rightharpoonup> pyval) \<Rightarrow> string \<Rightarrow> pyval \<Rightarrow> pyval" where
  "dict_get_default d k dflt = (case d k of None \<Rightarrow> dflt | Some v \<Rightarrow> v)"

definition digit_char :: "nat \<Rightarrow> char" where
  "digit_char d = char_of (48 + d)"

fun show_nat :: "nat \<Rightarrow> nat \<Rightarrow> string" where
  "show_nat 0 n = []"
| "show_nat (Suc fuel) n =
     (if n < 10 then [digit_char n] else show_nat fuel (n div 10) @ [digit_char (n mod 10)])"

definition show_int :: "int \<Rightarrow> string" where
  "show_int i = (if i < 0 then CHR ''-'' # show_nat (Suc (nat (- i))) (nat (- i))
                 else show_nat (Suc (nat i)) (nat i))"

fun py_str :: "pyval \<Rightarrow> string" where
  "py_str PNone = ''None''"
| "py_str (PStr s) = s"
| "py_str (PInt i) = show_int i"

text \<open>
  A string is a list of characters with codes below 256. Of these, \<^verbatim>\<open>str.strip()\<close> removes
  the blank, the controls 0x09 to 0x0D, the separators 0x1C to 0x1F, the next-line
  control 0x85 and the no-break space 0xA0.
\<close>

definition is_space :: "char \<Rightarrow> bool" where
  "is_space c = (c \<in> set [CHR '' '', CHR 0x09, CHR 0x0A, CHR 0x0B, CHR 0x0C, CHR 0x0D,
                           CHR 0x1C, CHR 0x1D, CHR 0x1E, CHR 0x1F, CHR 0x85, CHR 0xA0])"

text \<open>\<^verbatim>\<open>where_clause and where_clause.strip()\<close> as a condition.\<close>

definition has_predicate :: "string option \<Rightarrow> bool" where
  "has_predicate wc = (case wc of None \<Rightarrow> False | Some s \<Rightarrow> filter (\<lambda>c. \<not> is_space c) s \<noteq> [])"

definition endswith :: "string \<Rightarrow> string \<Rightarrow> bool" where
  "endswith s suf = (length suf \<le> length s \<and> drop (length s - length suf) s = suf)"

definition lower_char :: "char \<Rightarrow> char" where
  "lower_char c = (let n = (of_char c :: nat) in if 65 \<le> n \<and> n \<le> 90 then char_of (n + 32) else c)"

definition lower :: "string \<Rightarrow> string" where
  "lower s = map lower_char s"

text \<open>\<^verbatim>\<open>sep.join(xs)\<close>, and the quote characters the queries are built with.\<close>

fun join :: "string \<Rightarrow> string list \<Rightarrow> string" where
  "join sep [] = []"
| "join sep [x] = x"
| "join sep (x # y # ys) = x @ sep @ join sep (y # ys)"

definition dquote :: string where
  "dquote = [CHR 0x22]"

definition squote :: string where
  "squote = [CHR 0x27]"

definition backtick :: string where
  "backtick = [CHR 0x60]"

text \<open>\<^verbatim>\<open>x or y\<close> on values, and a string argument seen as a value.\<close>

definition py_or :: "pyval \<Rightarrow> pyval \<Rightarrow> pyval" where
  "py_or x y = (if truthy x then x else y)"

text \<open>\<^verbatim>\<open>limit and limit > 0\<close> as a condition.\<close>

definition has_limit :: "int option \<Rightarrow> bool" where
  "has_limit limit = (case limit of None \<Rightarrow> False | Some n \<Rightarrow> n \<noteq> 0 \<and> n > 0)"

definition limit_clause :: "int option \<Rightarrow> string" where
  "limit_clause limit = (if has_limit limit then '' LIMIT '' @ show_int (the limit) else [])"

section \<open>The tabular recordset\<close>

text \<open>
  A pandas DataFrame as the code uses it: the column names and the rows in order. The
  index is left out: every write passes \<^verbatim>\<open>index=False\<close> and every frame the code
  handles carries the default positional index. A cell is a missing value (None or NaN,
  which pandas treats alike), a string or a number.
\<close>

datatype cell = Null | Str string | Num int

record dataframe =
  columns :: "string list"
  rows :: "cell list list"

definition len :: "dataframe \<Rightarrow> nat" where
  "len df = length (rows df)"

text \<open>\<^verbatim>\<open>df.empty\<close>: true when any axis has length 0.\<close>

definition df_empty :: "dataframe \<Rightarrow> bool" where
  "df_empty df = (rows df = [] \<or> columns df = [])"

definition empty_frame :: dataframe where
  "empty_frame = \<lparr>columns = [], rows = []\<rparr>"

text \<open>Python slice bounds: a negative bound counts from the end, both are clamped.\<close>

definition slice_index :: "nat \<Rightarrow> int \<Rightarrow> nat" where
  "slice_index n i = (if i < 0 then nat (max 0 (int n + i)) else min n (nat i))"

definition iloc :: "dataframe \<Rightarrow> int \<Rightarrow> int \<Rightarrow> dataframe" where
  "iloc df a b =
     (let lo = slice_index (len df) a; hi = slice_index (len df) b
      in df\<lparr>rows := take (hi - lo) (drop lo (rows df))\<rparr>)"

text \<open>\<^verbatim>\<open>range(start, stop, step)\<close>, a ValueError when the step is zero.\<close>

definition py_range :: "int \<Rightarrow> int \<Rightarrow> int \<Rightarrow> exn + int list" where
  "py_range start stop step =
     (if step = 0 then Inl ValueError
      else if step > 0 then
        Inr (map (\<lambda>k. start + int k * step) [0..<nat ((stop - start + step - 1) div step)])
      else
        Inr (map (\<lambda>k. start + int k * step) [0..<nat ((start - stop - step - 1) div (- step))]))"

text \<open>
  \<^verbatim>\<open>df.duplicated(keep="first")\<close>: a row is marked when an equal row came before it.
  Rows are compared on all columns.
\<close>

fun duplicated_from :: "cell list list \<Rightarrow> cell list list \<Rightarrow> bool list" where
  "duplicated_from seen [] = []"
| "duplicated_from seen (r # rs) = (r \<in> set seen) # duplicated_from (r # seen) rs"

definition duplicated :: "dataframe \<Rightarrow> bool list" where
  "duplicated df = duplicated_from [] (rows df)"

text \<open>\<^verbatim>\<open>df.drop_duplicates(keep="first").reset_index(drop=True)\<close>: the unmarked rows.\<close>

definition keep_unmarked :: "'a list \<Rightarrow> bool list \<Rightarrow> 'a list" where
  "keep_unmarked xs marks = map fst (filter (\<lambda>(x, d). \<not> d) (zip xs marks))"

definition drop_duplicates :: "dataframe \<Rightarrow> dataframe" where
  "drop_duplicates df = df\<lparr>rows := keep_unmarked (rows df) (duplicated df)\<rparr>"

text \<open>The sum of a boolean series.\<close>

definition sum_bools :: "bool list \<Rightarrow> int" where
  "sum_bools bs = int (length (filter (\<lambda>b. b) bs))"

text \<open>The cell of a row under a column name; a short row reads as missing.\<close>

fun cell_at :: "string list \<Rightarrow> cell list \<Rightarrow> string \<Rightarrow> cell" where
  "cell_at [] r c = Null"
| "cell_at (k # ks) [] c = Null"
| "cell_at (k # ks) (v # vs) c = (if k = c then v else cell_at ks vs c)"

definition column_values :: "dataframe \<Rightarrow> string \<Rightarrow> cell list" where
  "column_values df c = map (\<lambda>r. cell_at (columns df) r c) (rows df)"

definition isna :: "cell \<Rightarrow> bool" where
  "isna v = (v = Null)"

text \<open>
  The columns selected by \<^verbatim>\<open>select_dtypes(include="object")\<close> are taken to be those
  holding a string. (A column of missing values only is of dtype object as well, but
  \<^verbatim>\<open>astype(str)\<close> turns a missing value into a word that does not end in an
  ellipsis, so it adds nothing to the count.)
\<close>

fun ends_ellipsis :: "cell \<Rightarrow> bool" where
  "ends_ellipsis (Str s) = endswith s ''...''"
| "ends_ellipsis v = False"

fun is_Str :: "cell \<Rightarrow> bool" where
  "is_Str (Str s) = True"
| "is_Str v = False"

definition object_columns :: "dataframe \<Rightarrow> string list" where
  "object_columns df = filter (\<lambda>c. \<exists>v \<in> set (column_values df c). is_Str v) (columns df)"

text \<open>
  \<^verbatim>\<open>pd.concat([a, b], ignore_index=True)\<close>: the columns of \<open>a\<close>, then those of \<open>b\<close> that
  \<open>a\<close> lacks; the rows of \<open>a\<close>, then those of \<open>b\<close>, each read under the joint header.
\<close>

definition concat_frames :: "dataframe \<Rightarrow> dataframe \<Rightarrow> dataframe" where
  "concat_frames a b =
     (let cols = columns a @ filter (\<lambda>c. c \<notin> set (columns a)) (columns b)
      in \<lparr>columns = cols,
          rows = map (\<lambda>r. map (cell_at (columns a) r) cols) (rows a) @
                 map (\<lambda>r. map (cell_at (columns b) r) cols) (rows b)\<rparr>)"

section \<open>The provider contract (core/providers/base.py)\<close>

text \<open>
  The abstract class \<^verbatim>\<open>DataProvider\<close>: ten methods over a provider object of type
  \<open>'o\<close> and a world of type \<open>'w\<close>. A concrete provider is a value of this record.
\<close>

record ('o, 'w) DataProvider =
  connect :: "('o \<times> 'w, unit) meth"
  test_connection :: "('o \<times> 'w, bool) meth"
  has_permissions :: "string list \<Rightarrow> ('o \<times> 'w, (string \<times> bool) list) meth"
  list_datasets :: "('o \<times> 'w, pyval list) meth"
  list_tables :: "string option \<Rightarrow> ('o \<times> 'w, string list) meth"
  read_table :: "string \<Rightarrow> int option \<Rightarrow> ('o \<times> 'w, dataframe) meth"
  write_table :: "string \<Rightarrow> dataframe \<Rightarrow> string \<Rightarrow> ('o \<times> 'w, int) meth"
  delete_rows :: "string \<Rightarrow> string option \<Rightarrow> ('o \<times> 'w, int) meth"
  delete_table :: "string \<Rightarrow> ('o \<times> 'w, unit) meth"
  close :: "('o \<times> 'w, unit) meth"

text \<open>The attributes every provider object has: the credentials and the connected flag.\<close>

record provider_obj =
  credentials :: "string \<rightharpoonup> pyval"
  p_connected :: bool

text \<open>
  A dict comprehension \<^verbatim>\<open>{a: f(a) for a in actions}\<close>: keys in order of first
  insertion, a repeated key overwrites its value.
\<close>

definition dict_of_actions :: "(string \<Rightarrow> bool) \<Rightarrow> string list \<Rightarrow> (string \<times> bool) list" where
  "dict_of_actions f actions = foldl (\<lambda>d a. AList.update a (f a) d) [] actions"

definition DataProvider_has_permissions :: "string list \<Rightarrow> ('o \<times> 'w, (string \<times> bool) list) meth" where
  "DataProvider_has_permissions actions = return (dict_of_actions (\<lambda>act. True) actions)"

section \<open>Migration, quality report and corrections (core/migration.py)\<close>

text \<open>
  \<^verbatim>\<open>migrate_table\<close> runs on the source object, the destination object and the world
  they share.
\<close>

definition on_source :: "('s \<times> 'w, 'a) meth \<Rightarrow> ('s \<times> 'd \<times> 'w, 'a) meth" where
  "on_source m = (\<lambda>(s, d, w). case m (s, w) of (r, (s', w')) \<Rightarrow> (r, (s', d, w')))"

definition on_dest :: "('d \<times> 'w, 'a) meth \<Rightarrow> ('s \<times> 'd \<times> 'w, 'a) meth" where
  "on_dest m = (\<lambda>(s, d, w). case m (d, w) of (r, (d', w')) \<Rightarrow> (r, (s, d', w')))"

text \<open>The body of the loop \<^verbatim>\<open>for i in range(0, len(df), chunk_size)\<close>, over the indices.\<close>

fun migrate_chunks ::
  "('d, 'w) DataProvider \<Rightarrow> string \<Rightarrow> dataframe \<Rightarrow> int \<Rightarrow> int list \<Rightarrow> int \<Rightarrow> ('s \<times> 'd \<times> 'w, int) meth"
where
  "migrate_chunks dest table_name df chunk_size [] total' = return total'"
| "migrate_chunks dest table_name df chunk_size (i # is) total' =
     bind (on_dest (write_table dest table_name (iloc df i (i + chunk_size)) ''append'')) (\<lambda>n.
     migrate_chunks dest table_name df chunk_size is (total' + n))"

definition migrate_table ::
  "('s, 'w) DataProvider \<Rightarrow> ('d, 'w) DataProvider \<Rightarrow> string \<Rightarrow> int \<Rightarrow> ('s \<times> 'd \<times> 'w, int) meth"
where
  "migrate_table source dest table_name chunk_size =
     bind (on_source (read_table source table_name None)) (\<lambda>df.
     if df_empty df then
       bind (on_dest (write_table dest table_name df ''append'')) (\<lambda>n.
       return 0)
     else if int (len df) \<le> chunk_size then
       bind (on_dest (write_table dest table_name df ''append'')) (\<lambda>n.
       return (0 + n))
     else
       (case py_range 0 (int (len df)) chunk_size of
          Inl e \<Rightarrow> raise e
        | Inr indices \<Rightarrow> migrate_chunks dest table_name df chunk_size indices 0))"

record report =
  report_rows :: int
  report_columns :: "string list"
  duplicates :: int
  nulls_by_column :: "(string \<times> int) list"
  truncated_like :: int

text \<open>
  What \<^verbatim>\<open>check_table_quality\<close> computes from the frame it has read. For a column label
  \<open>c\<close> that is repeated, \<^verbatim>\<open>df[c]\<close> is a frame and not a column, the sum of its null
  counts is a series, and \<^verbatim>\<open>int\<close> of a series raises TypeError; the comprehension visits
  every label, so it raises as soon as one label is repeated.
\<close>

definition quality_report :: "dataframe \<Rightarrow> exn + report" where
  "quality_report df =
     (let report = \<lparr>report_rows = int (len df), report_columns = columns df, duplicates = 0,
                     nulls_by_column = [], truncated_like = 0\<rparr>
      in if df_empty df then Inr report
         else
           let dups = sum_bools (duplicated df) in
           if \<not> distinct (columns df) then Inl TypeError
           else
             let nulls = foldl (\<lambda>d c. AList.update c (sum_bools (map isna (column_values df c))) d)
                           [] (columns df);
                 trunc = foldl (\<lambda>t c. t + sum_bools (map ends_ellipsis (column_values df c)))
                           0 (object_columns df)
             in Inr (report\<lparr>duplicates := dups, nulls_by_column := nulls, truncated_like := trunc\<rparr>))"

definition check_table_quality :: "('o, 'w) DataProvider \<Rightarrow> string \<Rightarrow> ('o \<times> 'w, report) meth" where
  "check_table_quality provider table_name =
     bind (read_table provider table_name None) (\<lambda>df.
     lift (quality_report df))"

definition apply_corrections :: "('o, 'w) DataProvider \<Rightarrow> string \<Rightarrow> ('o \<times> 'w, int) meth" where
  "apply_corrections provider table_name =
     bind (read_table provider table_name None) (\<lambda>df.
     if df_empty df then return 0
     else
       let before = int (len df); df2 = drop_duplicates df in
       bind (delete_table provider table_name) (\<lambda>u.
       bind (write_table provider table_name df2 ''replace'') (\<lambda>n.
       return (before - int (len df2)))))"

definition add_data_from_dataframe :: "('o, 'w) DataProvider \<Rightarrow> string \<Rightarrow> dataframe \<Rightarrow> ('o \<times> 'w, int) meth" where
  "add_data_from_dataframe provider table_name df = write_table provider table_name df ''append''"

section \<open>A provider in memory that records its calls\<close>

text \<open>
  An implementation of the contract that keeps its tables in the object itself and logs
  every call it receives, the way a test double does. It is what the statements about
  the calls issued by \<^verbatim>\<open>migrate_table\<close> and \<^verbatim>\<open>apply_corrections\<close> are made on.
\<close>

datatype call =
    ReadTable string "int option"
  | WriteTable string dataframe string
  | DeleteRows string "string option"
  | DeleteTable string

record memory_obj =
  tables :: "(string \<times> dataframe) list"
  calls :: "call list"

definition log_call :: "call \<Rightarrow> (memory_obj \<times> 'w, unit) meth" where
  "log_call c = assign (\<lambda>ob. ob\<lparr>calls := calls ob @ [c]\<rparr>)"

definition Memory_read_table :: "string \<Rightarrow> int option \<Rightarrow> (memory_obj \<times> 'w, dataframe) meth" where
  "Memory_read_table table_name limit =
     bind (log_call (ReadTable table_name limit)) (\<lambda>u.
     self (\<lambda>ob. case map_of (tables ob) table_name of
       None \<Rightarrow> raise (LibraryError ''no such table'')
     | Some df \<Rightarrow> if has_limit limit then return (iloc df 0 (the limit)) else return df))"

definition Memory_write_table :: "string \<Rightarrow> dataframe \<Rightarrow> string \<Rightarrow> (memory_obj \<times> 'w, int) meth" where
  "Memory_write_table table_name df if_exists =
     bind (log_call (WriteTable table_name df if_exists)) (\<lambda>u.
     bind (assign (\<lambda>ob. case map_of (tables ob) table_name of
        None \<Rightarrow> ob\<lparr>tables := AList.update table_name df (tables ob)\<rparr>
      | Some old \<Rightarrow>
          if if_exists = ''replace'' then ob\<lparr>tables := AList.update table_name df (tables ob)\<rparr>
          else ob\<lparr>tables := AList.update table_name (old\<lparr>rows := rows old @ rows df\<rparr>) (tables ob)\<rparr>)) (\<lambda>u.
     return (int (len df))))"

definition Memory_delete_rows :: "string \<Rightarrow> string option \<Rightarrow> (memory_obj \<times> 'w, int) meth" where
  "Memory_delete_rows table_name where_clause =
     bind (log_call (DeleteRows table_name where_clause)) (\<lambda>u.
     self (\<lambda>ob. case map_of (tables ob) table_name of
       None \<Rightarrow> raise (LibraryError ''no such table'')
     | Some df \<Rightarrow>
         if has_predicate where_clause then raise (LibraryError ''unsupported predicate'')
         else bind (assign (\<lambda>ob. ob\<lparr>tables := AList.update table_name (df\<lparr>rows := []\<rparr>) (tables ob)\<rparr>)) (\<lambda>u.
              return (int (len df)))))"

definition Memory_delete_table :: "string \<Rightarrow> (memory_obj \<times> 'w, unit) meth" where
  "Memory_delete_table table_name =
     bind (log_call (DeleteTable table_name)) (\<lambda>u.
     assign (\<lambda>ob. ob\<lparr>tables := AList.delete table_name (tables ob)\<rparr>))"

definition MemoryProvider :: "(memory_obj, 'w) DataProvider" where
  "MemoryProvider =
     \<lparr>connect = return (),
      test_connection = return True,
      has_permissions = DataProvider_has_permissions,
      list_datasets = return [PStr ''main''],
      list_tables = (\<lambda>dataset. self (\<lambda>ob. return (map fst (tables ob)))),
      read_table = Memory_read_table,
      write_table = Memory_write_table,
      delete_rows = Memory_delete_rows,
      delete_table = Memory_delete_table,
      close = return ()\<rparr>"

text \<open>The object that \<^verbatim>\<open>write_table\<close> of the provider in memory leaves behind.\<close>

definition Memory_written :: "string \<Rightarrow> dataframe \<Rightarrow> string \<Rightarrow> memory_obj \<Rightarrow> memory_obj" where
  "Memory_written table_name df if_exists ob =
     (let ob1 = ob\<lparr>calls := calls ob @ [WriteTable table_name df if_exists]\<rparr> in
      case map_of (tables ob1) table_name of
        None \<Rightarrow> ob1\<lparr>tables := AList.update table_name df (tables ob1)\<rparr>
      | Some old \<Rightarrow>
          if if_exists = ''replace'' then ob1\<lparr>tables := AList.update table_name df (tables ob1)\<rparr>
          else ob1\<lparr>tables := AList.update table_name (old\<lparr>rows := rows old @ rows df\<rparr>) (tables ob1)\<rparr>)"

section \<open>The external libraries\<close>

text \<open>
  The providers reach their backends through libraries that are not part of the
  repository. Each library call the code makes is a field of a record: a method on the
  world, which returns or raises and may change the world either way. The providers are
  defined for an arbitrary such record, so that a statement about a provider holds
  whatever the library does.
\<close>

text \<open>
  pathlib, sqlite3, SQLAlchemy and the SQL functions of pandas, as SQLiteProvider and
  RedshiftProvider call them:
  \<^item> \<open>path_mkdir_parents p\<close>: \<^verbatim>\<open>Path(p).parent.mkdir(parents=True, exist_ok=True)\<close>;
  \<^item> \<open>path_touch p\<close>: \<^verbatim>\<open>Path(p).touch(exist_ok=True)\<close>;
  \<^item> \<open>sqlite3_connect p\<close>, \<open>create_engine url\<close>: the connection and the engine;
  \<^item> \<open>cursor_fetch c q\<close>: \<^verbatim>\<open>cur = c.cursor(); cur.execute(q)\<close> and the rows fetched;
  \<^item> \<open>read_sql_query q c\<close>: \<^verbatim>\<open>pd.read_sql_query(q, c)\<close>, \<open>c\<close> possibly None;
  \<^item> \<open>engine_read_sql_query e q\<close>: \<^verbatim>\<open>with e.connect() as conn: pd.read_sql_query(q, conn)\<close>;
  \<^item> \<open>to_sql df name e if_exists schema\<close>:
    \<^verbatim>\<open>df.to_sql(name, e, if_exists=if_exists, index=False, schema=schema)\<close>;
  \<^item> \<open>engine_connect_execute e q\<close>: \<^verbatim>\<open>with e.connect() as conn: conn.execute(text(q))\<close>;
  \<^item> \<open>engine_begin_execute e q\<close>: \<^verbatim>\<open>with e.begin() as conn: res = conn.execute(text(q))\<close>
    and \<^verbatim>\<open>res.rowcount\<close>;
  \<^item> \<open>inspect_get_table_names e schema\<close>: \<^verbatim>\<open>inspect(e).get_table_names(schema=schema)\<close>;
  \<^item> \<open>connection_close c\<close>, \<open>engine_dispose e\<close>.
\<close>

record 'w sql_lib =
  path_mkdir_parents :: "string \<Rightarrow> ('w, unit) meth"
  path_touch :: "string \<Rightarrow> ('w, unit) meth"
  sqlite3_connect :: "string \<Rightarrow> ('w, handle) meth"
  create_engine :: "string \<Rightarrow> ('w, handle) meth"
  cursor_fetch :: "handle \<Rightarrow> string \<Rightarrow> ('w, string list list) meth"
  read_sql_query :: "string \<Rightarrow> handle option \<Rightarrow> ('w, dataframe) meth"
  engine_read_sql_query :: "handle \<Rightarrow> string \<Rightarrow> ('w, dataframe) meth"
  to_sql :: "dataframe \<Rightarrow> string \<Rightarrow> handle option \<Rightarrow> string \<Rightarrow> pyval option \<Rightarrow> ('w, unit) meth"
  engine_connect_execute :: "handle \<Rightarrow> string \<Rightarrow> ('w, unit) meth"
  engine_begin_execute :: "handle \<Rightarrow> string \<Rightarrow> ('w, int option) meth"
  inspect_get_table_names :: "handle option \<Rightarrow> pyval \<Rightarrow> ('w, string list) meth"
  connection_close :: "handle \<Rightarrow> ('w, unit) meth"
  engine_dispose :: "handle \<Rightarrow> ('w, unit) meth"

text \<open>\<^verbatim>\<open>Path(x)\<close> is a TypeError unless \<open>x\<close> is a string.\<close>

definition as_path :: "pyval \<Rightarrow> (string \<Rightarrow> ('s, 'a) meth) \<Rightarrow> ('s, 'a) meth" where
  "as_path v f = (case v of PStr p \<Rightarrow> f p | PNone \<Rightarrow> raise TypeError | PInt i \<Rightarrow> raise TypeError)"

text \<open>\<^verbatim>\<open>[row[i] for row in rows]\<close>, an IndexError on a row that is too short.\<close>

fun column_of_rows :: "nat \<Rightarrow> 'a list list \<Rightarrow> ('s, 'a list) meth" where
  "column_of_rows i [] = return []"
| "column_of_rows i (row # rest) =
     (if i < length row then bind (column_of_rows i rest) (\<lambda>xs. return (row ! i # xs))
      else raise IndexError)"

text \<open>The DELETE statement of the SQL providers, for a table reference already quoted.\<close>

definition delete_statement :: "string \<Rightarrow> string option \<Rightarrow> string" where
  "delete_statement table_ref where_clause =
     (if has_predicate where_clause then ''DELETE FROM '' @ table_ref @ '' WHERE '' @ the where_clause
      else ''DELETE FROM '' @ table_ref)"

text \<open>\<^verbatim>\<open>res.rowcount if res.rowcount is not None else 0\<close>.\<close>

definition rowcount_or_zero :: "int option \<Rightarrow> int" where
  "rowcount_or_zero rc = (case rc of None \<Rightarrow> 0 | Some n \<Rightarrow> n)"

section \<open>SQLiteProvider (core/providers/sqlite_provider.py)\<close>

record sqlite_obj = provider_obj +
  db_path :: pyval
  sqlite_conn :: "handle option"
  sqlite_engine :: "handle option"

definition SQLiteProvider_init :: "(string \<rightharpoonup> pyval) \<Rightarrow> sqlite_obj" where
  "SQLiteProvider_init creds =
     \<lparr>credentials = creds, p_connected = False, db_path = dict_get creds ''db_path'',
      sqlite_conn = None, sqlite_engine = None\<rparr>"

definition SQLiteProvider_connect :: "'w sql_lib \<Rightarrow> (sqlite_obj \<times> 'w, unit) meth" where
  "SQLiteProvider_connect L =
     self (\<lambda>ob.
       if \<not> truthy (db_path ob) then raise ValueError
       else
         seq (as_path (db_path ob) (\<lambda>p. ext (path_mkdir_parents L p)))
        (bind (ext (sqlite3_connect L (py_str (db_path ob)))) (\<lambda>c.
         seq (assign (\<lambda>ob. ob\<lparr>sqlite_conn := Some c\<rparr>))
        (bind (ext (create_engine L (''sqlite:///'' @ py_str (db_path ob)))) (\<lambda>e.
         seq (assign (\<lambda>ob. ob\<lparr>sqlite_engine := Some e\<rparr>))
             (assign (\<lambda>ob. ob\<lparr>p_connected := True\<rparr>)))))))"

definition SQLiteProvider_test_connection :: "'w sql_lib \<Rightarrow> (sqlite_obj \<times> 'w, bool) meth" where
  "SQLiteProvider_test_connection L =
     try_except
       (seq (SQLiteProvider_connect L)
       (seq (self (\<lambda>ob. attr (sqlite_conn ob) (\<lambda>c. ext (cursor_fetch L c ''SELECT 1''))))
            (return True)))
       (return False)"

fun SQLiteProvider_permissions ::
  "'w sql_lib \<Rightarrow> string list \<Rightarrow> (string \<times> bool) list \<Rightarrow> (sqlite_obj \<times> 'w, (string \<times> bool) list) meth"
where
  "SQLiteProvider_permissions L [] perms = return perms"
| "SQLiteProvider_permissions L (act # actions) perms =
     (if act = ''read'' \<or> act = ''write'' then
        bind (try_except
                (seq (self (\<lambda>ob. as_path (db_path ob) (\<lambda>p. ext (path_touch L p)))) (return True))
                (return False)) (\<lambda>ok.
        SQLiteProvider_permissions L actions (AList.update act ok perms))
      else SQLiteProvider_permissions L actions (AList.update act True perms))"

definition SQLiteProvider_has_permissions ::
  "'w sql_lib \<Rightarrow> string list \<Rightarrow> (sqlite_obj \<times> 'w, (string \<times> bool) list) meth" where
  "SQLiteProvider_has_permissions L actions = SQLiteProvider_permissions L actions []"

definition SQLiteProvider_list_datasets :: "(sqlite_obj \<times> 'w, pyval list) meth" where
  "SQLiteProvider_list_datasets = return [PStr ''main'']"

definition SQLiteProvider_list_tables :: "'w sql_lib \<Rightarrow> string option \<Rightarrow> (sqlite_obj \<times> 'w, string list) meth" where
  "SQLiteProvider_list_tables L dataset =
     self (\<lambda>ob. attr (sqlite_conn ob) (\<lambda>c.
       bind (ext (cursor_fetch L c
              (''SELECT name FROM sqlite_master WHERE type='' @ squote @ ''table'' @ squote
               @ '' ORDER BY name''))) (\<lambda>fetched.
       column_of_rows 0 fetched)))"

definition SQLiteProvider_read_table ::
  "'w sql_lib \<Rightarrow> string \<Rightarrow> int option \<Rightarrow> (sqlite_obj \<times> 'w, dataframe) meth" where
  "SQLiteProvider_read_table L table_name limit =
     self (\<lambda>ob. ext (read_sql_query L (''SELECT * FROM '' @ table_name @ limit_clause limit)
                       (sqlite_conn ob)))"

definition SQLiteProvider_write_table ::
  "'w sql_lib \<Rightarrow> string \<Rightarrow> dataframe \<Rightarrow> string \<Rightarrow> (sqlite_obj \<times> 'w, int) meth" where
  "SQLiteProvider_write_table L table_name df if_exists =
     self (\<lambda>ob.
       seq (ext (to_sql L df table_name (sqlite_engine ob) if_exists None))
           (return (int (len df))))"

definition SQLiteProvider_delete_rows ::
  "'w sql_lib \<Rightarrow> string \<Rightarrow> string option \<Rightarrow> (sqlite_obj \<times> 'w, int) meth" where
  "SQLiteProvider_delete_rows L table_name where_clause =
     (let q = delete_statement table_name where_clause in
      self (\<lambda>ob. attr (sqlite_engine ob) (\<lambda>e.
        bind (ext (engine_begin_execute L e q)) (\<lambda>rc.
        return (rowcount_or_zero rc)))))"

definition SQLiteProvider_delete_table :: "'w sql_lib \<Rightarrow> string \<Rightarrow> (sqlite_obj \<times> 'w, unit) meth" where
  "SQLiteProvider_delete_table L table_name =
     self (\<lambda>ob. attr (sqlite_engine ob) (\<lambda>e.
       seq (ext (engine_begin_execute L e (''DROP TABLE IF EXISTS '' @ table_name)))
           (return ())))"

definition SQLiteProvider_close :: "'w sql_lib \<Rightarrow> (sqlite_obj \<times> 'w, unit) meth" where
  "SQLiteProvider_close L =
     try_finally
       (self (\<lambda>ob. case sqlite_conn ob of None \<Rightarrow> return () | Some c \<Rightarrow> ext (connection_close L c)))
       (\<lambda>(ob, w). (ob\<lparr>p_connected := False\<rparr>, w))"

definition SQLiteProvider :: "'w sql_lib \<Rightarrow> (sqlite_obj, 'w) DataProvider" where
  "SQLiteProvider L =
     \<lparr>connect = SQLiteProvider_connect L,
      test_connection = SQLiteProvider_test_connection L,
      has_permissions = SQLiteProvider_has_permissions L,
      list_datasets = SQLiteProvider_list_datasets,
      list_tables = SQLiteProvider_list_tables L,
      read_table = SQLiteProvider_read_table L,
      write_table = SQLiteProvider_write_table L,
      delete_rows = SQLiteProvider_delete_rows L,
      delete_table = SQLiteProvider_delete_table L,
      close = SQLiteProvider_close L\<rparr>"

section \<open>RedshiftProvider (core/providers/redshift_provider.py)\<close>

record redshift_obj = provider_obj +
  rs_engine :: "handle option"

definition RedshiftProvider_init :: "(string \<rightharpoonup> pyval) \<Rightarrow> redshift_obj" where
  "RedshiftProvider_init creds = \<lparr>credentials = creds, p_connected = False, rs_engine = None\<rparr>"

definition rs_schema :: "redshift_obj \<Rightarrow> pyval" where
  "rs_schema ob = dict_get_default (credentials ob) ''schema'' (PStr ''public'')"

text \<open>The reference \<^verbatim>\<open>"{schema}"."{table_name}"\<close>.\<close>

definition rs_table_ref :: "redshift_obj \<Rightarrow> string \<Rightarrow> string" where
  "rs_table_ref ob table_name =
     dquote @ py_str (rs_schema ob) @ dquote @ ''.'' @ dquote @ table_name @ dquote"

definition RedshiftProvider_connect :: "'w sql_lib \<Rightarrow> (redshift_obj \<times> 'w, unit) meth" where
  "RedshiftProvider_connect L =
     self (\<lambda>ob.
       let user = dict_get (credentials ob) ''user'';
           password = dict_get (credentials ob) ''password'';
           host = dict_get (credentials ob) ''host'';
           port = dict_get_default (credentials ob) ''port'' (PInt 5439);
           database = dict_get (credentials ob) ''database'';
           url = ''postgresql+psycopg2://'' @ py_str user @ '':'' @ py_str password @ ''@''
                 @ py_str host @ '':'' @ py_str port @ ''/'' @ py_str database
       in bind (ext (create_engine L url)) (\<lambda>e.
          seq (assign (\<lambda>ob. ob\<lparr>rs_engine := Some e\<rparr>))
         (seq (ext (engine_connect_execute L e ''SELECT 1''))
              (assign (\<lambda>ob. ob\<lparr>p_connected := True\<rparr>)))))"

definition RedshiftProvider_test_connection :: "'w sql_lib \<Rightarrow> (redshift_obj \<times> 'w, bool) meth" where
  "RedshiftProvider_test_connection L =
     try_except (seq (RedshiftProvider_connect L) (return True)) (return False)"

definition RedshiftProvider_has_permissions ::
  "'w sql_lib \<Rightarrow> string list \<Rightarrow> (redshift_obj \<times> 'w, (string \<times> bool) list) meth" where
  "RedshiftProvider_has_permissions L actions =
     bind (try_except
             (seq (self (\<lambda>ob. attr (rs_engine ob) (\<lambda>e. ext (engine_connect_execute L e ''SELECT 1''))))
                  (return True))
             (return False)) (\<lambda>can_read.
     bind (try_except
             (seq (self (\<lambda>ob. attr (rs_engine ob) (\<lambda>e. ext (engine_begin_execute L e ''SELECT 1''))))
                  (return True))
             (return False)) (\<lambda>can_write.
     return (dict_of_actions
               (\<lambda>a. if a = ''read'' then can_read else if a = ''write'' then can_write else True)
               actions)))"

definition RedshiftProvider_list_datasets :: "(redshift_obj \<times> 'w, pyval list) meth" where
  "RedshiftProvider_list_datasets =
     self (\<lambda>ob. return [dict_get_default (credentials ob) ''database'' (PStr ''dev'')])"

definition RedshiftProvider_list_tables ::
  "'w sql_lib \<Rightarrow> string option \<Rightarrow> (redshift_obj \<times> 'w, string list) meth" where
  "RedshiftProvider_list_tables L dataset =
     self (\<lambda>ob. ext (inspect_get_table_names L (rs_engine ob) (rs_schema ob)))"

definition RedshiftProvider_read_table ::
  "'w sql_lib \<Rightarrow> string \<Rightarrow> int option \<Rightarrow> (redshift_obj \<times> 'w, dataframe) meth" where
  "RedshiftProvider_read_table L table_name limit =
     self (\<lambda>ob.
       let q = ''SELECT * FROM '' @ rs_table_ref ob table_name @ limit_clause limit
       in attr (rs_engine ob) (\<lambda>e. ext (engine_read_sql_query L e q)))"

definition RedshiftProvider_write_table ::
  "'w sql_lib \<Rightarrow> string \<Rightarrow> dataframe \<Rightarrow> string \<Rightarrow> (redshift_obj \<times> 'w, int) meth" where
  "RedshiftProvider_write_table L table_name df if_exists =
     self (\<lambda>ob.
       seq (ext (to_sql L df table_name (rs_engine ob) if_exists (Some (rs_schema ob))))
           (return (int (len df))))"

definition RedshiftProvider_delete_rows ::
  "'w sql_lib \<Rightarrow> string \<Rightarrow> string option \<Rightarrow> (redshift_obj \<times> 'w, int) meth" where
  "RedshiftProvider_delete_rows L table_name where_clause =
     self (\<lambda>ob.
       let q = delete_statement (rs_table_ref ob table_name) where_clause
       in attr (rs_engine ob) (\<lambda>e.
            bind (ext (engine_begin_execute L e q)) (\<lambda>rc.
            return (rowcount_or_zero rc))))"

definition RedshiftProvider_delete_table :: "'w sql_lib \<Rightarrow> string \<Rightarrow> (redshift_obj \<times> 'w, unit) meth" where
  "RedshiftProvider_delete_table L table_name =
     self (\<lambda>ob. attr (rs_engine ob) (\<lambda>e.
       seq (ext (engine_begin_execute L e (''DROP TABLE IF EXISTS '' @ rs_table_ref ob table_name)))
           (return ())))"

definition RedshiftProvider_close :: "'w sql_lib \<Rightarrow> (redshift_obj \<times> 'w, unit) meth" where
  "RedshiftProvider_close L =
     seq (self (\<lambda>ob. case rs_engine ob of None \<Rightarrow> return () | Some e \<Rightarrow> ext (engine_dispose L e)))
         (assign (\<lambda>ob. ob\<lparr>p_connected := False\<rparr>))"

definition RedshiftProvider :: "'w sql_lib \<Rightarrow> (redshift_obj, 'w) DataProvider" where
  "RedshiftProvider L =
     \<lparr>connect = RedshiftProvider_connect L,
      test_connection = RedshiftProvider_test_connection L,
      has_permissions = RedshiftProvider_has_permissions L,
      list_datasets = RedshiftProvider_list_datasets,
      list_tables = RedshiftProvider_list_tables L,
      read_table = RedshiftProvider_read_table L,
      write_table = RedshiftProvider_write_table L,
      delete_rows = RedshiftProvider_delete_rows L,
      delete_table = RedshiftProvider_delete_table L,
      close = RedshiftProvider_close L\<rparr>"

section \<open>S3Provider (core/providers/s3_provider.py)\<close>

text \<open>
  boto3 and the file functions of pandas, over object bodies of type \<open>'b\<close>:
  \<^item> \<open>boto3_client key secret token region\<close>: \<^verbatim>\<open>boto3.client("s3", ...)\<close>;
  \<^item> \<open>list_buckets c\<close>: \<^verbatim>\<open>c.list_buckets()\<close>, as the names of the buckets;
  \<^item> \<open>list_objects_v2 c bucket\<close>: \<^verbatim>\<open>c.list_objects_v2(Bucket=bucket, MaxKeys=1)\<close>;
  \<^item> \<open>paginate c bucket prefix\<close>: the pages of the \<^verbatim>\<open>list_objects_v2\<close> paginator, each
    the keys of its \<^verbatim>\<open>Contents\<close> or the exception that fetching it raises;
  \<^item> \<open>get_object_body c bucket key\<close>: \<^verbatim>\<open>c.get_object(Bucket=bucket, Key=key)["Body"].read()\<close>;
  \<^item> \<open>put_object c bucket key body\<close>, \<open>delete_object c bucket key\<close>;
  \<^item> \<open>read_parquet\<close>, \<open>read_csv\<close>, \<open>to_parquet\<close>, \<open>to_csv\<close>: pandas, on a body in memory;
  \<^item> \<open>df_query df expr\<close>: the positions of the rows that \<^verbatim>\<open>df.query(expr)\<close> selects;
  \<^item> \<open>bytes_literal s\<close>: the body \<^verbatim>\<open>b"..."\<close>.
\<close>

record ('w, 'b) s3_lib =
  boto3_client :: "pyval \<Rightarrow> pyval \<Rightarrow> pyval \<Rightarrow> pyval \<Rightarrow> ('w, handle) meth"
  list_buckets :: "handle \<Rightarrow> ('w, string list) meth"
  list_objects_v2 :: "handle \<Rightarrow> pyval \<Rightarrow> ('w, unit) meth"
  paginate :: "handle \<Rightarrow> pyval \<Rightarrow> pyval \<Rightarrow> ('w, (exn + string list) list) meth"
  get_object_body :: "handle \<Rightarrow> pyval \<Rightarrow> pyval \<Rightarrow> ('w, 'b) meth"
  put_object :: "handle \<Rightarrow> pyval \<Rightarrow> pyval \<Rightarrow> 'b \<Rightarrow> ('w, unit) meth"
  delete_object :: "handle \<Rightarrow> pyval \<Rightarrow> pyval \<Rightarrow> ('w, unit) meth"
  read_parquet :: "'b \<Rightarrow> exn + dataframe"
  read_csv :: "'b \<Rightarrow> exn + dataframe"
  to_parquet :: "dataframe \<Rightarrow> exn + 'b"
  to_csv :: "dataframe \<Rightarrow> exn + 'b"
  df_query :: "dataframe \<Rightarrow> string \<Rightarrow> exn + nat list"
  bytes_literal :: "string \<Rightarrow> 'b"

record s3_obj = provider_obj +
  s3_client :: "handle option"

definition S3Provider_init :: "(string \<rightharpoonup> pyval) \<Rightarrow> s3_obj" where
  "S3Provider_init creds = \<lparr>credentials = creds, p_connected = False, s3_client = None\<rparr>"

text \<open>\<^verbatim>\<open>key.lower().endswith(".parquet")\<close>; a key that is not a string has no \<^verbatim>\<open>lower\<close>.\<close>

definition is_parquet_key :: "pyval \<Rightarrow> exn + bool" where
  "is_parquet_key key =
     (case key of PStr k \<Rightarrow> Inr (endswith (lower k) ''.parquet'')
      | PNone \<Rightarrow> Inl AttributeError | PInt i \<Rightarrow> Inl AttributeError)"

text \<open>\<^verbatim>\<open>table_name or self.credentials.get("key")\<close>.\<close>

definition s3_key :: "s3_obj \<Rightarrow> string \<Rightarrow> pyval" where
  "s3_key ob table_name = py_or (PStr table_name) (dict_get (credentials ob) ''key'')"

definition s3_bucket :: "s3_obj \<Rightarrow> pyval" where
  "s3_bucket ob = dict_get (credentials ob) ''bucket''"

definition S3Provider_connect :: "('w, 'b) s3_lib \<Rightarrow> (s3_obj \<times> 'w, unit) meth" where
  "S3Provider_connect L =
     self (\<lambda>ob.
       let access_key = dict_get (credentials ob) ''aws_access_key_id'';
           secret_key = dict_get (credentials ob) ''aws_secret_access_key'';
           region = dict_get (credentials ob) ''region'';
           session_token = dict_get (credentials ob) ''aws_session_token''
       in bind (ext (boto3_client L access_key secret_key session_token region)) (\<lambda>c.
          seq (assign (\<lambda>ob. ob\<lparr>s3_client := Some c\<rparr>))
         (seq (ext (list_buckets L c))
              (assign (\<lambda>ob. ob\<lparr>p_connected := True\<rparr>)))))"

definition S3Provider_test_connection :: "('w, 'b) s3_lib \<Rightarrow> (s3_obj \<times> 'w, bool) meth" where
  "S3Provider_test_connection L =
     try_except (seq (S3Provider_connect L) (return True)) (return False)"

definition S3Provider_has_permissions ::
  "('w, 'b) s3_lib \<Rightarrow> string list \<Rightarrow> (s3_obj \<times> 'w, (string \<times> bool) list) meth" where
  "S3Provider_has_permissions L actions =
     self (\<lambda>ob.
       let bucket = s3_bucket ob in
       bind (try_except
               (seq (self (\<lambda>ob. attr (s3_client ob) (\<lambda>c.
                       if truthy bucket then ext (list_objects_v2 L c bucket)
                       else seq (ext (list_buckets L c)) (return ()))))
                    (return True))
               (return False)) (\<lambda>can_read.
       bind (try_except
               (if truthy bucket then
                  (let key = PStr ''__perm_test__.txt'' in
                   seq (self (\<lambda>ob. attr (s3_client ob) (\<lambda>c.
                          ext (put_object L c bucket key (bytes_literal L ''test'')))))
                  (seq (self (\<lambda>ob. attr (s3_client ob) (\<lambda>c. ext (delete_object L c bucket key))))
                       (return True)))
                else return False)
               (return False)) (\<lambda>can_write.
       return (dict_of_actions
                 (\<lambda>a. if a = ''read'' then can_read else if a = ''write'' then can_write else True)
                 actions))))"

definition S3Provider_list_datasets :: "('w, 'b) s3_lib \<Rightarrow> (s3_obj \<times> 'w, pyval list) meth" where
  "S3Provider_list_datasets L =
     self (\<lambda>ob. attr (s3_client ob) (\<lambda>c.
       bind (ext (list_buckets L c)) (\<lambda>names. return (map PStr names))))"

text \<open>The loop over the pages, which stops once more than 200 keys are collected.\<close>

fun S3Provider_collect_keys :: "(exn + string list) list \<Rightarrow> string list \<Rightarrow> ('s, string list) meth" where
  "S3Provider_collect_keys [] keys = return keys"
| "S3Provider_collect_keys (Inl e # pages) keys = raise e"
| "S3Provider_collect_keys (Inr contents # pages) keys =
     (if length (keys @ contents) > 200 then return (keys @ contents)
      else S3Provider_collect_keys pages (keys @ contents))"

definition S3Provider_list_tables ::
  "('w, 'b) s3_lib \<Rightarrow> string option \<Rightarrow> (s3_obj \<times> 'w, string list) meth" where
  "S3Provider_list_tables L dataset =
     self (\<lambda>ob.
       let bucket = py_or (case dataset of None \<Rightarrow> PNone | Some d \<Rightarrow> PStr d) (s3_bucket ob);
           prefix = dict_get_default (credentials ob) ''prefix'' (PStr [])
       in if \<not> truthy bucket then return []
          else attr (s3_client ob) (\<lambda>c.
                 bind (ext (paginate L c bucket prefix)) (\<lambda>pages.
                 S3Provider_collect_keys pages [])))"

definition S3Provider_read_object_df ::
  "('w, 'b) s3_lib \<Rightarrow> pyval \<Rightarrow> pyval \<Rightarrow> (s3_obj \<times> 'w, dataframe) meth" where
  "S3Provider_read_object_df L bucket key =
     self (\<lambda>ob. attr (s3_client ob) (\<lambda>c.
       bind (ext (get_object_body L c bucket key)) (\<lambda>body.
       bind (lift (is_parquet_key key)) (\<lambda>parquet.
       if parquet then lift (read_parquet L body) else lift (read_csv L body)))))"

definition S3Provider_read_table ::
  "('w, 'b) s3_lib \<Rightarrow> string \<Rightarrow> int option \<Rightarrow> (s3_obj \<times> 'w, dataframe) meth" where
  "S3Provider_read_table L table_name limit =
     self (\<lambda>ob.
       let bucket = s3_bucket ob; key = s3_key ob table_name in
       if \<not> truthy bucket \<or> \<not> truthy key then raise ValueError
       else bind (S3Provider_read_object_df L bucket key) (\<lambda>df.
            if has_limit limit then return (iloc df 0 (the limit)) else return df))"

text \<open>The body written for a frame: parquet or CSV by the suffix of the key.\<close>

definition S3Provider_serialise :: "('w, 'b) s3_lib \<Rightarrow> pyval \<Rightarrow> dataframe \<Rightarrow> ('s, 'b) meth" where
  "S3Provider_serialise L key df =
     bind (lift (is_parquet_key key)) (\<lambda>parquet.
     if parquet then lift (to_parquet L df) else lift (to_csv L df))"

definition S3Provider_write_table ::
  "('w, 'b) s3_lib \<Rightarrow> string \<Rightarrow> dataframe \<Rightarrow> string \<Rightarrow> (s3_obj \<times> 'w, int) meth" where
  "S3Provider_write_table L table_name df if_exists =
     self (\<lambda>ob.
       let bucket = s3_bucket ob; key = s3_key ob table_name in
       if \<not> truthy bucket \<or> \<not> truthy key then raise ValueError
       else
         bind (if if_exists = ''append''
               then try_except_ClientError (S3Provider_read_object_df L bucket key) (return empty_frame)
               else return empty_frame) (\<lambda>existing.
         let out_df = (if \<not> df_empty existing then concat_frames existing df else df) in
         bind (S3Provider_serialise L key out_df) (\<lambda>body.
         seq (self (\<lambda>ob. attr (s3_client ob) (\<lambda>c. ext (put_object L c bucket key body))))
             (return (int (len df))))))"

text \<open>\<^verbatim>\<open>df.drop(index=mask)\<close> on the default index: the rows at the other positions.\<close>

definition drop_positions :: "dataframe \<Rightarrow> nat list \<Rightarrow> dataframe" where
  "drop_positions df selected =
     df\<lparr>rows := map snd (filter (\<lambda>(i, r). i \<notin> set selected) (zip [0..<length (rows df)] (rows df)))\<rparr>"

definition S3Provider_delete_rows ::
  "('w, 'b) s3_lib \<Rightarrow> string \<Rightarrow> string option \<Rightarrow> (s3_obj \<times> 'w, int) meth" where
  "S3Provider_delete_rows L table_name where_clause =
     self (\<lambda>ob.
       let bucket = s3_bucket ob; key = s3_key ob table_name in
       if \<not> truthy bucket \<or> \<not> truthy key then return 0
       else
         bind (S3Provider_read_object_df L bucket key) (\<lambda>df.
         if df_empty df then return 0
         else
           let before = int (len df) in
           bind (if has_predicate where_clause
                 then try_except
                        (bind (lift (df_query L df (the where_clause))) (\<lambda>selected.
                         return (drop_positions df selected)))
                        (return df)
                 else return (df\<lparr>rows := []\<rparr>)) (\<lambda>df2.
           bind (S3Provider_serialise L key df2) (\<lambda>body.
           seq (self (\<lambda>ob. attr (s3_client ob) (\<lambda>c. ext (put_object L c bucket key body))))
               (return (before - int (len df2)))))))"

definition S3Provider_delete_table :: "('w, 'b) s3_lib \<Rightarrow> string \<Rightarrow> (s3_obj \<times> 'w, unit) meth" where
  "S3Provider_delete_table L table_name =
     self (\<lambda>ob.
       let bucket = s3_bucket ob; key = s3_key ob table_name in
       if \<not> truthy bucket \<or> \<not> truthy key then return ()
       else attr (s3_client ob) (\<lambda>c. ext (delete_object L c bucket key)))"

definition S3Provider_close :: "(s3_obj \<times> 'w, unit) meth" where
  "S3Provider_close = assign (\<lambda>ob. ob\<lparr>p_connected := False\<rparr>)"

definition S3Provider :: "('w, 'b) s3_lib \<Rightarrow> (s3_obj, 'w) DataProvider" where
  "S3Provider L =
     \<lparr>connect = S3Provider_connect L,
      test_connection = S3Provider_test_connection L,
      has_permissions = S3Provider_has_permissions L,
      list_datasets = S3Provider_list_datasets L,
      list_tables = S3Provider_list_tables L,
      read_table = S3Provider_read_table L,
      write_table = S3Provider_write_table L,
      delete_rows = S3Provider_delete_rows L,
      delete_table = S3Provider_delete_table L,
      close = S3Provider_close\<rparr>"

section \<open>BigQueryProvider (core/providers/bigquery_provider.py)\<close>

text \<open>
  google-cloud-bigquery:
  \<^item> \<open>from_service_account_json path project\<close>, \<open>bigquery_Client project\<close>: the client;
  \<^item> \<open>bq_project c\<close>: \<^verbatim>\<open>c.project\<close>;
  \<^item> \<open>bq_list_datasets c\<close>, \<open>bq_list_tables c ds\<close>: the ids listed;
  \<^item> \<open>bq_query c q\<close>: \<^verbatim>\<open>c.query(q).result()\<close>, as the frame of the rows and the attribute
    \<^verbatim>\<open>num_dml_affected_rows\<close>;
  \<^item> \<open>bq_create_table c table_id\<close>: \<^verbatim>\<open>c.create_table(Table(table_id, schema), exists_ok=True)\<close>;
  \<^item> \<open>bq_delete_table c table_id not_found_ok\<close>, \<open>bq_get_table c table_id\<close>;
  \<^item> \<open>bq_load_table_from_dataframe c df table_id\<close>: the load job and its \<^verbatim>\<open>result()\<close>.
\<close>

record 'w bigquery_lib =
  from_service_account_json :: "pyval \<Rightarrow> pyval option \<Rightarrow> ('w, handle) meth"
  bigquery_Client :: "pyval \<Rightarrow> ('w, handle) meth"
  bq_project :: "handle \<Rightarrow> string"
  bq_list_datasets :: "handle \<Rightarrow> ('w, string list) meth"
  bq_list_tables :: "handle \<Rightarrow> pyval \<Rightarrow> ('w, string list) meth"
  bq_query :: "handle \<Rightarrow> string \<Rightarrow> ('w, dataframe \<times> int option) meth"
  bq_create_table :: "handle \<Rightarrow> string \<Rightarrow> ('w, unit) meth"
  bq_delete_table :: "handle \<Rightarrow> string \<Rightarrow> bool \<Rightarrow> ('w, unit) meth"
  bq_get_table :: "handle \<Rightarrow> string \<Rightarrow> ('w, unit) meth"
  bq_load_table_from_dataframe :: "handle \<Rightarrow> dataframe \<Rightarrow> string \<Rightarrow> ('w, unit) meth"

record bigquery_obj = provider_obj +
  bq_client :: "handle option"

definition BigQueryProvider_init :: "(string \<rightharpoonup> pyval) \<Rightarrow> bigquery_obj" where
  "BigQueryProvider_init creds = \<lparr>credentials = creds, p_connected = False, bq_client = None\<rparr>"

definition BigQueryProvider_connect :: "'w bigquery_lib \<Rightarrow> (bigquery_obj \<times> 'w, unit) meth" where
  "BigQueryProvider_connect L =
     self (\<lambda>ob.
       let project_id = dict_get (credentials ob) ''project_id'';
           keyfile_path = dict_get (credentials ob) ''keyfile_path''
       in bind (if truthy keyfile_path then
                  (if truthy project_id
                   then ext (from_service_account_json L keyfile_path (Some project_id))
                   else ext (from_service_account_json L keyfile_path None))
                else ext (bigquery_Client L project_id)) (\<lambda>c.
          seq (assign (\<lambda>ob. ob\<lparr>bq_client := Some c\<rparr>))
         (seq (ext (bq_list_datasets L c))
              (assign (\<lambda>ob. ob\<lparr>p_connected := True\<rparr>)))))"

definition BigQueryProvider_test_connection :: "'w bigquery_lib \<Rightarrow> (bigquery_obj \<times> 'w, bool) meth" where
  "BigQueryProvider_test_connection L =
     try_except
       (seq (BigQueryProvider_connect L)
       (seq (self (\<lambda>ob. attr (bq_client ob) (\<lambda>c. ext (bq_query L c ''SELECT 1''))))
            (return True)))
       (return False)"

definition BigQueryProvider_has_permissions ::
  "'w bigquery_lib \<Rightarrow> string list \<Rightarrow> (bigquery_obj \<times> 'w, (string \<times> bool) list) meth" where
  "BigQueryProvider_has_permissions L actions =
     bind (try_except
             (seq (self (\<lambda>ob. attr (bq_client ob) (\<lambda>c. ext (bq_query L c ''SELECT 1''))))
                  (return True))
             (return False)) (\<lambda>can_read.
     self (\<lambda>ob.
       let dataset = dict_get (credentials ob) ''dataset'' in
       bind (try_except
               (if truthy dataset then
                  self (\<lambda>ob. attr (bq_client ob) (\<lambda>c.
                    let table_id = bq_project L c @ ''.'' @ py_str dataset @ ''.__perm_test'' in
                    seq (ext (bq_create_table L c table_id))
                   (seq (ext (bq_delete_table L c table_id True))
                        (return True))))
                else return True)
               (return False)) (\<lambda>can_write.
       return (dict_of_actions
                 (\<lambda>a. if a = ''read'' then can_read else if a = ''write'' then can_write else True)
                 actions))))"

definition BigQueryProvider_list_datasets :: "'w bigquery_lib \<Rightarrow> (bigquery_obj \<times> 'w, pyval list) meth" where
  "BigQueryProvider_list_datasets L =
     self (\<lambda>ob. attr (bq_client ob) (\<lambda>c.
       bind (ext (bq_list_datasets L c)) (\<lambda>ids. return (map PStr ids))))"

definition BigQueryProvider_list_tables ::
  "'w bigquery_lib \<Rightarrow> string option \<Rightarrow> (bigquery_obj \<times> 'w, string list) meth" where
  "BigQueryProvider_list_tables L dataset =
     self (\<lambda>ob.
       let ds = py_or (case dataset of None \<Rightarrow> PNone | Some d \<Rightarrow> PStr d)
                      (dict_get (credentials ob) ''dataset'')
       in if \<not> truthy ds then return []
          else attr (bq_client ob) (\<lambda>c. ext (bq_list_tables L c ds)))"

definition BigQueryProvider_full_table_ref ::
  "'w bigquery_lib \<Rightarrow> string \<Rightarrow> (bigquery_obj \<times> 'w, string) meth" where
  "BigQueryProvider_full_table_ref L table_name =
     self (\<lambda>ob.
       if CHR ''.'' \<in> set table_name then
         attr (bq_client ob) (\<lambda>c. return (bq_project L c @ ''.'' @ table_name))
       else
         (let dataset = dict_get (credentials ob) ''dataset'' in
          attr (bq_client ob) (\<lambda>c.
            return (bq_project L c @ ''.'' @ py_str dataset @ ''.'' @ table_name))))"

definition BigQueryProvider_read_table ::
  "'w bigquery_lib \<Rightarrow> string \<Rightarrow> int option \<Rightarrow> (bigquery_obj \<times> 'w, dataframe) meth" where
  "BigQueryProvider_read_table L table_name limit =
     bind (BigQueryProvider_full_table_ref L table_name) (\<lambda>full.
     let q = ''SELECT * FROM '' @ backtick @ full @ backtick @ limit_clause limit in
     self (\<lambda>ob. attr (bq_client ob) (\<lambda>c.
       bind (ext (bq_query L c q)) (\<lambda>res. return (fst res)))))"

definition BigQueryProvider_write_table ::
  "'w bigquery_lib \<Rightarrow> string \<Rightarrow> dataframe \<Rightarrow> string \<Rightarrow> (bigquery_obj \<times> 'w, int) meth" where
  "BigQueryProvider_write_table L table_name df if_exists =
     bind (BigQueryProvider_full_table_ref L table_name) (\<lambda>full.
     seq (if if_exists \<noteq> ''replace''
          then self (\<lambda>ob. attr (bq_client ob) (\<lambda>c. ext (bq_get_table L c full)))
          else return ())
    (seq (if if_exists = ''replace''
          then try_except
                 (self (\<lambda>ob. attr (bq_client ob) (\<lambda>c. ext (bq_delete_table L c full False))))
                 (return ())
          else return ())
    (seq (self (\<lambda>ob. attr (bq_client ob) (\<lambda>c. ext (bq_load_table_from_dataframe L c df full))))
         (return (int (len df))))))"

text \<open>\<^verbatim>\<open>getattr(res, "num_dml_affected_rows", 0) or 0\<close>.\<close>

definition affected_or_zero :: "int option \<Rightarrow> int" where
  "affected_or_zero n = (case n of None \<Rightarrow> 0 | Some k \<Rightarrow> k)"

definition BigQueryProvider_delete_rows ::
  "'w bigquery_lib \<Rightarrow> string \<Rightarrow> string option \<Rightarrow> (bigquery_obj \<times> 'w, int) meth" where
  "BigQueryProvider_delete_rows L table_name where_clause =
     bind (BigQueryProvider_full_table_ref L table_name) (\<lambda>full.
     let q = (if has_predicate where_clause
              then ''DELETE FROM '' @ backtick @ full @ backtick @ '' WHERE '' @ the where_clause
              else ''DELETE FROM '' @ backtick @ full @ backtick @ '' WHERE TRUE'')
     in self (\<lambda>ob. attr (bq_client ob) (\<lambda>c.
          bind (ext (bq_query L c q)) (\<lambda>res. return (affected_or_zero (snd res))))))"

definition BigQueryProvider_delete_table :: "'w bigquery_lib \<Rightarrow> string \<Rightarrow> (bigquery_obj \<times> 'w, unit) meth" where
  "BigQueryProvider_delete_table L table_name =
     bind (BigQueryProvider_full_table_ref L table_name) (\<lambda>full.
     self (\<lambda>ob. attr (bq_client ob) (\<lambda>c. ext (bq_delete_table L c full True))))"

definition BigQueryProvider_close :: "(bigquery_obj \<times> 'w, unit) meth" where
  "BigQueryProvider_close = assign (\<lambda>ob. ob\<lparr>p_connected := False\<rparr>)"

definition BigQueryProvider :: "'w bigquery_lib \<Rightarrow> (bigquery_obj, 'w) DataProvider" where
  "BigQueryProvider L =
     \<lparr>connect = BigQueryProvider_connect L,
      test_connection = BigQueryProvider_test_connection L,
      has_permissions = BigQueryProvider_has_permissions L,
      list_datasets = BigQueryProvider_list_datasets L,
      list_tables = BigQueryProvider_list_tables L,
      read_table = BigQueryProvider_read_table L,
      write_table = BigQueryProvider_write_table L,
      delete_rows = BigQueryProvider_delete_rows L,
      delete_table = BigQueryProvider_delete_table L,
      close = BigQueryProvider_close\<rparr>"

section \<open>SnowflakeProvider (core/providers/snowflake_provider.py)\<close>

text \<open>
  The Snowflake connector:
  \<^item> \<open>snowflake_connect account user password warehouse database schema\<close>;
  \<^item> \<open>sf_execute c q\<close>: \<^verbatim>\<open>cur = c.cursor(); cur.execute(q); cur.close()\<close> and the
    \<^verbatim>\<open>rowcount\<close> of the cursor;
  \<^item> \<open>sf_fetchall c q\<close>, \<open>sf_fetch_pandas_all c q\<close>: the same with the rows fetched before
    the cursor is closed;
  \<^item> \<open>write_pandas c df name\<close>: \<^verbatim>\<open>write_pandas(c, df, name, quote_identifiers=True)\<close>, as
    \<open>(success, nchunks, nrows)\<close>;
  \<^item> \<open>sf_close c\<close>.
\<close>

record 'w snowflake_lib =
  snowflake_connect :: "pyval \<Rightarrow> pyval \<Rightarrow> pyval \<Rightarrow> pyval \<Rightarrow> pyval \<Rightarrow> pyval \<Rightarrow> ('w, handle) meth"
  sf_execute :: "handle \<Rightarrow> string \<Rightarrow> ('w, int option) meth"
  sf_fetchall :: "handle \<Rightarrow> string \<Rightarrow> ('w, string list list) meth"
  sf_fetch_pandas_all :: "handle \<Rightarrow> string \<Rightarrow> ('w, dataframe) meth"
  write_pandas :: "handle \<Rightarrow> dataframe \<Rightarrow> string \<Rightarrow> ('w, bool \<times> int \<times> int) meth"
  sf_close :: "handle \<Rightarrow> ('w, unit) meth"

record snowflake_obj = provider_obj +
  sf_conn :: "handle option"

definition SnowflakeProvider_init :: "(string \<rightharpoonup> pyval) \<Rightarrow> snowflake_obj" where
  "SnowflakeProvider_init creds = \<lparr>credentials = creds, p_connected = False, sf_conn = None\<rparr>"

definition SnowflakeProvider_connect :: "'w snowflake_lib \<Rightarrow> (snowflake_obj \<times> 'w, unit) meth" where
  "SnowflakeProvider_connect L =
     self (\<lambda>ob.
       bind (ext (snowflake_connect L
                    (dict_get (credentials ob) ''account'')
                    (dict_get (credentials ob) ''user'')
                    (dict_get (credentials ob) ''password'')
                    (dict_get (credentials ob) ''warehouse'')
                    (dict_get (credentials ob) ''database'')
                    (dict_get (credentials ob) ''schema''))) (\<lambda>c.
       seq (assign (\<lambda>ob. ob\<lparr>sf_conn := Some c\<rparr>))
      (seq (ext (sf_execute L c ''SELECT 1''))
           (assign (\<lambda>ob. ob\<lparr>p_connected := True\<rparr>)))))"

definition SnowflakeProvider_test_connection :: "'w snowflake_lib \<Rightarrow> (snowflake_obj \<times> 'w, bool) meth" where
  "SnowflakeProvider_test_connection L =
     try_except (seq (SnowflakeProvider_connect L) (return True)) (return False)"

definition SnowflakeProvider_has_permissions ::
  "'w snowflake_lib \<Rightarrow> string list \<Rightarrow> (snowflake_obj \<times> 'w, (string \<times> bool) list) meth" where
  "SnowflakeProvider_has_permissions L actions =
     bind (try_except
             (seq (self (\<lambda>ob. attr (sf_conn ob) (\<lambda>c. ext (sf_execute L c ''SELECT 1''))))
                  (return True))
             (return False)) (\<lambda>can_read.
     bind (try_except
             (self (\<lambda>ob. attr (sf_conn ob) (\<lambda>c.
                seq (ext (sf_execute L c ''CREATE TEMP TABLE PERM_TEST (c STRING)''))
               (seq (ext (sf_execute L c ''DROP TABLE IF EXISTS PERM_TEST''))
                    (return True)))))
             (return False)) (\<lambda>can_write.
     return (dict_of_actions
               (\<lambda>a. if a = ''read'' then can_read else if a = ''write'' then can_write else True)
               actions)))"

definition SnowflakeProvider_list_datasets :: "'w snowflake_lib \<Rightarrow> (snowflake_obj \<times> 'w, pyval list) meth" where
  "SnowflakeProvider_list_datasets L =
     self (\<lambda>ob. attr (sf_conn ob) (\<lambda>c.
       seq (ext (sf_execute L c ''SHOW TABLES''))
           (return [dict_get_default (credentials ob) ''database'' (PStr [])])))"

definition SnowflakeProvider_list_tables ::
  "'w snowflake_lib \<Rightarrow> string option \<Rightarrow> (snowflake_obj \<times> 'w, string list) meth" where
  "SnowflakeProvider_list_tables L dataset =
     self (\<lambda>ob. attr (sf_conn ob) (\<lambda>c.
       bind (ext (sf_fetchall L c ''SHOW TABLES'')) (\<lambda>fetched.
       column_of_rows 1 fetched)))"

definition SnowflakeProvider_read_table ::
  "'w snowflake_lib \<Rightarrow> string \<Rightarrow> int option \<Rightarrow> (snowflake_obj \<times> 'w, dataframe) meth" where
  "SnowflakeProvider_read_table L table_name limit =
     self (\<lambda>ob. attr (sf_conn ob) (\<lambda>c.
       let q = ''SELECT * FROM '' @ dquote @ table_name @ dquote @ limit_clause limit
       in ext (sf_fetch_pandas_all L c q)))"

definition SnowflakeProvider_write_table ::
  "'w snowflake_lib \<Rightarrow> string \<Rightarrow> dataframe \<Rightarrow> string \<Rightarrow> (snowflake_obj \<times> 'w, int) meth" where
  "SnowflakeProvider_write_table L table_name df if_exists =
     self (\<lambda>ob. attr (sf_conn ob) (\<lambda>c.
       seq (if if_exists = ''replace''
            then seq (ext (sf_execute L c (''DROP TABLE IF EXISTS '' @ dquote @ table_name @ dquote)))
                     (return ())
            else return ())
      (let cols = join '', '' (map (\<lambda>c. dquote @ c @ dquote @ '' STRING'') (columns df)) in
       seq (ext (sf_execute L c
              (''CREATE TABLE IF NOT EXISTS '' @ dquote @ table_name @ dquote @ '' ('' @ cols @ '')'')))
      (bind (ext (write_pandas L c df table_name)) (\<lambda>(success, nchunks, nrows).
       return nrows)))))"

definition SnowflakeProvider_delete_rows ::
  "'w snowflake_lib \<Rightarrow> string \<Rightarrow> string option \<Rightarrow> (snowflake_obj \<times> 'w, int) meth" where
  "SnowflakeProvider_delete_rows L table_name where_clause =
     self (\<lambda>ob. attr (sf_conn ob) (\<lambda>c.
       let q = delete_statement (dquote @ table_name @ dquote) where_clause in
       bind (ext (sf_execute L c q)) (\<lambda>rowcount.
       try_except
         (case rowcount of None \<Rightarrow> raise TypeError | Some n \<Rightarrow> return n)
         (return 0))))"

definition SnowflakeProvider_delete_table :: "'w snowflake_lib \<Rightarrow> string \<Rightarrow> (snowflake_obj \<times> 'w, unit) meth" where
  "SnowflakeProvider_delete_table L table_name =
     self (\<lambda>ob. attr (sf_conn ob) (\<lambda>c.
       seq (ext (sf_execute L c (''DROP TABLE IF EXISTS '' @ dquote @ table_name @ dquote)))
           (return ())))"

definition SnowflakeProvider_close :: "'w snowflake_lib \<Rightarrow> (snowflake_obj \<times> 'w, unit) meth" where
  "SnowflakeProvider_close L =
     try_finally
       (self (\<lambda>ob. case sf_conn ob of None \<Rightarrow> return () | Some c \<Rightarrow> ext (sf_close L c)))
       (\<lambda>(ob, w). (ob\<lparr>p_connected := False\<rparr>, w))"

definition SnowflakeProvider :: "'w snowflake_lib \<Rightarrow> (snowflake_obj, 'w) DataProvider" where
  "SnowflakeProvider L =
     \<lparr>connect = SnowflakeProvider_connect L,
      test_connection = SnowflakeProvider_test_connection L,
      has_permissions = SnowflakeProvider_has_permissions L,
      list_datasets = SnowflakeProvider_list_datasets L,
      list_tables = SnowflakeProvider_list_tables L,
      read_table = SnowflakeProvider_read_table L,
      write_table = SnowflakeProvider_write_table L,
      delete_rows = SnowflakeProvider_delete_rows L,
      delete_table = SnowflakeProvider_delete_table L,
      close = SnowflakeProvider_close L\<rparr>"

section \<open>Properties of the provider methods\<close>

text \<open>
  The credentials of the provider object that a method leaves behind, whether it returned
  or raised, and the methods that leave them as they were.
\<close>

definition credentials_after ::
  "('a provider_obj_scheme \<times> 'w, 'r) meth \<Rightarrow> 'a provider_obj_scheme \<Rightarrow> 'w \<Rightarrow> (string \<rightharpoonup> pyval)" where
  "credentials_after m ob w = credentials (fst (snd (m (ob, w))))"

definition keeps_credentials :: "('a provider_obj_scheme \<times> 'w, 'r) meth \<Rightarrow> bool" where
  "keeps_credentials m = (\<forall>ob w. credentials_after m ob w = credentials ob)"

definition contract_keeps_credentials ::
  "('a provider_obj_scheme, 'w) DataProvider \<Rightarrow> 'a provider_obj_scheme \<Rightarrow> 'w \<Rightarrow> string list
     \<Rightarrow> string option \<Rightarrow> string \<Rightarrow> int option \<Rightarrow> dataframe \<Rightarrow> string \<Rightarrow> string option \<Rightarrow> bool" where
  "contract_keeps_credentials P ob w actions dataset table_name limit df if_exists where_clause =
     (credentials_after (connect P) ob w = credentials ob
    \<and> credentials_after (test_connection P) ob w = credentials ob
    \<and> credentials_after (has_permissions P actions) ob w = credentials ob
    \<and> credentials_after (list_datasets P) ob w = credentials ob
    \<and> credentials_after (list_tables P dataset) ob w = credentials ob
    \<and> credentials_after (read_table P table_name limit) ob w = credentials ob
    \<and> credentials_after (write_table P table_name df if_exists) ob w = credentials ob
    \<and> credentials_after (delete_rows P table_name where_clause) ob w = credentials ob
    \<and> credentials_after (delete_table P table_name) ob w = credentials ob
    \<and> credentials_after (close P) ob w = credentials ob)"

text \<open>A result that is a boolean and not an exception.\<close>

definition returns_bool :: "(exn + bool) \<times> 's \<Rightarrow> bool" where
  "returns_bool r = (case fst r of Inl e \<Rightarrow> False | Inr b \<Rightarrow> True)"

text \<open>True when the attempt returned, False when it raised; the state is the one it left.\<close>

definition succeeded :: "(exn + 'a) \<times> 's \<Rightarrow> (exn + bool) \<times> 's" where
  "succeeded r = (case r of (Inl e, s) \<Rightarrow> (Inr False, s) | (Inr x, s) \<Rightarrow> (Inr True, s))"

text \<open>A method that, when it returns, returns the given value.\<close>

definition returns_only :: "('s, 'a) meth \<Rightarrow> 'a \<Rightarrow> bool" where
  "returns_only m v = (\<forall>\<sigma> r \<tau>. m \<sigma> = (Inr r, \<tau>) \<longrightarrow> r = v)"

text \<open>The DELETE statement of the BigQuery provider, for a full table id.\<close>

definition bq_delete_statement :: "string \<Rightarrow> string option \<Rightarrow> string" where
  "bq_delete_statement full where_clause =
     (if has_predicate where_clause
      then ''DELETE FROM '' @ backtick @ full @ backtick @ '' WHERE '' @ the where_clause
      else ''DELETE FROM '' @ backtick @ full @ backtick @ '' WHERE TRUE'')"

section \<open>Stand-ins for the libraries\<close>

text \<open>
  Small libraries in memory, for running the providers on concrete inputs. A world is
  the list of the tables or objects stored, by name. They do not parse SQL: a statement
  is recognised by its prefix, and a DELETE with a WHERE clause or a SELECT with a LIMIT
  is rejected as the backend rejects a statement it cannot parse.
\<close>

definition starts_with :: "string \<Rightarrow> string \<Rightarrow> bool" where
  "starts_with p s = (take (length p) s = p)"

definition after_prefix :: "string \<Rightarrow> string \<Rightarrow> string" where
  "after_prefix p s = drop (length p) s"

definition stored_append :: "string \<Rightarrow> dataframe \<Rightarrow> (string \<times> dataframe) list \<Rightarrow> (string \<times> dataframe) list" where
  "stored_append name df w =
     (case map_of w name of
        None \<Rightarrow> AList.update name df w
      | Some old \<Rightarrow> AList.update name (old\<lparr>rows := rows old @ rows df\<rparr>) w)"

definition stand_in_execute :: "string \<Rightarrow> ((string \<times> dataframe) list, int option) meth" where
  "stand_in_execute q =
     (if q = ''SELECT 1'' then return (Some (- 1))
      else if starts_with ''DROP TABLE IF EXISTS '' q then
        (\<lambda>w. (Inr (Some (- 1)), AList.delete (after_prefix ''DROP TABLE IF EXISTS '' q) w))
      else if starts_with ''DELETE FROM '' q \<and> CHR '' '' \<notin> set (after_prefix ''DELETE FROM '' q) then
        (\<lambda>w. case map_of w (after_prefix ''DELETE FROM '' q) of
            None \<Rightarrow> (Inl (LibraryError ''no such table''), w)
          | Some df \<Rightarrow> (Inr (Some (int (len df))),
                         AList.update (after_prefix ''DELETE FROM '' q) (df\<lparr>rows := []\<rparr>) w))
      else raise (LibraryError ''syntax error''))"

definition stand_in_select :: "string \<Rightarrow> ((string \<times> dataframe) list, dataframe) meth" where
  "stand_in_select q =
     (if starts_with ''SELECT * FROM '' q \<and> CHR '' '' \<notin> set (after_prefix ''SELECT * FROM '' q) then
        (\<lambda>w. case map_of w (after_prefix ''SELECT * FROM '' q) of
            None \<Rightarrow> (Inl (LibraryError ''no such table''), w)
          | Some df \<Rightarrow> (Inr df, w))
      else raise (LibraryError ''syntax error''))"

definition stand_in_to_sql ::
  "dataframe \<Rightarrow> string \<Rightarrow> handle option \<Rightarrow> string \<Rightarrow> pyval option \<Rightarrow> ((string \<times> dataframe) list, unit) meth" where
  "stand_in_to_sql df name e if_exists schema =
     (let ref = (case schema of None \<Rightarrow> name
                 | Some s \<Rightarrow> dquote @ py_str s @ dquote @ ''.'' @ dquote @ name @ dquote)
      in case e of
           None \<Rightarrow> raise AttributeError
         | Some h \<Rightarrow>
             if if_exists = ''append'' then (\<lambda>w. (Inr (), stored_append ref df w))
             else if if_exists = ''replace'' then (\<lambda>w. (Inr (), AList.update ref df w))
             else if if_exists = ''fail'' then
               (\<lambda>w. case map_of w ref of
                  None \<Rightarrow> (Inr (), AList.update ref df w)
                | Some old \<Rightarrow> (Inl ValueError, w))
             else raise ValueError)"

definition stand_in_sql_lib :: "(string \<times> dataframe) list sql_lib" where
  "stand_in_sql_lib =
     \<lparr>path_mkdir_parents = (\<lambda>p. return ()),
      path_touch = (\<lambda>p. return ()),
      sqlite3_connect = (\<lambda>p. return 1),
      create_engine = (\<lambda>url. return 2),
      cursor_fetch = (\<lambda>c q. if q = ''SELECT 1'' then return [[''1'']]
                              else (\<lambda>w. (Inr (map (\<lambda>t. [fst t]) w), w))),
      read_sql_query = (\<lambda>q c. case c of None \<Rightarrow> raise AttributeError | Some h \<Rightarrow> stand_in_select q),
      engine_read_sql_query = (\<lambda>e q. stand_in_select q),
      to_sql = stand_in_to_sql,
      engine_connect_execute = (\<lambda>e q. seq (stand_in_execute q) (return ())),
      engine_begin_execute = (\<lambda>e q. stand_in_execute q),
      inspect_get_table_names = (\<lambda>e schema. case e of
          None \<Rightarrow> raise (LibraryError ''NoInspectionAvailable'')
        | Some h \<Rightarrow> (\<lambda>w. (Inr (map fst w), w))),
      connection_close = (\<lambda>c. return ()),
      engine_dispose = (\<lambda>e. return ())\<rparr>"

text \<open>
  A bucket store. A body is raw bytes or a serialised frame; the anonymous client
  (no access key) is refused by every call, the others are served. The query evaluator
  knows the two predicates \<^verbatim>\<open>index >= 0\<close> and \<^verbatim>\<open>index < 0\<close> and fails on any other
  expression.
\<close>

type_synonym s3_world = "((pyval \<times> pyval) \<times> (string + dataframe)) list"

definition s3_served :: "handle \<Rightarrow> (s3_world, 'a) meth \<Rightarrow> (s3_world, 'a) meth" where
  "s3_served c m = (if c = 0 then raise (ClientError ''InvalidAccessKeyId'') else m)"

definition stand_in_parse :: "string + dataframe \<Rightarrow> exn + dataframe" where
  "stand_in_parse body = (case body of Inl s \<Rightarrow> Inl (LibraryError ''ParserError'') | Inr df \<Rightarrow> Inr df)"

definition stand_in_query :: "dataframe \<Rightarrow> string \<Rightarrow> exn + nat list" where
  "stand_in_query df expr =
     (if expr = ''index >= 0'' then Inr [0..<len df]
      else if expr = ''index < 0'' then Inr []
      else Inl (LibraryError ''SyntaxError''))"

definition stand_in_s3_lib :: "(s3_world, string + dataframe) s3_lib" where
  "stand_in_s3_lib =
     \<lparr>boto3_client = (\<lambda>key secret token region. return (if truthy key then 1 else 0)),
      list_buckets = (\<lambda>c. s3_served c (\<lambda>w. (Inr (remdups (map (\<lambda>ent. py_str (fst (fst ent))) w)), w))),
      list_objects_v2 = (\<lambda>c bucket. s3_served c (return ())),
      paginate = (\<lambda>c bucket prefix. s3_served c
          (\<lambda>w. (Inr [Inr (map (\<lambda>ent. py_str (snd (fst ent)))
                          (filter (\<lambda>ent. fst (fst ent) = bucket
                                     \<and> starts_with (py_str prefix) (py_str (snd (fst ent)))) w))], w))),
      get_object_body = (\<lambda>c bucket key. s3_served c
          (\<lambda>w. case map_of w (bucket, key) of
               None \<Rightarrow> (Inl (ClientError ''NoSuchKey''), w)
             | Some body \<Rightarrow> (Inr body, w))),
      put_object = (\<lambda>c bucket key body. s3_served c (\<lambda>w. (Inr (), AList.update (bucket, key) body w))),
      delete_object = (\<lambda>c bucket key. s3_served c (\<lambda>w. (Inr (), AList.delete (bucket, key) w))),
      read_parquet = stand_in_parse,
      read_csv = stand_in_parse,
      to_parquet = (\<lambda>df. Inr (Inr df)),
      to_csv = (\<lambda>df. Inr (Inr df)),
      df_query = stand_in_query,
      bytes_literal = (\<lambda>s. Inl s)\<rparr>"

text \<open>
  A BigQuery project: tables by their full id. \<^verbatim>\<open>get_table\<close> and \<^verbatim>\<open>delete_table\<close>
  raise NotFound on a table that does not exist (the latter unless \<^verbatim>\<open>not_found_ok\<close>); a
  load job creates the table when needed and appends to it. A query is the probe
  \<^verbatim>\<open>SELECT 1\<close> or a DELETE of all the rows of a table; any other statement is rejected.
\<close>

definition stand_in_bigquery_lib :: "(string \<times> dataframe) list bigquery_lib" where
  "stand_in_bigquery_lib =
     \<lparr>from_service_account_json = (\<lambda>path project. return 1),
      bigquery_Client = (\<lambda>project. return 1),
      bq_project = (\<lambda>c. ''demo''),
      bq_list_datasets = (\<lambda>c. return []),
      bq_list_tables = (\<lambda>c ds. (\<lambda>w. (Inr (map fst w), w))),
      bq_query = (\<lambda>c q.
          if q = ''SELECT 1'' then return (\<lparr>columns = [''f0_''], rows = [[Num 1]]\<rparr>, None)
          else if starts_with (''DELETE FROM '' @ backtick) q \<and> endswith q (backtick @ '' WHERE TRUE'') then
            (\<lambda>w. let name = takeWhile (\<lambda>ch. ch \<noteq> CHR 0x60) (after_prefix (''DELETE FROM '' @ backtick) q)
                  in case map_of w name of
                       None \<Rightarrow> (Inl (LibraryError ''NotFound''), w)
                     | Some t \<Rightarrow> (Inr (empty_frame, Some (int (len t))),
                                    AList.update name (t\<lparr>rows := []\<rparr>) w))
          else raise (LibraryError ''BadRequest'')),
      bq_create_table = (\<lambda>c table_id. (\<lambda>w. case map_of w table_id of
           None \<Rightarrow> (Inr (), AList.update table_id \<lparr>columns = [''c''], rows = []\<rparr> w)
         | Some t \<Rightarrow> (Inr (), w))),
      bq_delete_table = (\<lambda>c table_id not_found_ok. (\<lambda>w. case map_of w table_id of
           None \<Rightarrow> if not_found_ok then (Inr (), w) else (Inl (LibraryError ''NotFound''), w)
         | Some t \<Rightarrow> (Inr (), AList.delete table_id w))),
      bq_get_table = (\<lambda>c table_id. (\<lambda>w. case map_of w table_id of
           None \<Rightarrow> (Inl (LibraryError ''NotFound''), w)
         | Some t \<Rightarrow> (Inr (), w))),
      bq_load_table_from_dataframe = (\<lambda>c df table_id. (\<lambda>w. (Inr (), stored_append table_id df w)))\<rparr>"

text \<open>A Snowflake schema: tables by their quoted name; an account is required to connect.\<close>

definition stand_in_snowflake_lib :: "(string \<times> dataframe) list snowflake_lib" where
  "stand_in_snowflake_lib =
     \<lparr>snowflake_connect = (\<lambda>account user password warehouse database schema.
          if truthy account then return 1 else raise (LibraryError ''DatabaseError'')),
      sf_execute = (\<lambda>c q.
          if starts_with ''CREATE TABLE IF NOT EXISTS '' q then
            (\<lambda>w. let name = takeWhile (\<lambda>ch. ch \<noteq> CHR '' '') (after_prefix ''CREATE TABLE IF NOT EXISTS '' q)
                  in case map_of w name of
                       None \<Rightarrow> (Inr None, AList.update name \<lparr>columns = [], rows = []\<rparr> w)
                     | Some t \<Rightarrow> (Inr None, w))
          else stand_in_execute q),
      sf_fetchall = (\<lambda>c q. (\<lambda>w. (Inr (map (\<lambda>t. [''created_on'', fst t]) w), w))),
      sf_fetch_pandas_all = (\<lambda>c q. stand_in_select q),
      write_pandas = (\<lambda>c df name. (\<lambda>w.
          case map_of w (dquote @ name @ dquote) of
            None \<Rightarrow> (Inl (LibraryError ''ProgrammingError''), w)
          | Some old \<Rightarrow> (Inr (True, 1, int (len df)),
                          AList.update (dquote @ name @ dquote)
                            \<lparr>columns = columns df, rows = rows old @ rows df\<rparr> w))),
      sf_close = (\<lambda>c. return ())\<rparr>"

section \<open>Sample data\<close>

definition sample_frame :: dataframe where
  "sample_frame = \<lparr>columns = [''a''], rows = [[Num 1], [Num 2], [Num 3], [Num 4], [Num 5]]\<rparr>"

definition sample_source :: memory_obj where
  "sample_source = \<lparr>tables = [(''t'', sample_frame)], calls = []\<rparr>"

definition empty_memory :: memory_obj where
  "empty_memory = \<lparr>tables = [], calls = []\<rparr>"

definition abacb_frame :: dataframe where
  "abacb_frame = \<lparr>columns = [''name''],
                   rows = [[Str ''A''], [Str ''B''], [Str ''A''], [Str ''C''], [Str ''B'']]\<rparr>"

definition abacb_store :: memory_obj where
  "abacb_store = \<lparr>tables = [(''t'', abacb_frame)], calls = []\<rparr>"

definition header_only_frame :: dataframe where
  "header_only_frame = \<lparr>columns = [''a''], rows = []\<rparr>"

definition header_only_store :: memory_obj where
  "header_only_store = \<lparr>tables = [(''t'', header_only_frame)], calls = []\<rparr>"

definition repeated_label_frame :: dataframe where
  "repeated_label_frame = \<lparr>columns = [''a'', ''a''], rows = [[Num 1, Num 2]]\<rparr>"

definition repeated_label_store :: memory_obj where
  "repeated_label_store = \<lparr>tables = [(''t'', repeated_label_frame)], calls = []\<rparr>"

text \<open>Credentials, provider objects after a successful \<^verbatim>\<open>connect\<close>, and stored data.\<close>

definition sqlite_credentials :: "string \<rightharpoonup> pyval" where
  "sqlite_credentials = [''db_path'' \<mapsto> PStr ''data.sqlite'']"

definition s3_credentials :: "string \<rightharpoonup> pyval" where
  "s3_credentials = [''aws_access_key_id'' \<mapsto> PStr ''AKIA'', ''aws_secret_access_key'' \<mapsto> PStr ''secret'',
                     ''bucket'' \<mapsto> PStr ''lake'']"

definition redshift_credentials :: "string \<rightharpoonup> pyval" where
  "redshift_credentials = [''host'' \<mapsto> PStr ''rs.example'', ''port'' \<mapsto> PInt 5439,
                           ''database'' \<mapsto> PStr ''dev'', ''user'' \<mapsto> PStr ''u'', ''password'' \<mapsto> PStr ''p'']"

definition bigquery_credentials :: "string \<rightharpoonup> pyval" where
  "bigquery_credentials = [''project_id'' \<mapsto> PStr ''demo'', ''dataset'' \<mapsto> PStr ''sales'',
                           ''keyfile_path'' \<mapsto> PStr ''key.json'']"

definition snowflake_credentials :: "string \<rightharpoonup> pyval" where
  "snowflake_credentials = [''account'' \<mapsto> PStr ''acct'', ''user'' \<mapsto> PStr ''u'']"

definition two_rows_frame :: dataframe where
  "two_rows_frame = \<lparr>columns = [''a''], rows = [[Num 8], [Num 9]]\<rparr>"

definition s3_connected :: s3_obj where
  "s3_connected = (S3Provider_init s3_credentials)\<lparr>p_connected := True, s3_client := Some 1\<rparr>"

definition lake_with_two_rows :: s3_world where
  "lake_with_two_rows = [((PStr ''lake'', PStr ''t.csv''), Inr two_rows_frame)]"

definition sqlite_connected :: sqlite_obj where
  "sqlite_connected =
     (SQLiteProvider_init sqlite_credentials)\<lparr>p_connected := True, sqlite_conn := Some 1, sqlite_engine := Some 2\<rparr>"

definition redshift_connected :: redshift_obj where
  "redshift_connected = (RedshiftProvider_init redshift_credentials)\<lparr>p_connected := True, rs_engine := Some 2\<rparr>"

definition bigquery_connected :: bigquery_obj where
  "bigquery_connected = (BigQueryProvider_init bigquery_credentials)\<lparr>p_connected := True, bq_client := Some 1\<rparr>"

definition snowflake_connected :: snowflake_obj where
  "snowflake_connected = (SnowflakeProvider_init snowflake_credentials)\<lparr>p_connected := True, sf_conn := Some 1\<rparr>"

definition stored_t :: "(string \<times> dataframe) list" where
  "stored_t = [(''t'', two_rows_frame)]"

definition stored_public_t :: "(string \<times> dataframe) list" where
  "stored_public_t = [(dquote @ ''public'' @ dquote @ ''.'' @ dquote @ ''t'' @ dquote, two_rows_frame)]"

definition stored_quoted_t :: "(string \<times> dataframe) list" where
  "stored_quoted_t = [(dquote @ ''t'' @ dquote, two_rows_frame)]"

definition stored_orders :: "(string \<times> dataframe) list" where
  "stored_orders = [(''demo.sales.orders'', two_rows_frame)]"

definition no_rows_frame :: dataframe where
  "no_rows_frame = two_rows_frame\<lparr>rows := []\<rparr>"

definition lake_with_parquet :: s3_world where
  "lake_with_parquet = [((PStr ''lake'', PStr ''t.parquet''), Inr two_rows_frame)]"

definition lake_with_header :: s3_world where
  "lake_with_header = [((PStr ''lake'', PStr ''t.csv''), Inr header_only_frame)]"

section \<open>Facts about the recordset operations\<close>

lemma duplicated_from_count:
  "length (filter (\<lambda>b. b) (duplicated_from seen rs)) + card (set rs - set seen) = length rs"
proof (induction rs arbitrary: seen)
  case Nil
  show ?case by simp
next
  case (Cons r rs)
  let ?d = "duplicated_from (r # seen) rs"
  have IH: "length (filter (\<lambda>b. b) ?d) + card (set rs - set (r # seen)) = length rs"
    by (rule Cons)
  show ?case
  proof (cases "r \<in> set seen")
    case True
    have e: "set (r # rs) - set seen = set rs - set (r # seen)"
      using True by auto
    have l: "length (filter (\<lambda>b. b) (duplicated_from seen (r # rs))) = Suc (length (filter (\<lambda>b. b) ?d))"
      using True by simp
    have "length (filter (\<lambda>b. b) (duplicated_from seen (r # rs))) + card (set (r # rs) - set seen)
        = Suc (length (filter (\<lambda>b. b) ?d) + card (set rs - set (r # seen)))"
      by (simp only: l e add_Suc)
    also have "\<dots> = length (r # rs)"
      by (simp only: IH length_Cons)
    finally show ?thesis .
  next
    case False
    have e: "set (r # rs) - set seen = insert r (set rs - set (r # seen))"
      using False by auto
    have n: "r \<notin> set rs - set (r # seen)"
      by simp
    have c: "card (set (r # rs) - set seen) = Suc (card (set rs - set (r # seen)))"
      unfolding e using n by (rule_tac card_insert_disjoint) auto
    have l: "length (filter (\<lambda>b. b) (duplicated_from seen (r # rs))) = length (filter (\<lambda>b. b) ?d)"
      using False by simp
    have "length (filter (\<lambda>b. b) (duplicated_from seen (r # rs))) + card (set (r # rs) - set seen)
        = Suc (length (filter (\<lambda>b. b) ?d) + card (set rs - set (r # seen)))"
      by (simp only: l c add_Suc_right)
    also have "\<dots> = length (r # rs)"
      by (simp only: IH length_Cons)
    finally show ?thesis .
  qed
qed

lemma duplicated_from_index:
  "duplicated_from seen rs = map (\<lambda>i. rs ! i \<in> set seen \<union> set (take i rs)) [0..<length rs]"
proof (induction rs arbitrary: seen)
  case Nil
  show ?case by simp
next
  case (Cons r rs)
  let ?f = "\<lambda>i. (r # rs) ! i \<in> set seen \<union> set (take i (r # rs))"
  have u: "[0..<length (r # rs)] = 0 # map Suc [0..<length rs]"
    by (metis length_Cons map_Suc_upt upt_conv_Cons zero_less_Suc)
  have H: "map (\<lambda>i. rs ! i \<in> set (r # seen) \<union> set (take i rs)) [0..<length rs]
      = map (\<lambda>i. ?f (Suc i)) [0..<length rs]"
    by (rule map_cong) auto
  have "duplicated_from seen (r # rs) = (r \<in> set seen) # duplicated_from (r # seen) rs"
    by simp
  also have "duplicated_from (r # seen) rs
      = map (\<lambda>i. rs ! i \<in> set (r # seen) \<union> set (take i rs)) [0..<length rs]"
    by (rule Cons)
  also note H
  finally have A: "duplicated_from seen (r # rs) = (r \<in> set seen) # map (\<lambda>i. ?f (Suc i)) [0..<length rs]" .
  have B: "map ?f (0 # map Suc [0..<length rs]) = ?f 0 # map (\<lambda>i. ?f (Suc i)) [0..<length rs]"
    by (simp only: list.map map_map comp_def)
  have C: "?f 0 = (r \<in> set seen)"
    by simp
  show ?case
    unfolding u A B C ..
qed

lemma keep_unmarked_Nil: "keep_unmarked [] marks = []"
  by (simp add: keep_unmarked_def)

lemma keep_unmarked_Cons:
  "keep_unmarked (x # xs) (d # ds) = (if d then keep_unmarked xs ds else x # keep_unmarked xs ds)"
  by (simp add: keep_unmarked_def)

lemma kept_set: "set (keep_unmarked rs (duplicated_from seen rs)) = set rs - set seen"
proof (induction rs arbitrary: seen)
  case Nil
  show ?case by (simp add: keep_unmarked_Nil)
next
  case (Cons r rs)
  have IH: "set (keep_unmarked rs (duplicated_from (r # seen) rs)) = set rs - set (r # seen)"
    by (rule Cons)
  show ?case
  proof (cases "r \<in> set seen")
    case True
    then have "set (r # rs) - set seen = set rs - set (r # seen)" by auto
    moreover have "keep_unmarked (r # rs) (duplicated_from seen (r # rs))
        = keep_unmarked rs (duplicated_from (r # seen) rs)"
      using True by (simp add: keep_unmarked_Cons)
    ultimately show ?thesis using IH by (simp only:)
  next
    case False
    then have "set (r # rs) - set seen = insert r (set rs - set (r # seen))" by auto
    moreover have "keep_unmarked (r # rs) (duplicated_from seen (r # rs))
        = r # keep_unmarked rs (duplicated_from (r # seen) rs)"
      using False by (simp add: keep_unmarked_Cons)
    ultimately show ?thesis using IH by (simp only: list.set)
  qed
qed

lemma kept_distinct: "distinct (keep_unmarked rs (duplicated_from seen rs))"
proof (induction rs arbitrary: seen)
  case Nil
  show ?case by (simp add: keep_unmarked_Nil)
next
  case (Cons r rs)
  have IH: "distinct (keep_unmarked rs (duplicated_from (r # seen) rs))"
    by (rule Cons)
  have n: "r \<notin> set (keep_unmarked rs (duplicated_from (r # seen) rs))"
    unfolding kept_set by simp
  show ?case
  proof (cases "r \<in> set seen")
    case True
    then show ?thesis using IH by (simp add: keep_unmarked_Cons)
  next
    case False
    then show ?thesis using IH n by (simp add: keep_unmarked_Cons)
  qed
qed

lemma kept_index:
  "keep_unmarked rs (duplicated_from [] rs)
     = map (\<lambda>i. rs ! i) (filter (\<lambda>i. rs ! i \<notin> set (take i rs)) [0..<length rs])"
proof -
  let ?P = "\<lambda>i. rs ! i \<in> set (take i rs)"
  have z: "zip rs (map ?P [0..<length rs]) = map (\<lambda>i. (rs ! i, ?P i)) [0..<length rs]"
    by (rule nth_equalityI) auto
  have d: "duplicated_from [] rs = map ?P [0..<length rs]"
    using duplicated_from_index[of "[]" rs] by simp
  have "keep_unmarked rs (duplicated_from [] rs)
      = map fst (filter (\<lambda>(r, d). \<not> d) (map (\<lambda>i. (rs ! i, ?P i)) [0..<length rs]))"
    unfolding keep_unmarked_def d z ..
  also have "\<dots> = map fst (map (\<lambda>i. (rs ! i, ?P i)) (filter (\<lambda>i. \<not> ?P i) [0..<length rs]))"
    by (simp only: filter_map comp_def split_conv)
  also have "\<dots> = map (\<lambda>i. rs ! i) (filter (\<lambda>i. \<not> ?P i) [0..<length rs])"
    by (simp only: map_map comp_def fst_conv)
  finally show ?thesis .
qed

lemma chunks_concat:
  "concat (map (\<lambda>k. take c (drop (k * c) xs)) [0..<j]) = take (j * c) xs"
proof (induction j)
  case 0
  show ?case by simp
next
  case (Suc j)
  have t: "take (j * c + c) xs = take (j * c) xs @ take c (drop (j * c) xs)"
    by (rule take_add)
  have "concat (map (\<lambda>k. take c (drop (k * c) xs)) [0..<Suc j])
      = concat (map (\<lambda>k. take c (drop (k * c) xs)) [0..<j]) @ take c (drop (j * c) xs)"
    by simp
  also have "\<dots> = take (j * c) xs @ take c (drop (j * c) xs)"
    by (simp only: Suc)
  also have "\<dots> = take (Suc j * c) xs"
    by (simp only: t[symmetric] mult_Suc add.commute)
  finally show ?case .
qed

section \<open>Running methods\<close>

lemma bind_Inr: "m s = (Inr x, s') \<Longrightarrow> bind m f s = f x s'"
  by (simp add: bind_def)

lemma bind_Inl: "m s = (Inl e, s') \<Longrightarrow> bind m f s = (Inl e, s')"
  by (simp add: bind_def)

lemma return_run: "return x s = (Inr x, s)"
  by (simp add: return_def)

lemma raise_run: "raise e s = (Inl e, s)"
  by (simp add: raise_def)

lemma on_source_run: "m (s, w) = (r, (s', w')) \<Longrightarrow> on_source m (s, d, w) = (r, (s', d, w'))"
  by (simp add: on_source_def)

lemma on_dest_run: "m (d, w) = (r, (d', w')) \<Longrightarrow> on_dest m (s, d, w) = (r, (s, d', w'))"
  by (simp add: on_dest_def)

lemma Memory_providers_methods:
  "read_table MemoryProvider = Memory_read_table"
  "write_table MemoryProvider = Memory_write_table"
  "delete_table MemoryProvider = Memory_delete_table"
  "delete_rows MemoryProvider = Memory_delete_rows"
  by (simp_all add: MemoryProvider_def)

lemma Memory_write_table_run:
  "Memory_write_table n x md (ob, w) = (Inr (int (len x)), (Memory_written n x md ob, w))"
  by (simp add: Memory_write_table_def Memory_written_def bind_def log_call_def assign_def
      return_def Let_def split: option.splits)

lemma calls_Memory_written: "calls (Memory_written n x md ob) = calls ob @ [WriteTable n x md]"
  by (simp add: Memory_written_def Let_def split: option.splits)

lemma migrate_chunks_Memory:
  "\<exists>m'. migrate_chunks MemoryProvider name df c idx t (s, m, w)
        = (Inr (t + sum_list (map (\<lambda>i. int (len (iloc df i (i + c)))) idx)), (s, m', w))
     \<and> calls m' = calls m @ map (\<lambda>i. WriteTable name (iloc df i (i + c)) ''append'') idx"
proof (induction idx arbitrary: t m)
  case Nil
  show ?case by (simp add: return_run)
next
  case (Cons i idx)
  let ?x = "iloc df i (i + c)"
  let ?m1 = "Memory_written name ?x ''append'' m"
  have w: "on_dest (write_table MemoryProvider name ?x ''append'') (s, m, w)
      = (Inr (int (len ?x)), (s, ?m1, w))"
    by (rule on_dest_run) (simp only: Memory_providers_methods Memory_write_table_run)
  obtain m' where
    r: "migrate_chunks MemoryProvider name df c idx (t + int (len ?x)) (s, ?m1, w)
        = (Inr (t + int (len ?x) + sum_list (map (\<lambda>i. int (len (iloc df i (i + c)))) idx)), (s, m', w))"
    and c: "calls m' = calls ?m1 @ map (\<lambda>i. WriteTable name (iloc df i (i + c)) ''append'') idx"
    using Cons[of "t + int (len ?x)" ?m1] by blast
  have "migrate_chunks MemoryProvider name df c (i # idx) t (s, m, w)
      = migrate_chunks MemoryProvider name df c idx (t + int (len ?x)) (s, ?m1, w)"
    by (simp add: bind_def w)
  with r c show ?case
    by (simp add: calls_Memory_written add.assoc)
qed

lemma migrate_chunks_generic:
  assumes contract: "\<And>nm x md \<sigma> k \<sigma>1. write_table dest nm x md \<sigma> = (Inr k, \<sigma>1) \<Longrightarrow> k = int (len x)"
  shows "migrate_chunks dest name df c idx t (s, d, w) = (Inr k, \<sigma>')
     \<Longrightarrow> k = t + sum_list (map (\<lambda>i. int (len (iloc df i (i + c)))) idx)"
proof (induction idx arbitrary: t s d w)
  case Nil
  then show ?case by (simp add: return_run)
next
  case (Cons i idx)
  let ?x = "iloc df i (i + c)"
  obtain r d1 w1 where wr: "write_table dest name ?x ''append'' (d, w) = (r, (d1, w1))"
    by (metis prod.exhaust)
  have od: "on_dest (write_table dest name ?x ''append'') (s, d, w) = (r, (s, d1, w1))"
    using wr by (rule on_dest_run)
  show ?case
  proof (cases r)
    case (Inl e)
    have "migrate_chunks dest name df c (i # idx) t (s, d, w) = (Inl e, (s, d1, w1))"
      using od Inl by (simp add: bind_def)
    with Cons.prems show ?thesis by simp
  next
    case (Inr n)
    have n: "n = int (len ?x)"
      using wr Inr contract by blast
    have "migrate_chunks dest name df c (i # idx) t (s, d, w)
        = migrate_chunks dest name df c idx (t + n) (s, d1, w1)"
      using od Inr by (simp add: bind_def)
    with Cons.prems have "migrate_chunks dest name df c idx (t + n) (s, d1, w1) = (Inr k, \<sigma>')"
      by simp
    then have "k = t + n + sum_list (map (\<lambda>i. int (len (iloc df i (i + c)))) idx)"
      by (rule Cons.IH)
    then show ?thesis using n by simp
  qed
qed

lemma take_drop_clamped:
  "take (min (length xs) (a + c) - min (length xs) a) (drop (min (length xs) a) xs) = take c (drop a xs)"
proof (cases "a \<le> length xs")
  case True
  have "min (length xs) (a + c) - a = min (length (drop a xs)) c"
    using True unfolding length_drop by arith
  moreover have "take (min (length (drop a xs)) c) (drop a xs) = take c (drop a xs)"
    by (metis min.commute take_all_iff take_take order_refl)
  ultimately show ?thesis
    using True by (simp add: min_absorb2)
next
  case False
  then show ?thesis by (simp add: min_absorb1)
qed

lemma slice_index_nat: "slice_index n (int a) = min n a"
  by (simp add: slice_index_def)

lemma iloc_chunk_rows:
  "rows (iloc df (int k * int c) (int k * int c + int c)) = take c (drop (k * c) (rows df))"
proof -
  let ?n = "length (rows df)"
  have b: "int k * int c + int c = int (k * c + c)" by simp
  have a: "int k * int c = int (k * c)" by simp
  have "rows (iloc df (int (k * c)) (int (k * c + c)))
      = take (min ?n (k * c + c) - min ?n (k * c)) (drop (min ?n (k * c)) (rows df))"
    unfolding iloc_def Let_def slice_index_nat len_def by simp
  also have "\<dots> = take c (drop (k * c) (rows df))"
    by (rule take_drop_clamped)
  finally show ?thesis
    by simp
qed

lemma iloc_columns: "columns (iloc df a b) = columns df"
  by (simp add: iloc_def Let_def)

lemma py_range_pos:
  assumes "0 < c"
  shows "py_range 0 (int n) (int c) = Inr (map (\<lambda>k. int k * int c) [0..<(n + c - 1) div c])"
proof -
  have "int n - 0 + int c - 1 = int (n + c - 1)"
    using assms by (simp add: of_nat_diff)
  then have "nat ((int n - 0 + int c - 1) div int c) = (n + c - 1) div c"
    by (simp only: zdiv_int[symmetric] nat_int)
  then show ?thesis
    using assms by (simp add: py_range_def)
qed

lemma chunk_count:
  assumes "0 < (c::nat)" and "0 < n"
  shows "(n + c - 1) div c = (n - 1) div c + 1"
proof -
  have "n + c - 1 = (n - 1) + c" using assms by simp
  then show ?thesis using assms by (simp only: div_add_self2)
qed

lemma chunk_count_upper:
  assumes "0 < (c::nat)" and "0 < n"
  shows "n \<le> ((n + c - 1) div c) * c"
proof -
  have "(n - 1) mod c < c" using assms by simp
  moreover have "(n - 1) div c * c + (n - 1) mod c = n - 1" by simp
  ultimately have "n - 1 < (n - 1) div c * c + c" by linarith
  then show ?thesis
    unfolding chunk_count[OF assms] using assms by (simp add: algebra_simps)
qed

lemma chunk_count_lower:
  assumes "0 < (c::nat)" and "0 < n"
  shows "((n + c - 1) div c - 1) * c < n"
proof -
  have "(n - 1) div c * c \<le> n - 1" by simp
  then have "(n - 1) div c * c < n" using assms by linarith
  then show ?thesis
    unfolding chunk_count[OF assms] by simp
qed

lemma chunk_list_concat:
  assumes "0 < c" and "0 < length xs"
  shows "concat (map (\<lambda>k. take c (drop (k * c) xs)) [0..<(length xs + c - 1) div c]) = xs"
proof -
  have "length xs \<le> ((length xs + c - 1) div c) * c"
    using assms by (rule chunk_count_upper)
  then show ?thesis
    unfolding chunks_concat by (rule take_all)
qed

lemma chunk_list_full:
  assumes "0 < c" and "0 < length xs" and "k < (length xs + c - 1) div c - 1"
  shows "length (take c (drop (k * c) xs)) = c"
proof -
  have "Suc k \<le> (length xs + c - 1) div c - 1" using assms(3) by simp
  then have "Suc k * c \<le> ((length xs + c - 1) div c - 1) * c" by (rule mult_le_mono1)
  also have "\<dots> < length xs" using assms(1,2) by (rule chunk_count_lower)
  finally have "k * c + c < length xs" by (simp add: add.commute)
  then show ?thesis by simp
qed

lemma chunk_list_last:
  assumes "0 < c" and "0 < length xs"
  shows "0 < length (take c (drop (((length xs + c - 1) div c - 1) * c) xs))"
    and "length (take c (drop (((length xs + c - 1) div c - 1) * c) xs)) \<le> c"
proof -
  have "((length xs + c - 1) div c - 1) * c < length xs"
    using assms by (rule chunk_count_lower)
  then show "0 < length (take c (drop (((length xs + c - 1) div c - 1) * c) xs))"
    using assms(1) by simp
  show "length (take c (drop (((length xs + c - 1) div c - 1) * c) xs)) \<le> c"
    by simp
qed

lemma chunk_count_pos:
  assumes "0 < (c::nat)" and "0 < n"
  shows "0 < (n + c - 1) div c"
  unfolding chunk_count[OF assms] by simp

lemma chunk_count_one:
  assumes "0 < (c::nat)" and "0 < n" and "n \<le> c"
  shows "(n + c - 1) div c = 1"
proof -
  have "(n - 1) div c = 0" using assms by simp
  then show ?thesis unfolding chunk_count[OF assms(1,2)] by simp
qed

lemma chunk_count_int:
  assumes "0 < c"
  shows "int ((n + c - 1) div c) = (int n + int c - 1) div int c"
proof -
  have "int n + int c - 1 = int (n + c - 1)"
    using assms by (simp add: of_nat_diff)
  then show ?thesis
    by (simp only: zdiv_int)
qed

lemma migrate_table_unfold:
  assumes "read_table source table_name None (s, w) = (Inr df, (s', w'))"
  shows "migrate_table source dest table_name chunk_size (s, d, w) =
     (if df_empty df then
        bind (on_dest (write_table dest table_name df ''append'')) (\<lambda>n. return 0)
      else if int (len df) \<le> chunk_size then
        bind (on_dest (write_table dest table_name df ''append'')) (\<lambda>n. return (0 + n))
      else
        (case py_range 0 (int (len df)) chunk_size of
           Inl e \<Rightarrow> raise e
         | Inr indices \<Rightarrow> migrate_chunks dest table_name df chunk_size indices 0)) (s', d, w')"
proof -
  have "on_source (read_table source table_name None) (s, d, w) = (Inr df, (s', d, w'))"
    using assms by (rule on_source_run)
  then show ?thesis
    unfolding migrate_table_def by (rule bind_Inr)
qed


section \<open>Migration\<close>

lemma int_sum_list: "sum_list (map (\<lambda>x. int (f x)) xs) = int (sum_list (map f xs))"
  by (induction xs) simp_all

lemma butlast_upt0: "butlast [0..<M] = [0..<M - 1]"
  by (cases M) simp_all

lemma upt_3: "[0..<3] = [0, 1, 2::nat]"
  by code_simp

lemma chunk_sum:
  assumes "0 < c" and "0 < length (rows df)"
  shows "sum_list (map (\<lambda>i. int (len (iloc df i (i + int c))))
           (map (\<lambda>k. int k * int c) [0..<(length (rows df) + c - 1) div c]))
         = int (length (rows df))"
proof -
  let ?M = "(length (rows df) + c - 1) div c"
  let ?ch = "\<lambda>k. take c (drop (k * c) (rows df))"
  have "sum_list (map (\<lambda>i. int (len (iloc df i (i + int c)))) (map (\<lambda>k. int k * int c) [0..<?M]))
      = sum_list (map (\<lambda>k. int (length (?ch k))) [0..<?M])"
    by (simp only: map_map comp_def len_def iloc_chunk_rows)
  also have "\<dots> = int (sum_list (map (\<lambda>k. length (?ch k)) [0..<?M]))"
    by (rule int_sum_list)
  also have "sum_list (map (\<lambda>k. length (?ch k)) [0..<?M]) = length (concat (map ?ch [0..<?M]))"
    by (simp only: length_concat map_map comp_def)
  also have "concat (map ?ch [0..<?M]) = rows df"
    using assms by (rule chunk_list_concat)
  finally show ?thesis .
qed

lemma migrate_table_returns_row_count:
  assumes rd: "read_table source table_name None (s, w) = (Inr df, (s', w'))"
      and ne: "\<not> df_empty df"
      and pos: "0 < chunk_size"
      and contract: "\<And>nm x md \<sigma> k \<sigma>1. write_table dest nm x md \<sigma> = (Inr k, \<sigma>1) \<Longrightarrow> k = int (len x)"
      and run: "migrate_table source dest table_name chunk_size (s, d, w) = (Inr k, \<sigma>')"
  shows "k = int (len df)"
proof -
  define c where "c = nat chunk_size"
  have cs: "chunk_size = int c" and cpos: "0 < c"
    using pos by (simp_all add: c_def)
  have npos: "0 < length (rows df)"
    using ne by (simp add: df_empty_def)
  show ?thesis
  proof (cases "int (len df) \<le> chunk_size")
    case True
    obtain r d1 w1 where wr: "write_table dest table_name df ''append'' (d, w') = (r, (d1, w1))"
      by (metis prod.exhaust)
    have od: "on_dest (write_table dest table_name df ''append'') (s', d, w') = (r, (s', d1, w1))"
      using wr by (rule on_dest_run)
    show ?thesis
    proof (cases r)
      case (Inl e)
      have "migrate_table source dest table_name chunk_size (s, d, w) = (Inl e, (s', d1, w1))"
        unfolding migrate_table_unfold[OF rd] using ne True od Inl by (simp add: bind_def)
      with run show ?thesis by simp
    next
      case (Inr j)
      have j: "j = int (len df)"
        using wr Inr contract by blast
      have "migrate_table source dest table_name chunk_size (s, d, w) = (Inr (0 + j), (s', d1, w1))"
        unfolding migrate_table_unfold[OF rd] using ne True od Inr by (simp add: bind_def return_def)
      with run j show ?thesis by simp
    qed
  next
    case False
    let ?idx = "map (\<lambda>k. int k * int c) [0..<(length (rows df) + c - 1) div c]"
    have pr: "py_range 0 (int (len df)) chunk_size = Inr ?idx"
      unfolding len_def cs using cpos by (rule py_range_pos)
    have "migrate_table source dest table_name chunk_size (s, d, w)
        = migrate_chunks dest table_name df chunk_size ?idx 0 (s', d, w')"
      unfolding migrate_table_unfold[OF rd] using ne False by (simp add: pr)
    with run have "migrate_chunks dest table_name df chunk_size ?idx 0 (s', d, w') = (Inr k, \<sigma>')"
      by simp
    then have "k = 0 + sum_list (map (\<lambda>i. int (len (iloc df i (i + chunk_size)))) ?idx)"
      using contract by (rule migrate_chunks_generic[rotated])
    then show ?thesis
      unfolding cs chunk_sum[OF cpos npos] by (simp add: len_def)
  qed
qed

text \<open>
  Claim C1. For a source table that is not empty (\<^verbatim>\<open>df.empty\<close> is false) and a
  positive chunk size, \<^verbatim>\<open>migrate_table\<close> into the recording provider returns the
  number of source rows and issues exactly ceil(N / chunk_size) writes, all in append mode
  and under the table's name; the chunks written, in order, concatenate to the source
  rows, every chunk but the last has chunk_size rows and the last has between 1 and
  chunk_size rows. With 12000 rows and chunk_size 5000 the writes carry 5000, 5000 and
  2000 rows. For any destination whose \<^verbatim>\<open>write_table\<close> returns the row count of its
  input, a call that returns, returns the number of source rows. (For a chunk size of
  zero \<^verbatim>\<open>range\<close> raises ValueError, for a negative one no write is issued and 0 is
  returned; the claim is about chunk sizes, which are positive.)
\<close>

theorem migrate_table_chunks:
  fixes source :: "('s, 'w) DataProvider" and m :: memory_obj and d0 :: 'd
  assumes rd: "read_table source table_name None (s, w) = (Inr df, (s', w'))"
      and ne: "\<not> df_empty df"
      and pos: "0 < chunk_size"
  shows "\<exists>m' chunks.
      migrate_table source MemoryProvider table_name chunk_size (s, m, w)
        = (Inr (int (len df)), (s', m', w'))
    \<and> calls m' = calls m @ map (\<lambda>x. WriteTable table_name x ''append'') chunks
    \<and> int (length chunks) = (int (len df) + chunk_size - 1) div chunk_size
    \<and> concat (map rows chunks) = rows df
    \<and> (\<forall>x \<in> set chunks. columns x = columns df)
    \<and> (\<forall>x \<in> set (butlast chunks). int (len x) = chunk_size)
    \<and> chunks \<noteq> [] \<and> 0 < len (last chunks) \<and> int (len (last chunks)) \<le> chunk_size
    \<and> (len df = 12000 \<and> chunk_size = 5000 \<longrightarrow> map len chunks = [5000, 5000, 2000])
    \<and> (\<forall>dest k \<sigma>'.
         (\<forall>nm x md \<sigma> j \<sigma>1. write_table dest nm x md \<sigma> = (Inr j, \<sigma>1) \<longrightarrow> j = int (len x))
         \<longrightarrow> migrate_table source dest table_name chunk_size (s, d0, w) = (Inr k, \<sigma>')
         \<longrightarrow> k = int (len df))"
proof -
  define c where "c = nat chunk_size"
  have cs: "chunk_size = int c" and cpos: "0 < c"
    using pos by (simp_all add: c_def)
  define n where "n = length (rows df)"
  have npos: "0 < n" and npos': "0 < length (rows df)"
    using ne by (simp_all add: df_empty_def n_def)
  have lenn: "len df = n"
    by (simp add: len_def n_def)
  define M where "M = (n + c - 1) div c"
  define g where "g = (\<lambda>k. length (take c (drop (k * c) (rows df))))"
  define chunks where "chunks =
    (if n \<le> c then [df] else map (\<lambda>k. iloc df (int k * int c) (int k * int c + int c)) [0..<M])"
  have Mpos: "0 < M"
    unfolding M_def using cpos npos by (rule chunk_count_pos)
  have R: "map rows chunks = map (\<lambda>k. take c (drop (k * c) (rows df))) [0..<M]"
  proof (cases "n \<le> c")
    case True
    then have "M = 1" unfolding M_def using cpos npos by (simp only: chunk_count_one)
    moreover have "take c (rows df) = rows df" using True by (simp add: n_def)
    ultimately show ?thesis using True by (simp add: chunks_def)
  next
    case False
    then show ?thesis by (simp add: chunks_def iloc_chunk_rows comp_def)
  qed
  have lenM: "length chunks = M"
    using arg_cong[OF R, of length] by simp
  have G: "map len chunks = map g [0..<M]"
  proof -
    have "map len chunks = map length (map rows chunks)"
      by (simp add: len_def comp_def)
    also have "\<dots> = map g [0..<M]"
      unfolding R g_def by (simp only: map_map comp_def)
    finally show ?thesis .
  qed
  have P3: "int (length chunks) = (int (len df) + chunk_size - 1) div chunk_size"
    unfolding lenM lenn cs M_def using cpos by (rule chunk_count_int)
  have P4: "concat (map rows chunks) = rows df"
    unfolding R M_def n_def using cpos npos' by (rule chunk_list_concat)
  have P5: "\<forall>x \<in> set chunks. columns x = columns df"
    by (auto simp: chunks_def iloc_columns)
  have P6: "\<forall>x \<in> set (butlast chunks). int (len x) = chunk_size"
  proof
    fix x assume "x \<in> set (butlast chunks)"
    then have "len x \<in> set (map len (butlast chunks))" by simp
    also have "map len (butlast chunks) = map g [0..<M - 1]"
      by (simp only: map_butlast G butlast_upt0[symmetric])
    finally obtain k where k: "k < M - 1" and x: "len x = g k" by auto
    have "g k = c"
      unfolding g_def using cpos npos' k[unfolded M_def n_def] by (rule chunk_list_full)
    then show "int (len x) = chunk_size" by (simp add: x cs)
  qed
  have P7: "chunks \<noteq> []"
    using lenM Mpos by auto
  have lastlen: "len (last chunks) = g (M - 1)"
  proof -
    have "len (last chunks) = last (map len chunks)"
      using P7 by (simp add: last_map)
    also have "\<dots> = g (M - 1)"
      unfolding G using Mpos by (simp add: last_map)
    finally show ?thesis .
  qed
  have P8: "0 < len (last chunks)"
    unfolding lastlen g_def M_def n_def using cpos npos' by (rule chunk_list_last(1))
  have P9: "int (len (last chunks)) \<le> chunk_size"
    unfolding lastlen g_def cs by simp
  have P10: "len df = 12000 \<and> chunk_size = 5000 \<longrightarrow> map len chunks = [5000, 5000, 2000]"
  proof
    assume a: "len df = 12000 \<and> chunk_size = 5000"
    then have n: "length (rows df) = 12000" and c: "c = 5000"
      by (simp_all add: len_def c_def)
    have "M = 3" unfolding M_def n_def n c by simp
    then show "map len chunks = [5000, 5000, 2000]"
      unfolding G by (simp add: upt_3 g_def n c)
  qed
  have total: "sum_list (map (\<lambda>x. int (len x)) chunks) = int (len df)"
  proof -
    have "sum_list (map len chunks) = length (concat (map rows chunks))"
      by (simp add: length_concat comp_def len_def[abs_def])
    then show ?thesis
      unfolding int_sum_list P4 lenn n_def by simp
  qed
  have run: "\<exists>m'. migrate_table source MemoryProvider table_name chunk_size (s, m, w)
        = (Inr (int (len df)), (s', m', w'))
      \<and> calls m' = calls m @ map (\<lambda>x. WriteTable table_name x ''append'') chunks"
  proof (cases "n \<le> c")
    case True
    then have le: "int (len df) \<le> chunk_size" by (simp add: lenn cs)
    have ch: "chunks = [df]" using True by (simp add: chunks_def)
    let ?m1 = "Memory_written table_name df ''append'' m"
    have wr: "on_dest (write_table MemoryProvider table_name df ''append'') (s', m, w')
        = (Inr (int (len df)), (s', ?m1, w'))"
      by (rule on_dest_run) (simp only: Memory_providers_methods Memory_write_table_run)
    have "migrate_table source MemoryProvider table_name chunk_size (s, m, w)
        = (Inr (int (len df)), (s', ?m1, w'))"
      unfolding migrate_table_unfold[OF rd] using ne le by (simp add: bind_def wr return_def)
    moreover have "calls ?m1 = calls m @ map (\<lambda>x. WriteTable table_name x ''append'') chunks"
      unfolding ch calls_Memory_written by simp
    ultimately show ?thesis
      by (intro exI[of _ ?m1] conjI)
  next
    case False
    then have gt: "\<not> int (len df) \<le> chunk_size" by (simp add: lenn cs)
    let ?idx = "map (\<lambda>k. int k * int c) [0..<M]"
    have pr: "py_range 0 (int (len df)) chunk_size = Inr ?idx"
      unfolding lenn cs M_def using cpos by (rule py_range_pos)
    have ch: "chunks = map (\<lambda>i. iloc df i (i + chunk_size)) ?idx"
      using False by (simp add: chunks_def cs comp_def)
    obtain m' where
      r: "migrate_chunks MemoryProvider table_name df chunk_size ?idx 0 (s', m, w')
          = (Inr (0 + sum_list (map (\<lambda>i. int (len (iloc df i (i + chunk_size)))) ?idx)), (s', m', w'))"
      and cl: "calls m' = calls m @ map (\<lambda>i. WriteTable table_name (iloc df i (i + chunk_size)) ''append'') ?idx"
      using migrate_chunks_Memory[of table_name df chunk_size ?idx 0 s' m w'] by blast
    have s: "sum_list (map (\<lambda>i. int (len (iloc df i (i + chunk_size)))) ?idx)
        = sum_list (map (\<lambda>x. int (len x)) chunks)"
      unfolding ch by (simp only: map_map comp_def)
    have cl': "map (\<lambda>i. WriteTable table_name (iloc df i (i + chunk_size)) ''append'') ?idx
        = map (\<lambda>x. WriteTable table_name x ''append'') chunks"
      unfolding ch by (simp only: map_map comp_def)
    have "migrate_table source MemoryProvider table_name chunk_size (s, m, w)
        = migrate_chunks MemoryProvider table_name df chunk_size ?idx 0 (s', m, w')"
      unfolding migrate_table_unfold[OF rd] using ne gt by (simp add: pr)
    then have "migrate_table source MemoryProvider table_name chunk_size (s, m, w)
        = (Inr (int (len df)), (s', m', w'))"
      unfolding r s total by simp
    moreover have "calls m' = calls m @ map (\<lambda>x. WriteTable table_name x ''append'') chunks"
      using cl unfolding cl' .
    ultimately show ?thesis
      by (intro exI[of _ m'] conjI)
  qed
  then obtain m' where
    Q1: "migrate_table source MemoryProvider table_name chunk_size (s, m, w)
        = (Inr (int (len df)), (s', m', w'))"
    and Q2: "calls m' = calls m @ map (\<lambda>x. WriteTable table_name x ''append'') chunks"
    by blast
  have P11: "\<forall>dest k \<sigma>'.
         (\<forall>nm x md \<sigma> j \<sigma>1. write_table dest nm x md \<sigma> = (Inr j, \<sigma>1) \<longrightarrow> j = int (len x))
         \<longrightarrow> migrate_table source dest table_name chunk_size (s, d0, w) = (Inr k, \<sigma>')
         \<longrightarrow> k = int (len df)"
  proof (intro allI impI)
    fix dest :: "('d, 'w) DataProvider" and k \<sigma>'
    assume ct: "\<forall>nm x md \<sigma> j \<sigma>1. write_table dest nm x md \<sigma> = (Inr j, \<sigma>1) \<longrightarrow> j = int (len x)"
      and rn: "migrate_table source dest table_name chunk_size (s, d0, w) = (Inr k, \<sigma>')"
    from ct have ct': "\<And>nm x md \<sigma> j \<sigma>1. write_table dest nm x md \<sigma> = (Inr j, \<sigma>1) \<Longrightarrow> j = int (len x)"
      by blast
    show "k = int (len df)"
      using rd ne pos ct' rn by (rule migrate_table_returns_row_count)
  qed
  show ?thesis
    by (intro exI[of _ m'] exI[of _ chunks] conjI Q1 Q2 P3 P4 P5 P6 P7 P8 P9 P10 P11)
qed

lemmas run_simps = bind_def return_def raise_def self_def assign_def log_call_def
  Memory_providers_methods Memory_read_table_def Memory_write_table_def Memory_delete_table_def
  has_limit_def

theorem migrate_table_chunks_witness:
  "read_table MemoryProvider ''t'' None (sample_source, ())
     = (Inr sample_frame, (sample_source\<lparr>calls := [ReadTable ''t'' None]\<rparr>, ()))
   \<and> \<not> df_empty sample_frame \<and> (0::int) < 2
   \<and> (\<exists>m' chunks.
        migrate_table MemoryProvider MemoryProvider ''t'' 2 (sample_source, empty_memory, ())
          = (Inr 5, (sample_source\<lparr>calls := [ReadTable ''t'' None]\<rparr>, m', ()))
      \<and> calls m' = map (\<lambda>x. WriteTable ''t'' x ''append'') chunks
      \<and> length chunks = 3
      \<and> concat (map rows chunks) = rows sample_frame)"
proof -
  have rd: "read_table MemoryProvider ''t'' None (sample_source, ())
     = (Inr sample_frame, (sample_source\<lparr>calls := [ReadTable ''t'' None]\<rparr>, ()))"
    by (simp add: run_simps sample_source_def)
  have ne: "\<not> df_empty sample_frame"
    by (simp add: df_empty_def sample_frame_def)
  have pos: "(0::int) < 2" by simp
  obtain m' chunks where
    a: "migrate_table MemoryProvider MemoryProvider ''t'' 2 (sample_source, empty_memory, ())
          = (Inr (int (len sample_frame)), (sample_source\<lparr>calls := [ReadTable ''t'' None]\<rparr>, m', ()))"
    and b: "calls m' = calls empty_memory @ map (\<lambda>x. WriteTable ''t'' x ''append'') chunks"
    and c: "int (length chunks) = (int (len sample_frame) + 2 - 1) div 2"
    and d: "concat (map rows chunks) = rows sample_frame"
    using migrate_table_chunks[OF rd ne pos, of empty_memory empty_memory] by blast
  have l: "len sample_frame = 5"
    by (simp add: len_def sample_frame_def)
  have a': "migrate_table MemoryProvider MemoryProvider ''t'' 2 (sample_source, empty_memory, ())
          = (Inr 5, (sample_source\<lparr>calls := [ReadTable ''t'' None]\<rparr>, m', ()))"
    using a unfolding l by simp
  have b': "calls m' = map (\<lambda>x. WriteTable ''t'' x ''append'') chunks"
    using b by (simp add: empty_memory_def)
  have c': "length chunks = 3"
    using c unfolding l by simp
  show ?thesis
    by (intro conjI exI[of _ m'] exI[of _ chunks] rd ne pos a' b' c' d)
qed

lemma sum_bools_duplicated:
  "sum_bools (duplicated df) = int (len df) - int (card (set (rows df)))"
proof -
  have "length (filter (\<lambda>b. b) (duplicated_from [] (rows df))) + card (set (rows df) - set [])
      = length (rows df)"
    by (rule duplicated_from_count)
  then have "length (filter (\<lambda>b. b) (duplicated_from [] (rows df))) + card (set (rows df))
      = length (rows df)"
    by simp
  then show ?thesis
    unfolding sum_bools_def duplicated_def len_def by linarith
qed

lemma quality_report_returns:
  assumes "df_empty df \<or> distinct (columns df)"
  shows "\<exists>rep. quality_report df = Inr rep"
  using assms by (auto simp add: quality_report_def Let_def)

lemma quality_report_raises:
  assumes "\<not> df_empty df" and "\<not> distinct (columns df)"
  shows "quality_report df = Inl TypeError"
  using assms by (simp add: quality_report_def Let_def)

lemma duplicates_quality_report:
  assumes "quality_report df = Inr rep"
  shows "duplicates rep = (if df_empty df then 0 else sum_bools (duplicated df))"
  using assms by (auto simp add: quality_report_def Let_def split: if_splits)

lemma report_rows_quality_report:
  assumes "quality_report df = Inr rep"
  shows "report_rows rep = int (len df)"
  using assms by (auto simp add: quality_report_def Let_def split: if_splits)

lemma duplicates_count:
  assumes c: "rows df = [] \<or> columns df \<noteq> []" and q: "quality_report df = Inr rep"
  shows "duplicates rep = int (len df) - int (card (set (rows df)))"
proof (cases "df_empty df")
  case True
  with c have "rows df = []" by (auto simp: df_empty_def)
  then show ?thesis
    using True by (simp add: duplicates_quality_report[OF q] len_def)
next
  case False
  then show ?thesis
    by (simp only: duplicates_quality_report[OF q] sum_bools_duplicated if_False)
qed

lemma rows_drop_duplicates:
  "rows (drop_duplicates df) = keep_unmarked (rows df) (duplicated_from [] (rows df))"
  by (simp add: drop_duplicates_def duplicated_def)

lemma columns_drop_duplicates: "columns (drop_duplicates df) = columns df"
  by (simp add: drop_duplicates_def)

lemma set_drop_duplicates: "set (rows (drop_duplicates df)) = set (rows df)"
  unfolding rows_drop_duplicates kept_set by simp

lemma distinct_drop_duplicates: "distinct (rows (drop_duplicates df))"
  unfolding rows_drop_duplicates by (rule kept_distinct)

lemma len_drop_duplicates: "len (drop_duplicates df) = card (set (rows df))"
proof -
  have "card (set (rows (drop_duplicates df))) = length (rows (drop_duplicates df))"
    using distinct_drop_duplicates by (rule distinct_card)
  then show ?thesis
    unfolding set_drop_duplicates len_def by simp
qed

lemma rows_drop_duplicates_index:
  "rows (drop_duplicates df)
     = map (\<lambda>i. rows df ! i) (filter (\<lambda>i. rows df ! i \<notin> set (take i (rows df))) [0..<len df])"
  unfolding rows_drop_duplicates len_def by (rule kept_index)

lemma duplicates_after_drop:
  assumes q: "quality_report (drop_duplicates df) = Inr rep"
  shows "duplicates rep = 0"
proof -
  have "sum_bools (duplicated (drop_duplicates df)) = 0"
    unfolding sum_bools_duplicated len_drop_duplicates set_drop_duplicates by simp
  then show ?thesis
    by (simp add: duplicates_quality_report[OF q])
qed

lemma removed_is_duplicates:
  assumes ne: "\<not> df_empty df" and q: "quality_report df = Inr rep"
  shows "duplicates rep = int (len df) - int (len (drop_duplicates df))"
  using ne by (simp only: duplicates_quality_report[OF q] sum_bools_duplicated len_drop_duplicates if_False)

lemma Memory_read_table_run:
  assumes "map_of (tables ob) table_name = Some df"
  shows "Memory_read_table table_name None (ob, w)
     = (Inr df, (ob\<lparr>calls := calls ob @ [ReadTable table_name None]\<rparr>, w))"
  using assms by (simp add: Memory_read_table_def bind_def log_call_def assign_def self_def
      return_def has_limit_def)

lemma Memory_delete_table_run:
  "Memory_delete_table table_name (ob, w)
     = (Inr (), (ob\<lparr>calls := calls ob @ [DeleteTable table_name],
                     tables := AList.delete table_name (tables ob)\<rparr>, w))"
  by (simp add: Memory_delete_table_def bind_def log_call_def assign_def)

lemma tables_Memory_written_absent:
  assumes "map_of (tables ob) table_name = None"
  shows "tables (Memory_written table_name df if_exists ob) = AList.update table_name df (tables ob)"
  using assms by (simp add: Memory_written_def Let_def)

lemma map_of_Memory_written_absent:
  assumes "map_of (tables ob) table_name = None"
  shows "map_of (tables (Memory_written table_name df if_exists ob)) table_name = Some df"
  unfolding tables_Memory_written_absent[OF assms] by (simp add: update_conv')

lemma apply_corrections_unfold:
  assumes "read_table provider table_name None \<sigma> = (Inr df, \<sigma>1)"
  shows "apply_corrections provider table_name \<sigma> =
     (if df_empty df then return 0
      else
        let before = int (len df); df2 = drop_duplicates df in
        bind (delete_table provider table_name) (\<lambda>u.
        bind (write_table provider table_name df2 ''replace'') (\<lambda>n.
        return (before - int (len df2))))) \<sigma>1"
  unfolding apply_corrections_def using assms by (rule bind_Inr)

lemma check_table_quality_run:
  assumes "read_table provider table_name None \<sigma> = (Inr df, \<sigma>1)"
  shows "check_table_quality provider table_name \<sigma> = lift (quality_report df) \<sigma>1"
  unfolding check_table_quality_def using assms by (simp add: bind_def)

lemma check_table_quality_returns:
  assumes r: "read_table provider table_name None \<sigma> = (Inr df, \<sigma>1)"
      and q: "quality_report df = Inr rep"
  shows "check_table_quality provider table_name \<sigma> = (Inr rep, \<sigma>1)"
  unfolding check_table_quality_run[OF r] q by (simp add: lift_def return_def)

lemma map_of_Memory_written:
  "map_of (tables (Memory_written table_name df if_exists ob)) table_name \<noteq> None"
  by (simp add: Memory_written_def Let_def update_conv' split: option.splits)

text \<open>
  Claim C2. When the frame read from the source is empty, \<^verbatim>\<open>migrate_table\<close> makes
  exactly one call on the destination, \<^verbatim>\<open>write_table\<close> with that empty frame in
  append mode, and returns 0 once the call has returned (an exception of the call
  propagates). On the recording provider the log gains that one write and the table
  exists afterwards.
\<close>

theorem migrate_table_empty:
  fixes source :: "('s, 'w) DataProvider" and dest :: "('d, 'w) DataProvider"
  assumes rd: "read_table source table_name None (s, w) = (Inr df, (s', w'))"
      and em: "df_empty df"
  shows "migrate_table source dest table_name chunk_size (s, d, w)
           = (case write_table dest table_name df ''append'' (d, w') of
                (Inl e, (d', w'')) \<Rightarrow> (Inl e, (s', d', w''))
              | (Inr n, (d', w'')) \<Rightarrow> (Inr 0, (s', d', w'')))
       \<and> (\<exists>m'. migrate_table source MemoryProvider table_name chunk_size (s, m, w)
                  = (Inr 0, (s', m', w'))
              \<and> calls m' = calls m @ [WriteTable table_name df ''append'']
              \<and> map_of (tables m') table_name \<noteq> None)"
proof (intro conjI)
  obtain r d1 w1 where wr: "write_table dest table_name df ''append'' (d, w') = (r, (d1, w1))"
    by (metis prod.exhaust)
  have od: "on_dest (write_table dest table_name df ''append'') (s', d, w') = (r, (s', d1, w1))"
    using wr by (rule on_dest_run)
  show "migrate_table source dest table_name chunk_size (s, d, w)
           = (case write_table dest table_name df ''append'' (d, w') of
                (Inl e, (d', w'')) \<Rightarrow> (Inl e, (s', d', w''))
              | (Inr n, (d', w'')) \<Rightarrow> (Inr 0, (s', d', w'')))"
    unfolding migrate_table_unfold[OF rd] wr using em od
    by (cases r) (simp_all add: bind_def return_def)
next
  let ?m1 = "Memory_written table_name df ''append'' m"
  have wr: "on_dest (write_table MemoryProvider table_name df ''append'') (s', m, w')
      = (Inr (int (len df)), (s', ?m1, w'))"
    by (rule on_dest_run) (simp only: Memory_providers_methods Memory_write_table_run)
  have a: "migrate_table source MemoryProvider table_name chunk_size (s, m, w) = (Inr 0, (s', ?m1, w'))"
    unfolding migrate_table_unfold[OF rd] using em by (simp add: bind_def wr return_def)
  have b: "calls ?m1 = calls m @ [WriteTable table_name df ''append'']"
    by (rule calls_Memory_written)
  have c: "map_of (tables ?m1) table_name \<noteq> None"
    by (rule map_of_Memory_written)
  show "\<exists>m'. migrate_table source MemoryProvider table_name chunk_size (s, m, w)
                  = (Inr 0, (s', m', w'))
              \<and> calls m' = calls m @ [WriteTable table_name df ''append'']
              \<and> map_of (tables m') table_name \<noteq> None"
    by (intro exI[of _ ?m1] conjI a b c)
qed

theorem migrate_table_empty_witness:
  "read_table MemoryProvider ''t'' None (header_only_store, ())
     = (Inr header_only_frame, (header_only_store\<lparr>calls := [ReadTable ''t'' None]\<rparr>, ()))
   \<and> df_empty header_only_frame
   \<and> (\<exists>m'. migrate_table MemoryProvider MemoryProvider ''t'' 5000 (header_only_store, empty_memory, ())
               = (Inr 0, (header_only_store\<lparr>calls := [ReadTable ''t'' None]\<rparr>, m', ()))
          \<and> calls m' = [WriteTable ''t'' header_only_frame ''append'']
          \<and> map_of (tables m') ''t'' \<noteq> None)"
proof -
  have rd: "read_table MemoryProvider ''t'' None (header_only_store, ())
     = (Inr header_only_frame, (header_only_store\<lparr>calls := [ReadTable ''t'' None]\<rparr>, ()))"
    by (simp add: run_simps header_only_store_def)
  have em: "df_empty header_only_frame"
    by (simp add: df_empty_def header_only_frame_def)
  have "\<exists>m'. migrate_table MemoryProvider MemoryProvider ''t'' 5000 (header_only_store, empty_memory, ())
               = (Inr 0, (header_only_store\<lparr>calls := [ReadTable ''t'' None]\<rparr>, m', ()))
          \<and> calls m' = calls empty_memory @ [WriteTable ''t'' header_only_frame ''append'']
          \<and> map_of (tables m') ''t'' \<noteq> None"
    using migrate_table_empty[OF rd em, of MemoryProvider 5000 empty_memory empty_memory]
    by (rule conjunct2)
  then have "\<exists>m'. migrate_table MemoryProvider MemoryProvider ''t'' 5000 (header_only_store, empty_memory, ())
               = (Inr 0, (header_only_store\<lparr>calls := [ReadTable ''t'' None]\<rparr>, m', ()))
          \<and> calls m' = [WriteTable ''t'' header_only_frame ''append'']
          \<and> map_of (tables m') ''t'' \<noteq> None"
    by (simp add: empty_memory_def)
  with rd em show ?thesis
    by (intro conjI)
qed

text \<open>
  Claim C10. When the frame read back is empty, \<^verbatim>\<open>apply_corrections\<close> returns 0 in the
  state the read left: neither \<^verbatim>\<open>delete_table\<close> nor \<^verbatim>\<open>write_table\<close> is called. On the
  recording provider the log gains the read only and the tables are untouched.
\<close>

theorem apply_corrections_empty:
  fixes provider :: "('o, 'w) DataProvider" and w :: 'w
  assumes rd: "read_table provider table_name None \<sigma> = (Inr df, \<sigma>1)"
      and em: "df_empty df"
  shows "apply_corrections provider table_name \<sigma> = (Inr 0, \<sigma>1)
       \<and> (\<forall>ob. map_of (tables ob) table_name = Some df \<longrightarrow>
             apply_corrections MemoryProvider table_name (ob, w)
               = (Inr 0, (ob\<lparr>calls := calls ob @ [ReadTable table_name None]\<rparr>, w)))"
proof (intro conjI allI impI)
  show "apply_corrections provider table_name \<sigma> = (Inr 0, \<sigma>1)"
    unfolding apply_corrections_unfold[OF rd] using em by (simp add: return_def)
next
  fix ob :: memory_obj
  assume t: "map_of (tables ob) table_name = Some df"
  have r: "read_table MemoryProvider table_name None (ob, w)
      = (Inr df, (ob\<lparr>calls := calls ob @ [ReadTable table_name None]\<rparr>, w))"
    unfolding Memory_providers_methods using t by (rule Memory_read_table_run)
  show "apply_corrections MemoryProvider table_name (ob, w)
      = (Inr 0, (ob\<lparr>calls := calls ob @ [ReadTable table_name None]\<rparr>, w))"
    unfolding apply_corrections_unfold[OF r] using em by (simp add: return_def)
qed

theorem apply_corrections_empty_witness:
  "read_table MemoryProvider ''t'' None (header_only_store, ())
     = (Inr header_only_frame, (header_only_store\<lparr>calls := [ReadTable ''t'' None]\<rparr>, ()))
   \<and> df_empty header_only_frame
   \<and> apply_corrections MemoryProvider ''t'' (header_only_store, ())
       = (Inr 0, (header_only_store\<lparr>calls := [ReadTable ''t'' None]\<rparr>, ()))"
proof -
  have rd: "read_table MemoryProvider ''t'' None (header_only_store, ())
     = (Inr header_only_frame, (header_only_store\<lparr>calls := [ReadTable ''t'' None]\<rparr>, ()))"
    by (simp add: run_simps header_only_store_def)
  have em: "df_empty header_only_frame"
    by (simp add: df_empty_def header_only_frame_def)
  have "apply_corrections MemoryProvider ''t'' (header_only_store, ())
       = (Inr 0, (header_only_store\<lparr>calls := [ReadTable ''t'' None]\<rparr>, ()))"
    using apply_corrections_empty[OF rd em, of "()"] by (rule conjunct1)
  with rd em show ?thesis
    by (intro conjI)
qed

text \<open>
  Claim C3. For a table whose column labels are distinct and that has at least one column
  (or for a table with no rows), the \<open>duplicates\<close> field of the report of
  \<^verbatim>\<open>check_table_quality\<close> is the number of rows minus the number of distinct rows, rows
  being compared as whole rows; and any table with the same header whose rows are a
  permutation of these gets the same \<open>duplicates\<close>. For a table with rows and a repeated
  column label there is no report: \<^verbatim>\<open>check_table_quality\<close> raises TypeError.
\<close>

theorem check_table_quality_duplicates:
  fixes provider :: "('o, 'w) DataProvider"
  assumes rd: "read_table provider table_name None \<sigma> = (Inr df, \<sigma>1)"
  shows "(rows df = [] \<or> columns df \<noteq> [] \<and> distinct (columns df) \<longrightarrow>
          (\<exists>rep. check_table_quality provider table_name \<sigma> = (Inr rep, \<sigma>1)
             \<and> report_rows rep = int (len df)
             \<and> duplicates rep = int (len df) - int (card (set (rows df)))
             \<and> (\<forall>(provider2 :: ('o, 'w) DataProvider) \<sigma>2 \<sigma>3 df2.
                   read_table provider2 table_name None \<sigma>2 = (Inr df2, \<sigma>3)
                   \<and> columns df2 = columns df \<and> mset (rows df2) = mset (rows df)
                   \<longrightarrow> (\<exists>rep2. check_table_quality provider2 table_name \<sigma>2 = (Inr rep2, \<sigma>3)
                          \<and> duplicates rep2 = duplicates rep))))
       \<and> (rows df \<noteq> [] \<and> \<not> distinct (columns df) \<longrightarrow>
            check_table_quality provider table_name \<sigma> = (Inl TypeError, \<sigma>1))"
proof (intro conjI impI)
  assume cols: "rows df = [] \<or> columns df \<noteq> [] \<and> distinct (columns df)"
  then have cols': "rows df = [] \<or> columns df \<noteq> []"
    by blast
  from cols have "df_empty df \<or> distinct (columns df)"
    unfolding df_empty_def by blast
  then obtain rep where q: "quality_report df = Inr rep"
    using quality_report_returns by blast
  have a: "check_table_quality provider table_name \<sigma> = (Inr rep, \<sigma>1)"
    using rd q by (rule check_table_quality_returns)
  have b: "report_rows rep = int (len df)"
    using q by (rule report_rows_quality_report)
  have c: "duplicates rep = int (len df) - int (card (set (rows df)))"
    using cols' q by (rule duplicates_count)
  have d: "\<forall>(provider2 :: ('o, 'w) DataProvider) \<sigma>2 \<sigma>3 df2.
             read_table provider2 table_name None \<sigma>2 = (Inr df2, \<sigma>3)
             \<and> columns df2 = columns df \<and> mset (rows df2) = mset (rows df)
             \<longrightarrow> (\<exists>rep2. check_table_quality provider2 table_name \<sigma>2 = (Inr rep2, \<sigma>3)
                    \<and> duplicates rep2 = duplicates rep)"
  proof (intro allI impI)
    fix provider2 :: "('o, 'w) DataProvider" and \<sigma>2 \<sigma>3 df2
    assume h: "read_table provider2 table_name None \<sigma>2 = (Inr df2, \<sigma>3)
             \<and> columns df2 = columns df \<and> mset (rows df2) = mset (rows df)"
    then have r2: "read_table provider2 table_name None \<sigma>2 = (Inr df2, \<sigma>3)"
      and c2: "columns df2 = columns df" and m2: "mset (rows df2) = mset (rows df)"
      by simp_all
    have s2: "set (rows df2) = set (rows df)"
      using m2 by (rule mset_eq_setD)
    have l2: "length (rows df2) = length (rows df)"
      using m2 by (rule mset_eq_length)
    have e2: "rows df2 = [] \<longleftrightarrow> rows df = []"
      using l2 by (metis length_0_conv)
    have cols2: "rows df2 = [] \<or> columns df2 \<noteq> []"
      using cols' c2 e2 by simp
    have "df_empty df2 \<or> distinct (columns df2)"
      using cols c2 e2 unfolding df_empty_def by auto
    then obtain rep2 where q2: "quality_report df2 = Inr rep2"
      using quality_report_returns by blast
    have "duplicates rep2 = int (len df2) - int (card (set (rows df2)))"
      using cols2 q2 by (rule duplicates_count)
    then have "duplicates rep2 = duplicates rep"
      unfolding c s2 len_def l2 .
    moreover have "check_table_quality provider2 table_name \<sigma>2 = (Inr rep2, \<sigma>3)"
      using r2 q2 by (rule check_table_quality_returns)
    ultimately show "\<exists>rep2. check_table_quality provider2 table_name \<sigma>2 = (Inr rep2, \<sigma>3)
                    \<and> duplicates rep2 = duplicates rep"
      by (intro exI[of _ rep2] conjI)
  qed
  show "\<exists>rep. check_table_quality provider table_name \<sigma> = (Inr rep, \<sigma>1)
             \<and> report_rows rep = int (len df)
             \<and> duplicates rep = int (len df) - int (card (set (rows df)))
             \<and> (\<forall>(provider2 :: ('o, 'w) DataProvider) \<sigma>2 \<sigma>3 df2.
                   read_table provider2 table_name None \<sigma>2 = (Inr df2, \<sigma>3)
                   \<and> columns df2 = columns df \<and> mset (rows df2) = mset (rows df)
                   \<longrightarrow> (\<exists>rep2. check_table_quality provider2 table_name \<sigma>2 = (Inr rep2, \<sigma>3)
                          \<and> duplicates rep2 = duplicates rep))"
    by (intro exI[of _ rep] conjI a b c d)
next
  assume h: "rows df \<noteq> [] \<and> \<not> distinct (columns df)"
  then have "columns df \<noteq> []"
    by auto
  with h have ne: "\<not> df_empty df"
    by (simp add: df_empty_def)
  from h have nd: "\<not> distinct (columns df)"
    by simp
  have "quality_report df = Inl TypeError"
    using ne nd by (rule quality_report_raises)
  then show "check_table_quality provider table_name \<sigma> = (Inl TypeError, \<sigma>1)"
    unfolding check_table_quality_run[OF rd] by (simp add: lift_def raise_def)
qed

theorem check_table_quality_duplicates_witness:
  "read_table MemoryProvider ''t'' None (abacb_store, ())
     = (Inr abacb_frame, (abacb_store\<lparr>calls := [ReadTable ''t'' None]\<rparr>, ()))
   \<and> columns abacb_frame \<noteq> [] \<and> distinct (columns abacb_frame)
   \<and> (\<exists>rep. check_table_quality MemoryProvider ''t'' (abacb_store, ())
               = (Inr rep, (abacb_store\<lparr>calls := [ReadTable ''t'' None]\<rparr>, ()))
          \<and> report_rows rep = 5 \<and> duplicates rep = 2)
   \<and> read_table MemoryProvider ''t'' None (repeated_label_store, ())
     = (Inr repeated_label_frame, (repeated_label_store\<lparr>calls := [ReadTable ''t'' None]\<rparr>, ()))
   \<and> rows repeated_label_frame \<noteq> [] \<and> \<not> distinct (columns repeated_label_frame)
   \<and> check_table_quality MemoryProvider ''t'' (repeated_label_store, ())
     = (Inl TypeError, (repeated_label_store\<lparr>calls := [ReadTable ''t'' None]\<rparr>, ()))"
proof -
  have rd: "read_table MemoryProvider ''t'' None (abacb_store, ())
     = (Inr abacb_frame, (abacb_store\<lparr>calls := [ReadTable ''t'' None]\<rparr>, ()))"
    by (simp add: run_simps abacb_store_def)
  have cols: "columns abacb_frame \<noteq> []"
    by (simp add: abacb_frame_def)
  have dc: "distinct (columns abacb_frame)"
    by (simp add: abacb_frame_def)
  from cols dc have cols': "rows abacb_frame = [] \<or> columns abacb_frame \<noteq> [] \<and> distinct (columns abacb_frame)"
    by blast
  obtain rep where
    a: "check_table_quality MemoryProvider ''t'' (abacb_store, ())
               = (Inr rep, (abacb_store\<lparr>calls := [ReadTable ''t'' None]\<rparr>, ()))"
    and b: "report_rows rep = int (len abacb_frame)"
    and c: "duplicates rep = int (len abacb_frame) - int (card (set (rows abacb_frame)))"
    using check_table_quality_duplicates[OF rd, THEN conjunct1, THEN mp, OF cols'] by blast
  have l: "len abacb_frame = 5"
    by (simp add: len_def abacb_frame_def)
  have k: "card (set (rows abacb_frame)) = 3"
    by code_simp
  have b': "report_rows rep = 5" using b unfolding l by simp
  have c': "duplicates rep = 2" using c unfolding l k by simp
  have e: "\<exists>rep. check_table_quality MemoryProvider ''t'' (abacb_store, ())
               = (Inr rep, (abacb_store\<lparr>calls := [ReadTable ''t'' None]\<rparr>, ()))
          \<and> report_rows rep = 5 \<and> duplicates rep = 2"
    by (intro exI[of _ rep] conjI a b' c')
  have rd2: "read_table MemoryProvider ''t'' None (repeated_label_store, ())
     = (Inr repeated_label_frame, (repeated_label_store\<lparr>calls := [ReadTable ''t'' None]\<rparr>, ()))"
    by (simp add: run_simps repeated_label_store_def)
  have r2: "rows repeated_label_frame \<noteq> []"
    by (simp add: repeated_label_frame_def)
  have d2: "\<not> distinct (columns repeated_label_frame)"
    by (simp add: repeated_label_frame_def)
  from r2 d2 have h2: "rows repeated_label_frame \<noteq> [] \<and> \<not> distinct (columns repeated_label_frame)"
    by (rule conjI)
  have f: "check_table_quality MemoryProvider ''t'' (repeated_label_store, ())
     = (Inl TypeError, (repeated_label_store\<lparr>calls := [ReadTable ''t'' None]\<rparr>, ()))"
    by (rule check_table_quality_duplicates[OF rd2, THEN conjunct2, THEN mp, OF h2])
  show ?thesis
    by (intro conjI rd cols dc e rd2 r2 d2 f)
qed

lemma apply_corrections_Memory:
  fixes w :: 'w
  assumes t: "map_of (tables ob) table_name = Some df" and ne: "\<not> df_empty df"
  shows "\<exists>ob'. apply_corrections MemoryProvider table_name (ob, w)
                 = (Inr (int (len df) - int (len (drop_duplicates df))), (ob', w))
           \<and> calls ob' = calls ob @ [ReadTable table_name None, DeleteTable table_name,
                                        WriteTable table_name (drop_duplicates df) ''replace'']
           \<and> map_of (tables ob') table_name = Some (drop_duplicates df)"
proof -
  let ?df2 = "drop_duplicates df"
  let ?ob1 = "ob\<lparr>calls := calls ob @ [ReadTable table_name None]\<rparr>"
  let ?ob2 = "ob\<lparr>calls := calls ob @ [ReadTable table_name None, DeleteTable table_name],
                   tables := AList.delete table_name (tables ob)\<rparr>"
  let ?ob3 = "Memory_written table_name ?df2 ''replace'' ?ob2"
  have r: "read_table MemoryProvider table_name None (ob, w) = (Inr df, (?ob1, w))"
    unfolding Memory_providers_methods using t by (rule Memory_read_table_run)
  have dl: "delete_table MemoryProvider table_name (?ob1, w) = (Inr (), (?ob2, w))"
    unfolding Memory_providers_methods by (simp add: Memory_delete_table_run)
  have wr: "write_table MemoryProvider table_name ?df2 ''replace'' (?ob2, w)
      = (Inr (int (len ?df2)), (?ob3, w))"
    unfolding Memory_providers_methods by (rule Memory_write_table_run)
  have a: "apply_corrections MemoryProvider table_name (ob, w)
      = (Inr (int (len df) - int (len ?df2)), (?ob3, w))"
    unfolding apply_corrections_unfold[OF r] using ne
    by (simp add: Let_def bind_def dl wr return_def)
  have b: "calls ?ob3 = calls ob @ [ReadTable table_name None, DeleteTable table_name,
                                     WriteTable table_name ?df2 ''replace'']"
    unfolding calls_Memory_written by simp
  have "map_of (tables ?ob2) table_name = None"
    by (simp add: delete_conv')
  then have c: "map_of (tables ?ob3) table_name = Some ?df2"
    by (rule map_of_Memory_written_absent)
  show ?thesis
    by (intro exI[of _ ?ob3] conjI a b c)
qed

lemma abacb_duplicates:
  assumes d: "distinct [a, b, c]" and r: "rows df = [a, b, a, c, b]"
  shows "int (len df) - int (len (drop_duplicates df)) = 2"
    and "rows (drop_duplicates df) = [a, b, c]"
proof -
  have m: "duplicated_from [] (rows df) = [False, False, True, False, True]"
    unfolding r using d by auto
  show y: "rows (drop_duplicates df) = [a, b, c]"
    unfolding rows_drop_duplicates m unfolding r by (simp add: keep_unmarked_def)
  show "int (len df) - int (len (drop_duplicates df)) = 2"
    unfolding len_def y unfolding r by simp
qed

text \<open>
  Claim C4, as amended. For a table that is not empty, \<^verbatim>\<open>apply_corrections\<close> deletes the
  table, writes the frame without duplicates in replace mode and returns the number of
  rows removed, which, when the column labels are distinct, is the \<open>duplicates\<close> count
  that \<^verbatim>\<open>check_table_quality\<close> reports for the table. The frame written holds the first
  occurrence of each distinct row, in the original order, and its report has
  \<open>duplicates\<close> 0; on the recording provider the table read back afterwards is that
  frame. On rows A, B, A, C, B the report says 2, the call returns 2 (not 3, which is
  the number of rows left) and A, B, C remain.
\<close>

theorem apply_corrections_removes_duplicates:
  fixes provider :: "('o, 'w) DataProvider"
  assumes rd: "read_table provider table_name None \<sigma> = (Inr df, \<sigma>1)"
      and ne: "\<not> df_empty df"
  shows "apply_corrections provider table_name \<sigma> =
           bind (delete_table provider table_name) (\<lambda>u.
           bind (write_table provider table_name (drop_duplicates df) ''replace'') (\<lambda>n.
           return (int (len df) - int (len (drop_duplicates df))))) \<sigma>1
       \<and> (distinct (columns df) \<longrightarrow>
            (\<exists>rep. check_table_quality provider table_name \<sigma> = (Inr rep, \<sigma>1)
                 \<and> duplicates rep = int (len df) - int (len (drop_duplicates df))))
       \<and> rows (drop_duplicates df)
            = map (\<lambda>i. rows df ! i) (filter (\<lambda>i. rows df ! i \<notin> set (take i (rows df))) [0..<len df])
       \<and> columns (drop_duplicates df) = columns df
       \<and> (distinct (columns df) \<longrightarrow>
            (\<exists>rep. quality_report (drop_duplicates df) = Inr rep \<and> duplicates rep = 0))
       \<and> (\<forall>ob (w :: 'w). map_of (tables ob) table_name = Some df \<longrightarrow>
            (\<exists>ob'. apply_corrections MemoryProvider table_name (ob, w)
                      = (Inr (int (len df) - int (len (drop_duplicates df))), (ob', w))
                \<and> calls ob' = calls ob @ [ReadTable table_name None, DeleteTable table_name,
                                             WriteTable table_name (drop_duplicates df) ''replace'']
                \<and> map_of (tables ob') table_name = Some (drop_duplicates df)
                \<and> (distinct (columns df) \<longrightarrow>
                     (\<exists>rep ob''. check_table_quality MemoryProvider table_name (ob', w)
                                     = (Inr rep, (ob'', w))
                           \<and> duplicates rep = 0))))
       \<and> (\<forall>a b c. distinct [a, b, c] \<and> rows df = [a, b, a, c, b] \<longrightarrow>
             int (len df) - int (len (drop_duplicates df)) = 2
             \<and> rows (drop_duplicates df) = [a, b, c])"
proof -
  have p1: "apply_corrections provider table_name \<sigma> =
           bind (delete_table provider table_name) (\<lambda>u.
           bind (write_table provider table_name (drop_duplicates df) ''replace'') (\<lambda>n.
           return (int (len df) - int (len (drop_duplicates df))))) \<sigma>1"
    unfolding apply_corrections_unfold[OF rd]
    using ne by (simp add: Let_def)
  have p2: "distinct (columns df) \<longrightarrow>
            (\<exists>rep. check_table_quality provider table_name \<sigma> = (Inr rep, \<sigma>1)
                 \<and> duplicates rep = int (len df) - int (len (drop_duplicates df)))"
  proof
    assume dc: "distinct (columns df)"
    then obtain rep where q: "quality_report df = Inr rep"
      using quality_report_returns by blast
    have "check_table_quality provider table_name \<sigma> = (Inr rep, \<sigma>1)"
      using rd q by (rule check_table_quality_returns)
    moreover have "duplicates rep = int (len df) - int (len (drop_duplicates df))"
      using ne q by (rule removed_is_duplicates)
    ultimately show "\<exists>rep. check_table_quality provider table_name \<sigma> = (Inr rep, \<sigma>1)
                 \<and> duplicates rep = int (len df) - int (len (drop_duplicates df))"
      by (intro exI[of _ rep] conjI)
  qed
  have p4: "rows (drop_duplicates df)
            = map (\<lambda>i. rows df ! i) (filter (\<lambda>i. rows df ! i \<notin> set (take i (rows df))) [0..<len df])"
    by (rule rows_drop_duplicates_index)
  have p5: "columns (drop_duplicates df) = columns df"
    by (rule columns_drop_duplicates)
  have p6: "\<exists>rep. quality_report (drop_duplicates df) = Inr rep \<and> duplicates rep = 0"
    if dc: "distinct (columns df)"
  proof -
    have "distinct (columns (drop_duplicates df))"
      unfolding p5 by (rule dc)
    then obtain rep where q: "quality_report (drop_duplicates df) = Inr rep"
      using quality_report_returns by blast
    have "duplicates rep = 0"
      using q by (rule duplicates_after_drop)
    with q show ?thesis
      by (intro exI[of _ rep] conjI)
  qed
  then have p6': "distinct (columns df) \<longrightarrow>
            (\<exists>rep. quality_report (drop_duplicates df) = Inr rep \<and> duplicates rep = 0)"
    by (rule impI)
  have p7: "\<forall>ob (w :: 'w). map_of (tables ob) table_name = Some df \<longrightarrow>
            (\<exists>ob'. apply_corrections MemoryProvider table_name (ob, w)
                      = (Inr (int (len df) - int (len (drop_duplicates df))), (ob', w))
                \<and> calls ob' = calls ob @ [ReadTable table_name None, DeleteTable table_name,
                                             WriteTable table_name (drop_duplicates df) ''replace'']
                \<and> map_of (tables ob') table_name = Some (drop_duplicates df)
                \<and> (distinct (columns df) \<longrightarrow>
                     (\<exists>rep ob''. check_table_quality MemoryProvider table_name (ob', w)
                                     = (Inr rep, (ob'', w))
                           \<and> duplicates rep = 0)))"
  proof (intro allI impI)
    fix ob :: memory_obj and w :: 'w
    assume t: "map_of (tables ob) table_name = Some df"
    obtain ob' where
      a: "apply_corrections MemoryProvider table_name (ob, w)
            = (Inr (int (len df) - int (len (drop_duplicates df))), (ob', w))"
      and b: "calls ob' = calls ob @ [ReadTable table_name None, DeleteTable table_name,
                                       WriteTable table_name (drop_duplicates df) ''replace'']"
      and c: "map_of (tables ob') table_name = Some (drop_duplicates df)"
      using apply_corrections_Memory[OF t ne, of w] by blast
    let ?ob2 = "ob'\<lparr>calls := calls ob' @ [ReadTable table_name None]\<rparr>"
    have r: "read_table MemoryProvider table_name None (ob', w) = (Inr (drop_duplicates df), (?ob2, w))"
      unfolding Memory_providers_methods using c by (rule Memory_read_table_run)
    have e: "distinct (columns df) \<longrightarrow>
               (\<exists>rep ob''. check_table_quality MemoryProvider table_name (ob', w) = (Inr rep, (ob'', w))
                       \<and> duplicates rep = 0)"
    proof
      assume "distinct (columns df)"
      then obtain rep where q: "quality_report (drop_duplicates df) = Inr rep"
        and z: "duplicates rep = 0"
        using p6 by blast
      have "check_table_quality MemoryProvider table_name (ob', w) = (Inr rep, (?ob2, w))"
        using r q by (rule check_table_quality_returns)
      with z show "\<exists>rep ob''. check_table_quality MemoryProvider table_name (ob', w) = (Inr rep, (ob'', w))
                       \<and> duplicates rep = 0"
        by (intro exI[of _ rep] exI[of _ ?ob2] conjI)
    qed
    show "\<exists>ob'. apply_corrections MemoryProvider table_name (ob, w)
                      = (Inr (int (len df) - int (len (drop_duplicates df))), (ob', w))
                \<and> calls ob' = calls ob @ [ReadTable table_name None, DeleteTable table_name,
                                             WriteTable table_name (drop_duplicates df) ''replace'']
                \<and> map_of (tables ob') table_name = Some (drop_duplicates df)
                \<and> (distinct (columns df) \<longrightarrow>
                     (\<exists>rep ob''. check_table_quality MemoryProvider table_name (ob', w)
                                     = (Inr rep, (ob'', w))
                           \<and> duplicates rep = 0))"
      by (intro exI[of _ ob'] conjI a b c e)
  qed
  have p8: "\<forall>a b c. distinct [a, b, c] \<and> rows df = [a, b, a, c, b] \<longrightarrow>
             int (len df) - int (len (drop_duplicates df)) = 2
             \<and> rows (drop_duplicates df) = [a, b, c]"
  proof (intro allI impI)
    fix a b c
    assume h: "distinct [a, b, c] \<and> rows df = [a, b, a, c, b]"
    then have d: "distinct [a, b, c]" and r: "rows df = [a, b, a, c, b]"
      by simp_all
    have x: "int (len df) - int (len (drop_duplicates df)) = 2"
      using d r by (rule abacb_duplicates(1))
    have y: "rows (drop_duplicates df) = [a, b, c]"
      using d r by (rule abacb_duplicates(2))
    show "int (len df) - int (len (drop_duplicates df)) = 2
             \<and> rows (drop_duplicates df) = [a, b, c]"
      by (intro conjI x y)
  qed
  show ?thesis
    by (intro conjI p1 p2 p4 p5 p6' p7 p8)
qed

theorem apply_corrections_removes_duplicates_witness:
  "read_table MemoryProvider ''t'' None (abacb_store, ())
     = (Inr abacb_frame, (abacb_store\<lparr>calls := [ReadTable ''t'' None]\<rparr>, ()))
   \<and> \<not> df_empty abacb_frame
   \<and> distinct (columns abacb_frame)
   \<and> (\<exists>rep. check_table_quality MemoryProvider ''t'' (abacb_store, ())
               = (Inr rep, (abacb_store\<lparr>calls := [ReadTable ''t'' None]\<rparr>, ()))
          \<and> duplicates rep = 2)
   \<and> rows (drop_duplicates abacb_frame) = [[Str ''A''], [Str ''B''], [Str ''C'']]
   \<and> (\<exists>ob'. apply_corrections MemoryProvider ''t'' (abacb_store, ()) = (Inr 2, (ob', ()))
          \<and> map_of (tables ob') ''t'' = Some (drop_duplicates abacb_frame)
          \<and> (\<exists>rep ob''. check_table_quality MemoryProvider ''t'' (ob', ()) = (Inr rep, (ob'', ()))
                 \<and> duplicates rep = 0))"
proof -
  have rd: "read_table MemoryProvider ''t'' None (abacb_store, ())
     = (Inr abacb_frame, (abacb_store\<lparr>calls := [ReadTable ''t'' None]\<rparr>, ()))"
    by (simp add: run_simps abacb_store_def)
  have ne: "\<not> df_empty abacb_frame"
    by (simp add: df_empty_def abacb_frame_def)
  have dc: "distinct (columns abacb_frame)"
    by (simp add: abacb_frame_def)
  note th = apply_corrections_removes_duplicates[OF rd ne]
  have t: "map_of (tables abacb_store) ''t'' = Some abacb_frame"
    by (simp add: abacb_store_def)
  have dr: "distinct [[Str ''A''], [Str ''B''], [Str ''C'']]
      \<and> rows abacb_frame = [[Str ''A''], [Str ''B''], [Str ''A''], [Str ''C''], [Str ''B'']]"
    by (simp add: abacb_frame_def)
  from th have "\<forall>a b c. distinct [a, b, c] \<and> rows abacb_frame = [a, b, a, c, b] \<longrightarrow>
             int (len abacb_frame) - int (len (drop_duplicates abacb_frame)) = 2
             \<and> rows (drop_duplicates abacb_frame) = [a, b, c]"
    by (elim conjE)
  with dr have x: "int (len abacb_frame) - int (len (drop_duplicates abacb_frame)) = 2"
    and y: "rows (drop_duplicates abacb_frame) = [[Str ''A''], [Str ''B''], [Str ''C'']]"
    by blast+
  from th have "distinct (columns abacb_frame) \<longrightarrow>
            (\<exists>rep. check_table_quality MemoryProvider ''t'' (abacb_store, ())
                      = (Inr rep, (abacb_store\<lparr>calls := [ReadTable ''t'' None]\<rparr>, ()))
                 \<and> duplicates rep = int (len abacb_frame) - int (len (drop_duplicates abacb_frame)))"
    by (elim conjE)
  with dc have q: "\<exists>rep. check_table_quality MemoryProvider ''t'' (abacb_store, ())
               = (Inr rep, (abacb_store\<lparr>calls := [ReadTable ''t'' None]\<rparr>, ()))
          \<and> duplicates rep = 2"
    unfolding x by (rule mp[rotated])
  from th have "\<forall>ob (w :: unit). map_of (tables ob) ''t'' = Some abacb_frame \<longrightarrow>
            (\<exists>ob'. apply_corrections MemoryProvider ''t'' (ob, w)
                      = (Inr (int (len abacb_frame) - int (len (drop_duplicates abacb_frame))), (ob', w))
                \<and> calls ob' = calls ob @ [ReadTable ''t'' None, DeleteTable ''t'',
                                             WriteTable ''t'' (drop_duplicates abacb_frame) ''replace'']
                \<and> map_of (tables ob') ''t'' = Some (drop_duplicates abacb_frame)
                \<and> (distinct (columns abacb_frame) \<longrightarrow>
                     (\<exists>rep ob''. check_table_quality MemoryProvider ''t'' (ob', w)
                                     = (Inr rep, (ob'', w))
                           \<and> duplicates rep = 0)))"
    by (elim conjE)
  with t dc obtain ob' where
    a: "apply_corrections MemoryProvider ''t'' (abacb_store, ())
          = (Inr (int (len abacb_frame) - int (len (drop_duplicates abacb_frame))), (ob', ()))"
    and c: "map_of (tables ob') ''t'' = Some (drop_duplicates abacb_frame)"
    and e: "\<exists>rep ob''. check_table_quality MemoryProvider ''t'' (ob', ()) = (Inr rep, (ob'', ()))
                 \<and> duplicates rep = 0"
    by blast
  have a': "apply_corrections MemoryProvider ''t'' (abacb_store, ()) = (Inr 2, (ob', ()))"
    using a unfolding x .
  have f: "\<exists>ob'. apply_corrections MemoryProvider ''t'' (abacb_store, ()) = (Inr 2, (ob', ()))
          \<and> map_of (tables ob') ''t'' = Some (drop_duplicates abacb_frame)
          \<and> (\<exists>rep ob''. check_table_quality MemoryProvider ''t'' (ob', ()) = (Inr rep, (ob'', ()))
                 \<and> duplicates rep = 0)"
    by (intro exI[of _ ob'] conjI a' c e)
  show ?thesis
    by (intro conjI rd ne dc q y f)
qed

theorem apply_corrections_returns_removed_not_remaining:
  "fst (apply_corrections MemoryProvider ''t'' (abacb_store, ())) = Inr 2
   \<and> fst (apply_corrections MemoryProvider ''t'' (abacb_store, ())) \<noteq> Inr 3"
proof -
  have t: "map_of (tables abacb_store) ''t'' = Some abacb_frame"
    by (simp add: abacb_store_def)
  have ne: "\<not> df_empty abacb_frame"
    by (simp add: df_empty_def abacb_frame_def)
  have d: "distinct [[Str ''A''], [Str ''B''], [Str ''C'']]" by simp
  have r: "rows abacb_frame = [[Str ''A''], [Str ''B''], [Str ''A''], [Str ''C''], [Str ''B'']]"
    by (simp add: abacb_frame_def)
  have x: "int (len abacb_frame) - int (len (drop_duplicates abacb_frame)) = 2"
    using d r by (rule abacb_duplicates(1))
  obtain ob' where "apply_corrections MemoryProvider ''t'' (abacb_store, ())
      = (Inr (int (len abacb_frame) - int (len (drop_duplicates abacb_frame))), (ob', ()))"
    using apply_corrections_Memory[OF t ne, of "()"] by blast
  then have "fst (apply_corrections MemoryProvider ''t'' (abacb_store, ())) = Inr 2"
    unfolding x by simp
  then show ?thesis by simp
qed

section \<open>The credentials of a provider\<close>

named_theorems keeps

lemma keeps_return [keeps]: "keeps_credentials (return x)"
  by (simp add: keeps_credentials_def credentials_after_def return_def)

lemma keeps_raise [keeps]: "keeps_credentials (raise e)"
  by (simp add: keeps_credentials_def credentials_after_def raise_def)

lemma keeps_ext [keeps]: "keeps_credentials (ext c)"
  by (simp add: keeps_credentials_def credentials_after_def ext_def split: prod.splits)

lemma keeps_lift [keeps]: "keeps_credentials (lift r)"
  by (cases r) (simp_all add: lift_def keeps_return keeps_raise)

lemma keeps_assign [keeps]:
  "(\<And>ob. credentials (f ob) = credentials ob) \<Longrightarrow> keeps_credentials (assign f)"
  by (simp add: keeps_credentials_def credentials_after_def assign_def)

lemma keeps_bind [keeps]:
  assumes m: "keeps_credentials m" and f: "\<And>x. keeps_credentials (f x)"
  shows "keeps_credentials (bind m f)"
proof -
  have "credentials_after (bind m f) ob w = credentials ob" for ob w
  proof -
    obtain r ob1 w1 where r: "m (ob, w) = (r, (ob1, w1))"
      by (metis prod.exhaust)
    have c1: "credentials ob1 = credentials ob"
      using m r by (simp add: keeps_credentials_def credentials_after_def) (metis fst_conv snd_conv)
    show ?thesis
    proof (cases r)
      case (Inl e)
      then show ?thesis using r c1 by (simp add: credentials_after_def bind_def)
    next
      case (Inr x)
      have "credentials (fst (snd (f x (ob1, w1)))) = credentials ob1"
        using f[of x] by (simp add: keeps_credentials_def credentials_after_def)
      then show ?thesis using r c1 Inr by (simp add: credentials_after_def bind_def)
    qed
  qed
  then show ?thesis by (simp add: keeps_credentials_def)
qed

lemma keeps_seq [keeps]:
  "keeps_credentials m \<Longrightarrow> keeps_credentials k \<Longrightarrow> keeps_credentials (seq m k)"
  unfolding seq_def by (rule keeps_bind)

lemma keeps_self [keeps]:
  "(\<And>ob. keeps_credentials (f ob)) \<Longrightarrow> keeps_credentials (self f)"
  by (simp add: keeps_credentials_def credentials_after_def self_def)

lemma keeps_attr [keeps]:
  "(\<And>x. keeps_credentials (f x)) \<Longrightarrow> keeps_credentials (attr h f)"
  by (cases h) (simp_all add: attr_def keeps_raise)

lemma keeps_as_path [keeps]:
  "(\<And>p. keeps_credentials (f p)) \<Longrightarrow> keeps_credentials (as_path v f)"
  by (cases v) (simp_all add: as_path_def keeps_raise)

lemma keeps_try_except [keeps]:
  assumes m: "keeps_credentials m" and h: "keeps_credentials h"
  shows "keeps_credentials (try_except m h)"
proof -
  have "credentials_after (try_except m h) ob w = credentials ob" for ob w
  proof -
    obtain r ob1 w1 where r: "m (ob, w) = (r, (ob1, w1))"
      by (metis prod.exhaust)
    have c1: "credentials ob1 = credentials ob"
      using m r by (simp add: keeps_credentials_def credentials_after_def) (metis fst_conv snd_conv)
    show ?thesis
    proof (cases r)
      case (Inl e)
      have "credentials (fst (snd (h (ob1, w1)))) = credentials ob1"
        using h by (simp add: keeps_credentials_def credentials_after_def)
      then show ?thesis using r c1 Inl by (simp add: credentials_after_def try_except_def)
    next
      case (Inr x)
      then show ?thesis using r c1 by (simp add: credentials_after_def try_except_def)
    qed
  qed
  then show ?thesis by (simp add: keeps_credentials_def)
qed

lemma keeps_try_except_ClientError [keeps]:
  assumes m: "keeps_credentials m" and h: "keeps_credentials h"
  shows "keeps_credentials (try_except_ClientError m h)"
proof -
  have "credentials_after (try_except_ClientError m h) ob w = credentials ob" for ob w
  proof -
    obtain r ob1 w1 where r: "m (ob, w) = (r, (ob1, w1))"
      by (metis prod.exhaust)
    have c1: "credentials ob1 = credentials ob"
      using m r by (simp add: keeps_credentials_def credentials_after_def) (metis fst_conv snd_conv)
    have c2: "credentials (fst (snd (h (ob1, w1)))) = credentials ob1"
      using h by (simp add: keeps_credentials_def credentials_after_def)
    show ?thesis
      using r c1 c2 by (cases r) (simp_all add: credentials_after_def try_except_ClientError_def)
  qed
  then show ?thesis by (simp add: keeps_credentials_def)
qed

lemma keeps_try_finally [keeps]:
  assumes m: "keeps_credentials m" and f: "\<And>ob w. credentials (fst (f (ob, w))) = credentials ob"
  shows "keeps_credentials (try_finally m f)"
proof -
  have "credentials_after (try_finally m f) ob w = credentials ob" for ob w
  proof -
    obtain r ob1 w1 where r: "m (ob, w) = (r, (ob1, w1))"
      by (metis prod.exhaust)
    have c1: "credentials ob1 = credentials ob"
      using m r by (simp add: keeps_credentials_def credentials_after_def) (metis fst_conv snd_conv)
    show ?thesis
      using r c1 f[of ob1 w1] by (simp add: credentials_after_def try_finally_def)
  qed
  then show ?thesis by (simp add: keeps_credentials_def)
qed

lemma keeps_if [keeps]:
  "(c \<Longrightarrow> keeps_credentials a) \<Longrightarrow> (\<not> c \<Longrightarrow> keeps_credentials b)
     \<Longrightarrow> keeps_credentials (if c then a else b)"
  by simp

lemma keeps_case_option [keeps]:
  "keeps_credentials a \<Longrightarrow> (\<And>x. keeps_credentials (f x))
     \<Longrightarrow> keeps_credentials (case v of None \<Rightarrow> a | Some x \<Rightarrow> f x)"
  by (cases v) simp_all

lemma keeps_case_prod [keeps]:
  "(\<And>a b. keeps_credentials (f a b)) \<Longrightarrow> keeps_credentials (case p of (a, b) \<Rightarrow> f a b)"
  by (cases p) simp

lemma keeps_column_of_rows [keeps]: "keeps_credentials (column_of_rows i fetched)"
  by (induction fetched) (simp_all add: keeps_return keeps_raise keeps_bind)

lemma keeps_D: "keeps_credentials m \<Longrightarrow> credentials_after m ob w = credentials ob"
  by (simp add: keeps_credentials_def)

lemma keeps_SQLiteProvider_connect [keeps]: "keeps_credentials (SQLiteProvider_connect L)"
  unfolding SQLiteProvider_connect_def by (intro keeps; simp)

lemma keeps_SQLiteProvider_test_connection [keeps]:
  "keeps_credentials (SQLiteProvider_test_connection L)"
  unfolding SQLiteProvider_test_connection_def by (intro keeps)

lemma keeps_SQLiteProvider_permissions [keeps]:
  "keeps_credentials (SQLiteProvider_permissions L actions perms)"
proof (induction actions arbitrary: perms)
  case Nil
  show ?case by (simp add: keeps_return)
next
  case (Cons act actions)
  show ?case
    unfolding SQLiteProvider_permissions.simps by (intro keeps Cons)
qed

lemma keeps_SQLiteProvider_has_permissions [keeps]:
  "keeps_credentials (SQLiteProvider_has_permissions L actions)"
  unfolding SQLiteProvider_has_permissions_def by (rule keeps_SQLiteProvider_permissions)

lemma keeps_SQLiteProvider_list_datasets [keeps]: "keeps_credentials SQLiteProvider_list_datasets"
  unfolding SQLiteProvider_list_datasets_def by (intro keeps)

lemma keeps_SQLiteProvider_list_tables [keeps]:
  "keeps_credentials (SQLiteProvider_list_tables L dataset)"
  unfolding SQLiteProvider_list_tables_def by (intro keeps)

lemma keeps_SQLiteProvider_read_table [keeps]:
  "keeps_credentials (SQLiteProvider_read_table L table_name limit)"
  unfolding SQLiteProvider_read_table_def by (intro keeps)

lemma keeps_SQLiteProvider_write_table [keeps]:
  "keeps_credentials (SQLiteProvider_write_table L table_name df if_exists)"
  unfolding SQLiteProvider_write_table_def by (intro keeps)

lemma keeps_SQLiteProvider_delete_rows [keeps]:
  "keeps_credentials (SQLiteProvider_delete_rows L table_name where_clause)"
  unfolding SQLiteProvider_delete_rows_def Let_def by (intro keeps)

lemma keeps_SQLiteProvider_delete_table [keeps]:
  "keeps_credentials (SQLiteProvider_delete_table L table_name)"
  unfolding SQLiteProvider_delete_table_def by (intro keeps)

lemma keeps_SQLiteProvider_close [keeps]: "keeps_credentials (SQLiteProvider_close L)"
  unfolding SQLiteProvider_close_def by (intro keeps; simp)

lemma SQLiteProvider_keeps_credentials:
  "contract_keeps_credentials (SQLiteProvider L) ob w actions dataset table_name limit df
     if_exists where_clause"
  unfolding contract_keeps_credentials_def SQLiteProvider_def DataProvider.simps
  by (intro conjI keeps_D keeps)

lemma keeps_RedshiftProvider_connect [keeps]:
  "keeps_credentials (RedshiftProvider_connect L)"
  unfolding RedshiftProvider_connect_def Let_def by (intro keeps; simp)

lemma keeps_RedshiftProvider_test_connection [keeps]:
  "keeps_credentials (RedshiftProvider_test_connection L)"
  unfolding RedshiftProvider_test_connection_def Let_def by (intro keeps; simp)

lemma keeps_RedshiftProvider_has_permissions [keeps]:
  "keeps_credentials (RedshiftProvider_has_permissions L actions)"
  unfolding RedshiftProvider_has_permissions_def Let_def by (intro keeps; simp)

lemma keeps_RedshiftProvider_list_datasets [keeps]:
  "keeps_credentials RedshiftProvider_list_datasets"
  unfolding RedshiftProvider_list_datasets_def Let_def by (intro keeps; simp)

lemma keeps_RedshiftProvider_list_tables [keeps]:
  "keeps_credentials (RedshiftProvider_list_tables L dataset)"
  unfolding RedshiftProvider_list_tables_def Let_def by (intro keeps; simp)

lemma keeps_RedshiftProvider_read_table [keeps]:
  "keeps_credentials (RedshiftProvider_read_table L table_name limit)"
  unfolding RedshiftProvider_read_table_def Let_def by (intro keeps; simp)

lemma keeps_RedshiftProvider_write_table [keeps]:
  "keeps_credentials (RedshiftProvider_write_table L table_name df if_exists)"
  unfolding RedshiftProvider_write_table_def Let_def by (intro keeps; simp)

lemma keeps_RedshiftProvider_delete_rows [keeps]:
  "keeps_credentials (RedshiftProvider_delete_rows L table_name where_clause)"
  unfolding RedshiftProvider_delete_rows_def Let_def by (intro keeps; simp)

lemma keeps_RedshiftProvider_delete_table [keeps]:
  "keeps_credentials (RedshiftProvider_delete_table L table_name)"
  unfolding RedshiftProvider_delete_table_def Let_def by (intro keeps; simp)

lemma keeps_RedshiftProvider_close [keeps]:
  "keeps_credentials (RedshiftProvider_close L)"
  unfolding RedshiftProvider_close_def Let_def by (intro keeps; simp)

lemma RedshiftProvider_keeps_credentials:
  "contract_keeps_credentials (RedshiftProvider L) ob w actions dataset table_name limit df
     if_exists where_clause"
  unfolding contract_keeps_credentials_def RedshiftProvider_def DataProvider.simps
  by (intro conjI keeps_D keeps)

lemma keeps_S3Provider_connect [keeps]:
  "keeps_credentials (S3Provider_connect L)"
  unfolding S3Provider_connect_def Let_def by (intro keeps; simp)

lemma keeps_S3Provider_test_connection [keeps]:
  "keeps_credentials (S3Provider_test_connection L)"
  unfolding S3Provider_test_connection_def Let_def by (intro keeps; simp)

lemma keeps_S3Provider_has_permissions [keeps]:
  "keeps_credentials (S3Provider_has_permissions L actions)"
  unfolding S3Provider_has_permissions_def Let_def by (intro keeps; simp)

lemma keeps_S3Provider_list_datasets [keeps]:
  "keeps_credentials (S3Provider_list_datasets L)"
  unfolding S3Provider_list_datasets_def Let_def by (intro keeps; simp)

lemma keeps_S3Provider_collect_keys [keeps]:
  "keeps_credentials (S3Provider_collect_keys pages keys)"
  by (induction pages keys rule: S3Provider_collect_keys.induct)
     (simp_all add: keeps_return keeps_raise)

lemma keeps_S3Provider_list_tables [keeps]:
  "keeps_credentials (S3Provider_list_tables L dataset)"
  unfolding S3Provider_list_tables_def Let_def by (intro keeps; simp)

lemma keeps_S3Provider_read_object_df [keeps]:
  "keeps_credentials (S3Provider_read_object_df L bucket key)"
  unfolding S3Provider_read_object_df_def Let_def by (intro keeps; simp)

lemma keeps_S3Provider_read_table [keeps]:
  "keeps_credentials (S3Provider_read_table L table_name limit)"
  unfolding S3Provider_read_table_def Let_def by (intro keeps; simp)

lemma keeps_S3Provider_serialise [keeps]: "keeps_credentials (S3Provider_serialise L key df)"
  unfolding S3Provider_serialise_def by (intro keeps)

lemma keeps_S3Provider_write_table [keeps]:
  "keeps_credentials (S3Provider_write_table L table_name df if_exists)"
  unfolding S3Provider_write_table_def Let_def by (intro keeps; simp)

lemma keeps_S3Provider_delete_rows [keeps]:
  "keeps_credentials (S3Provider_delete_rows L table_name where_clause)"
  unfolding S3Provider_delete_rows_def Let_def by (intro keeps; simp)

lemma keeps_S3Provider_delete_table [keeps]:
  "keeps_credentials (S3Provider_delete_table L table_name)"
  unfolding S3Provider_delete_table_def Let_def by (intro keeps; simp)

lemma keeps_S3Provider_close [keeps]:
  "keeps_credentials S3Provider_close"
  unfolding S3Provider_close_def Let_def by (intro keeps; simp)

lemma S3Provider_keeps_credentials:
  "contract_keeps_credentials (S3Provider L) ob w actions dataset table_name limit df
     if_exists where_clause"
  unfolding contract_keeps_credentials_def S3Provider_def DataProvider.simps
  by (intro conjI keeps_D keeps)

lemma keeps_BigQueryProvider_connect [keeps]:
  "keeps_credentials (BigQueryProvider_connect L)"
  unfolding BigQueryProvider_connect_def Let_def by (intro keeps; simp)

lemma keeps_BigQueryProvider_test_connection [keeps]:
  "keeps_credentials (BigQueryProvider_test_connection L)"
  unfolding BigQueryProvider_test_connection_def Let_def by (intro keeps; simp)

lemma keeps_BigQueryProvider_has_permissions [keeps]:
  "keeps_credentials (BigQueryProvider_has_permissions L actions)"
  unfolding BigQueryProvider_has_permissions_def Let_def by (intro keeps; simp)

lemma keeps_BigQueryProvider_list_datasets [keeps]:
  "keeps_credentials (BigQueryProvider_list_datasets L)"
  unfolding BigQueryProvider_list_datasets_def Let_def by (intro keeps; simp)

lemma keeps_BigQueryProvider_list_tables [keeps]:
  "keeps_credentials (BigQueryProvider_list_tables L dataset)"
  unfolding BigQueryProvider_list_tables_def Let_def by (intro keeps; simp)

lemma keeps_BigQueryProvider_full_table_ref [keeps]:
  "keeps_credentials (BigQueryProvider_full_table_ref L table_name)"
  unfolding BigQueryProvider_full_table_ref_def Let_def by (intro keeps; simp)

lemma keeps_BigQueryProvider_read_table [keeps]:
  "keeps_credentials (BigQueryProvider_read_table L table_name limit)"
  unfolding BigQueryProvider_read_table_def Let_def by (intro keeps; simp)

lemma keeps_BigQueryProvider_write_table [keeps]:
  "keeps_credentials (BigQueryProvider_write_table L table_name df if_exists)"
  unfolding BigQueryProvider_write_table_def Let_def by (intro keeps; simp)

lemma keeps_BigQueryProvider_delete_rows [keeps]:
  "keeps_credentials (BigQueryProvider_delete_rows L table_name where_clause)"
  unfolding BigQueryProvider_delete_rows_def Let_def by (intro keeps; simp)

lemma keeps_BigQueryProvider_delete_table [keeps]:
  "keeps_credentials (BigQueryProvider_delete_table L table_name)"
  unfolding BigQueryProvider_delete_table_def Let_def by (intro keeps; simp)

lemma keeps_BigQueryProvider_close [keeps]:
  "keeps_credentials BigQueryProvider_close"
  unfolding BigQueryProvider_close_def Let_def by (intro keeps; simp)

lemma BigQueryProvider_keeps_credentials:
  "contract_keeps_credentials (BigQueryProvider L) ob w actions dataset table_name limit df
     if_exists where_clause"
  unfolding contract_keeps_credentials_def BigQueryProvider_def DataProvider.simps
  by (intro conjI keeps_D keeps)

lemma keeps_SnowflakeProvider_connect [keeps]:
  "keeps_credentials (SnowflakeProvider_connect L)"
  unfolding SnowflakeProvider_connect_def Let_def by (intro keeps; simp)

lemma keeps_SnowflakeProvider_test_connection [keeps]:
  "keeps_credentials (SnowflakeProvider_test_connection L)"
  unfolding SnowflakeProvider_test_connection_def Let_def by (intro keeps; simp)

lemma keeps_SnowflakeProvider_has_permissions [keeps]:
  "keeps_credentials (SnowflakeProvider_has_permissions L actions)"
  unfolding SnowflakeProvider_has_permissions_def Let_def by (intro keeps; simp)

lemma keeps_SnowflakeProvider_list_datasets [keeps]:
  "keeps_credentials (SnowflakeProvider_list_datasets L)"
  unfolding SnowflakeProvider_list_datasets_def Let_def by (intro keeps; simp)

lemma keeps_SnowflakeProvider_list_tables [keeps]:
  "keeps_credentials (SnowflakeProvider_list_tables L dataset)"
  unfolding SnowflakeProvider_list_tables_def Let_def by (intro keeps; simp)

lemma keeps_SnowflakeProvider_read_table [keeps]:
  "keeps_credentials (SnowflakeProvider_read_table L table_name limit)"
  unfolding SnowflakeProvider_read_table_def Let_def by (intro keeps; simp)

lemma keeps_SnowflakeProvider_write_table [keeps]:
  "keeps_credentials (SnowflakeProvider_write_table L table_name df if_exists)"
  unfolding SnowflakeProvider_write_table_def Let_def by (intro keeps; simp)

lemma keeps_SnowflakeProvider_delete_rows [keeps]:
  "keeps_credentials (SnowflakeProvider_delete_rows L table_name where_clause)"
  unfolding SnowflakeProvider_delete_rows_def Let_def by (intro keeps; simp)

lemma keeps_SnowflakeProvider_delete_table [keeps]:
  "keeps_credentials (SnowflakeProvider_delete_table L table_name)"
  unfolding SnowflakeProvider_delete_table_def Let_def by (intro keeps; simp)

lemma keeps_SnowflakeProvider_close [keeps]:
  "keeps_credentials (SnowflakeProvider_close L)"
  unfolding SnowflakeProvider_close_def Let_def by (intro keeps; simp)

lemma SnowflakeProvider_keeps_credentials:
  "contract_keeps_credentials (SnowflakeProvider L) ob w actions dataset table_name limit df
     if_exists where_clause"
  unfolding contract_keeps_credentials_def SnowflakeProvider_def DataProvider.simps
  by (intro conjI keeps_D keeps)

text \<open>
  Claim C9. For the five providers and each of the ten operations of the contract, on
  any provider object, in any world, with any arguments and whatever the libraries do,
  the credentials of the object after the operation, returned or raised, are the
  credentials it had before; and the constructor stores the credentials it is given.
\<close>

theorem providers_keep_credentials:
  "contract_keeps_credentials (SQLiteProvider L1) ob1 w1 actions dataset table_name limit df
     if_exists where_clause
   \<and> contract_keeps_credentials (S3Provider L2) ob2 w2 actions dataset table_name limit df
     if_exists where_clause
   \<and> contract_keeps_credentials (RedshiftProvider L3) ob3 w3 actions dataset table_name limit df
     if_exists where_clause
   \<and> contract_keeps_credentials (BigQueryProvider L4) ob4 w4 actions dataset table_name limit df
     if_exists where_clause
   \<and> contract_keeps_credentials (SnowflakeProvider L5) ob5 w5 actions dataset table_name limit df
     if_exists where_clause
   \<and> credentials (SQLiteProvider_init creds) = creds
   \<and> credentials (S3Provider_init creds) = creds
   \<and> credentials (RedshiftProvider_init creds) = creds
   \<and> credentials (BigQueryProvider_init creds) = creds
   \<and> credentials (SnowflakeProvider_init creds) = creds"
proof (intro conjI)
  show "credentials (SQLiteProvider_init creds) = creds"
    by (simp add: SQLiteProvider_init_def)
  show "credentials (S3Provider_init creds) = creds"
    by (simp add: S3Provider_init_def)
  show "credentials (RedshiftProvider_init creds) = creds"
    by (simp add: RedshiftProvider_init_def)
  show "credentials (BigQueryProvider_init creds) = creds"
    by (simp add: BigQueryProvider_init_def)
  show "credentials (SnowflakeProvider_init creds) = creds"
    by (simp add: SnowflakeProvider_init_def)
qed (rule SQLiteProvider_keeps_credentials S3Provider_keeps_credentials
      RedshiftProvider_keeps_credentials BigQueryProvider_keeps_credentials
      SnowflakeProvider_keeps_credentials)+

theorem providers_keep_credentials_witness:
  "contract_keeps_credentials (SQLiteProvider stand_in_sql_lib) (SQLiteProvider_init sqlite_credentials) []
     [''read'', ''write''] None ''t'' (Some 10) sample_frame ''append'' (Some ''a = 1'')
   \<and> contract_keeps_credentials (S3Provider stand_in_s3_lib) (S3Provider_init s3_credentials) []
     [''read'', ''write''] None ''t'' (Some 10) sample_frame ''append'' (Some ''a = 1'')
   \<and> contract_keeps_credentials (RedshiftProvider stand_in_sql_lib) (RedshiftProvider_init redshift_credentials) []
     [''read'', ''write''] None ''t'' (Some 10) sample_frame ''append'' (Some ''a = 1'')
   \<and> contract_keeps_credentials (BigQueryProvider stand_in_bigquery_lib) (BigQueryProvider_init bigquery_credentials) []
     [''read'', ''write''] None ''t'' (Some 10) sample_frame ''append'' (Some ''a = 1'')
   \<and> contract_keeps_credentials (SnowflakeProvider stand_in_snowflake_lib) (SnowflakeProvider_init snowflake_credentials) []
     [''read'', ''write''] None ''t'' (Some 10) sample_frame ''append'' (Some ''a = 1'')
   \<and> credentials (SQLiteProvider_init sqlite_credentials) = sqlite_credentials
   \<and> credentials (S3Provider_init sqlite_credentials) = sqlite_credentials
   \<and> credentials (RedshiftProvider_init sqlite_credentials) = sqlite_credentials
   \<and> credentials (BigQueryProvider_init sqlite_credentials) = sqlite_credentials
   \<and> credentials (SnowflakeProvider_init sqlite_credentials) = sqlite_credentials"
  by (rule providers_keep_credentials)

section \<open>Testing the connection\<close>

lemma seq_assoc: "seq a (seq b c) = seq (seq a b) c"
  by (rule ext) (simp add: seq_def bind_def split: prod.splits sum.splits)

lemma try_except_succeeded:
  "try_except (seq m (return True)) (return False) \<sigma> = succeeded (m \<sigma>)"
  by (simp add: try_except_def seq_def bind_def return_def succeeded_def split: prod.splits sum.splits)

lemma returns_bool_succeeded: "returns_bool (succeeded r)"
  by (simp add: returns_bool_def succeeded_def split: prod.splits sum.splits)

text \<open>
  Claim C7. For the five providers, on any provider object, in any world and whatever
  the libraries do, \<^verbatim>\<open>test_connection\<close> returns a boolean and does not raise: it is True
  when \<^verbatim>\<open>connect\<close> (followed, for SQLite and BigQuery, by the probe query) returned and
  False when it raised.
\<close>

theorem test_connection_never_raises:
  "returns_bool (test_connection (SQLiteProvider L1) \<sigma>1)
   \<and> test_connection (SQLiteProvider L1) \<sigma>1
       = succeeded (seq (connect (SQLiteProvider L1))
                     (self (\<lambda>ob. attr (sqlite_conn ob) (\<lambda>c. ext (cursor_fetch L1 c ''SELECT 1'')))) \<sigma>1)
   \<and> returns_bool (test_connection (S3Provider L2) \<sigma>2)
   \<and> test_connection (S3Provider L2) \<sigma>2 = succeeded (connect (S3Provider L2) \<sigma>2)
   \<and> returns_bool (test_connection (RedshiftProvider L3) \<sigma>3)
   \<and> test_connection (RedshiftProvider L3) \<sigma>3 = succeeded (connect (RedshiftProvider L3) \<sigma>3)
   \<and> returns_bool (test_connection (BigQueryProvider L4) \<sigma>4)
   \<and> test_connection (BigQueryProvider L4) \<sigma>4
       = succeeded (seq (connect (BigQueryProvider L4))
                     (self (\<lambda>ob. attr (bq_client ob) (\<lambda>c. ext (bq_query L4 c ''SELECT 1'')))) \<sigma>4)
   \<and> returns_bool (test_connection (SnowflakeProvider L5) \<sigma>5)
   \<and> test_connection (SnowflakeProvider L5) \<sigma>5 = succeeded (connect (SnowflakeProvider L5) \<sigma>5)"
proof -
  have a1: "test_connection (SQLiteProvider L1) \<sigma>1
       = succeeded (seq (connect (SQLiteProvider L1))
                     (self (\<lambda>ob. attr (sqlite_conn ob) (\<lambda>c. ext (cursor_fetch L1 c ''SELECT 1'')))) \<sigma>1)"
    by (simp only: SQLiteProvider_def DataProvider.simps SQLiteProvider_test_connection_def
        seq_assoc try_except_succeeded)
  have a2: "test_connection (S3Provider L2) \<sigma>2 = succeeded (connect (S3Provider L2) \<sigma>2)"
    by (simp only: S3Provider_def DataProvider.simps S3Provider_test_connection_def
        try_except_succeeded)
  have a3: "test_connection (RedshiftProvider L3) \<sigma>3 = succeeded (connect (RedshiftProvider L3) \<sigma>3)"
    by (simp only: RedshiftProvider_def DataProvider.simps RedshiftProvider_test_connection_def
        try_except_succeeded)
  have a4: "test_connection (BigQueryProvider L4) \<sigma>4
       = succeeded (seq (connect (BigQueryProvider L4))
                     (self (\<lambda>ob. attr (bq_client ob) (\<lambda>c. ext (bq_query L4 c ''SELECT 1'')))) \<sigma>4)"
    by (simp only: BigQueryProvider_def DataProvider.simps BigQueryProvider_test_connection_def
        seq_assoc try_except_succeeded)
  have a5: "test_connection (SnowflakeProvider L5) \<sigma>5 = succeeded (connect (SnowflakeProvider L5) \<sigma>5)"
    by (simp only: SnowflakeProvider_def DataProvider.simps SnowflakeProvider_test_connection_def
        try_except_succeeded)
  have b1: "returns_bool (test_connection (SQLiteProvider L1) \<sigma>1)"
    unfolding a1 by (rule returns_bool_succeeded)
  have b2: "returns_bool (test_connection (S3Provider L2) \<sigma>2)"
    unfolding a2 by (rule returns_bool_succeeded)
  have b3: "returns_bool (test_connection (RedshiftProvider L3) \<sigma>3)"
    unfolding a3 by (rule returns_bool_succeeded)
  have b4: "returns_bool (test_connection (BigQueryProvider L4) \<sigma>4)"
    unfolding a4 by (rule returns_bool_succeeded)
  have b5: "returns_bool (test_connection (SnowflakeProvider L5) \<sigma>5)"
    unfolding a5 by (rule returns_bool_succeeded)
  show ?thesis
    by (intro conjI a1 a2 a3 a4 a5 b1 b2 b3 b4 b5)
qed

theorem test_connection_never_raises_witness:
  "fst (test_connection (SQLiteProvider stand_in_sql_lib) (SQLiteProvider_init Map.empty, [])) = Inr False
   \<and> fst (test_connection (SQLiteProvider stand_in_sql_lib) (SQLiteProvider_init sqlite_credentials, []))
       = Inr True
   \<and> fst (test_connection (S3Provider stand_in_s3_lib) (S3Provider_init Map.empty, [])) = Inr False
   \<and> fst (test_connection (SnowflakeProvider stand_in_snowflake_lib)
            (SnowflakeProvider_init Map.empty, [])) = Inr False"
proof -
  note t = test_connection_never_raises[where ?L1.0 = stand_in_sql_lib and ?L2.0 = stand_in_s3_lib
      and ?L5.0 = stand_in_snowflake_lib]
  have a: "fst (test_connection (SQLiteProvider stand_in_sql_lib) (SQLiteProvider_init Map.empty, [])) = Inr False"
    unfolding t[where ?\<sigma>1.0 = "(SQLiteProvider_init Map.empty, [])", THEN conjunct2, THEN conjunct1]
    by (simp add: succeeded_def seq_def bind_def SQLiteProvider_def SQLiteProvider_connect_def self_def
        SQLiteProvider_init_def dict_get_def raise_def)
  have b: "fst (test_connection (SQLiteProvider stand_in_sql_lib) (SQLiteProvider_init sqlite_credentials, []))
       = Inr True"
    unfolding t[where ?\<sigma>1.0 = "(SQLiteProvider_init sqlite_credentials, [])", THEN conjunct2, THEN conjunct1]
    by (simp add: succeeded_def seq_def bind_def SQLiteProvider_def SQLiteProvider_connect_def self_def
        SQLiteProvider_init_def sqlite_credentials_def dict_get_def raise_def return_def as_path_def
        ext_def assign_def attr_def stand_in_sql_lib_def)
  have c: "fst (test_connection (S3Provider stand_in_s3_lib) (S3Provider_init Map.empty, [])) = Inr False"
    unfolding t[where ?\<sigma>2.0 = "(S3Provider_init Map.empty, [])", THEN conjunct2, THEN conjunct2,
        THEN conjunct2, THEN conjunct1]
    by (simp add: succeeded_def seq_def bind_def S3Provider_def S3Provider_connect_def self_def
        S3Provider_init_def dict_get_def raise_def return_def ext_def assign_def Let_def
        stand_in_s3_lib_def s3_served_def)
  have d: "fst (test_connection (SnowflakeProvider stand_in_snowflake_lib)
            (SnowflakeProvider_init Map.empty, [])) = Inr False"
    unfolding t[where ?\<sigma>5.0 = "(SnowflakeProvider_init Map.empty, [])", THEN conjunct2, THEN conjunct2,
        THEN conjunct2, THEN conjunct2, THEN conjunct2, THEN conjunct2, THEN conjunct2,
        THEN conjunct2, THEN conjunct2]
    by (simp add: succeeded_def seq_def bind_def SnowflakeProvider_def SnowflakeProvider_connect_def
        self_def SnowflakeProvider_init_def dict_get_def raise_def return_def ext_def assign_def
        stand_in_snowflake_lib_def)
  show ?thesis
    by (intro conjI a b c d)
qed

section \<open>Writing a table\<close>

named_theorems ro

lemma ro_return [ro]: "returns_only (return v) v"
  by (simp add: returns_only_def return_def)

lemma ro_raise [ro]: "returns_only (raise e) v"
  by (simp add: returns_only_def raise_def)

lemma ro_bind [ro]:
  assumes "\<And>x. returns_only (f x) v"
  shows "returns_only (bind m f) v"
proof -
  have "r = v" if h: "bind m f \<sigma> = (Inr r, \<tau>)" for \<sigma> r \<tau>
  proof -
    obtain a \<sigma>1 where m: "m \<sigma> = (a, \<sigma>1)" by (metis prod.exhaust)
    show ?thesis
    proof (cases a)
      case (Inl e)
      with m h show ?thesis by (simp add: bind_def)
    next
      case (Inr x)
      with m h have "f x \<sigma>1 = (Inr r, \<tau>)" by (simp add: bind_def)
      with assms[of x] show ?thesis unfolding returns_only_def by blast
    qed
  qed
  then show ?thesis unfolding returns_only_def by blast
qed

lemma ro_seq [ro]: "returns_only k v \<Longrightarrow> returns_only (seq m k) v"
  unfolding seq_def by (rule ro_bind)

lemma ro_self [ro]: "(\<And>ob. returns_only (f ob) v) \<Longrightarrow> returns_only (self f) v"
  by (simp add: returns_only_def self_def split: prod.splits)

lemma ro_attr [ro]: "(\<And>x. returns_only (f x) v) \<Longrightarrow> returns_only (attr h f) v"
  by (cases h) (simp_all add: attr_def ro_raise)

lemma ro_if [ro]:
  "(c \<Longrightarrow> returns_only a v) \<Longrightarrow> (\<not> c \<Longrightarrow> returns_only b v) \<Longrightarrow> returns_only (if c then a else b) v"
  by simp

lemma ro_D: "returns_only m v \<Longrightarrow> m \<sigma> = (Inr r, \<tau>) \<Longrightarrow> r = v"
  unfolding returns_only_def by blast

lemma ro_SQLiteProvider_write_table:
  "returns_only (SQLiteProvider_write_table L table_name df if_exists) (int (len df))"
  unfolding SQLiteProvider_write_table_def by (intro ro)

lemma ro_RedshiftProvider_write_table:
  "returns_only (RedshiftProvider_write_table L table_name df if_exists) (int (len df))"
  unfolding RedshiftProvider_write_table_def by (intro ro)

lemma ro_S3Provider_write_table:
  "returns_only (S3Provider_write_table L table_name df if_exists) (int (len df))"
  unfolding S3Provider_write_table_def Let_def by (intro ro)

lemma ro_BigQueryProvider_write_table:
  "returns_only (BigQueryProvider_write_table L table_name df if_exists) (int (len df))"
  unfolding BigQueryProvider_write_table_def by (intro ro)

lemma ro_write_pandas:
  assumes "\<And>c x nm w r w'. write_pandas L c x nm w = (Inr r, w') \<Longrightarrow> snd (snd r) = int (len x)"
  shows "returns_only (bind (ext (write_pandas L c df table_name))
           (\<lambda>(success, nchunks, nrows). return nrows)) (int (len df))"
  unfolding returns_only_def
proof (intro allI impI)
  fix \<sigma> r \<tau>
  assume h: "bind (ext (write_pandas L c df table_name)) (\<lambda>(success, nchunks, nrows). return nrows) \<sigma>
           = (Inr r, \<tau>)"
  obtain ob w where s: "\<sigma> = (ob, w)" by (cases \<sigma>)
  obtain a w1 where m: "write_pandas L c df table_name w = (a, w1)" by (metis prod.exhaust)
  show "r = int (len df)"
  proof (cases a)
    case (Inl e)
    with m h s show ?thesis by (simp add: bind_def ext_def)
  next
    case (Inr x)
    with m assms have "snd (snd x) = int (len df)" by blast
    moreover from m h s Inr have "r = snd (snd x)"
      by (simp add: bind_def ext_def return_def split: prod.splits)
    ultimately show ?thesis by simp
  qed
qed

lemma ro_SnowflakeProvider_write_table:
  assumes "\<And>c x nm w r w'. write_pandas L c x nm w = (Inr r, w') \<Longrightarrow> snd (snd r) = int (len x)"
  shows "returns_only (SnowflakeProvider_write_table L table_name df if_exists) (int (len df))"
  unfolding SnowflakeProvider_write_table_def Let_def
  by (intro ro ro_write_pandas assms)

lemma len_concat_frames: "len (concat_frames a b) = len a + len b"
  by (simp add: concat_frames_def Let_def len_def)

lemma S3Provider_append_existing:
  assumes cl: "s3_client ob = Some c"
      and b: "truthy (s3_bucket ob)" and k: "truthy (s3_key ob table_name)"
      and rd: "get_object_body L c (s3_bucket ob) (s3_key ob table_name) w = (Inr body, w1)"
      and pq: "is_parquet_key (s3_key ob table_name) = Inr False"
      and ps: "read_csv L body = Inr existing"
      and ne: "\<not> df_empty existing"
      and sr: "to_csv L (concat_frames existing df) = Inr out"
      and pt: "put_object L c (s3_bucket ob) (s3_key ob table_name) out w1 = (Inr (), w2)"
  shows "S3Provider_write_table L table_name df ''append'' (ob, w) = (Inr (int (len df)), (ob, w2))"
proof -
  have r: "S3Provider_read_object_df L (s3_bucket ob) (s3_key ob table_name) (ob, w)
      = (Inr existing, (ob, w1))"
    by (simp add: S3Provider_read_object_df_def self_def attr_def cl bind_def ext_def rd pq ps
        lift_def return_def)
  have s: "S3Provider_serialise L (s3_key ob table_name) (concat_frames existing df) (ob, w1)
      = (Inr out, (ob, w1))"
    by (simp add: S3Provider_serialise_def bind_def lift_def pq sr return_def)
  show ?thesis
    using b k ne
    by (simp add: S3Provider_write_table_def self_def Let_def bind_def try_except_ClientError_def r s
        seq_def attr_def cl ext_def pt return_def)
qed

text \<open>
  Claim C6. For the SQLite, Redshift, S3 and BigQuery providers, whatever the library
  does and in both write modes, a \<^verbatim>\<open>write_table\<close> that returns, returns the number of
  rows of the frame it was given; so does the Snowflake provider, which returns the row
  count that \<^verbatim>\<open>write_pandas\<close> reports, as long as that function reports the rows of the
  frame it loaded. In particular the S3 provider in append mode, on an object that
  holds rows already, writes the old rows followed by the new ones and still returns
  the number of new rows.
\<close>

theorem write_table_returns_input_rows:
  "(write_table (SQLiteProvider L1) table_name df if_exists \<sigma>1 = (Inr n1, \<tau>1) \<longrightarrow> n1 = int (len df))
   \<and> (write_table (S3Provider L2) table_name df if_exists \<sigma>2 = (Inr n2, \<tau>2) \<longrightarrow> n2 = int (len df))
   \<and> (write_table (RedshiftProvider L3) table_name df if_exists \<sigma>3 = (Inr n3, \<tau>3) \<longrightarrow> n3 = int (len df))
   \<and> (write_table (BigQueryProvider L4) table_name df if_exists \<sigma>4 = (Inr n4, \<tau>4) \<longrightarrow> n4 = int (len df))
   \<and> ((\<forall>c x nm w r w'. write_pandas L5 c x nm w = (Inr r, w') \<longrightarrow> snd (snd r) = int (len x)) \<longrightarrow>
        write_table (SnowflakeProvider L5) table_name df if_exists \<sigma>5 = (Inr n5, \<tau>5) \<longrightarrow>
        n5 = int (len df))
   \<and> (s3_client ob = Some c \<and> truthy (s3_bucket ob) \<and> truthy (s3_key ob table_name)
        \<and> get_object_body L2 c (s3_bucket ob) (s3_key ob table_name) w = (Inr body, w1)
        \<and> is_parquet_key (s3_key ob table_name) = Inr False
        \<and> read_csv L2 body = Inr existing \<and> \<not> df_empty existing
        \<and> to_csv L2 (concat_frames existing df) = Inr out
        \<and> put_object L2 c (s3_bucket ob) (s3_key ob table_name) out w1 = (Inr (), w2)
        \<longrightarrow> write_table (S3Provider L2) table_name df ''append'' (ob, w)
              = (Inr (int (len df)), (ob, w2))
            \<and> len (concat_frames existing df) = len existing + len df)"
proof (intro conjI impI)
  assume "write_table (SQLiteProvider L1) table_name df if_exists \<sigma>1 = (Inr n1, \<tau>1)"
  then have "SQLiteProvider_write_table L1 table_name df if_exists \<sigma>1 = (Inr n1, \<tau>1)"
    by (simp add: SQLiteProvider_def)
  with ro_SQLiteProvider_write_table show "n1 = int (len df)" by (rule ro_D)
next
  assume "write_table (S3Provider L2) table_name df if_exists \<sigma>2 = (Inr n2, \<tau>2)"
  then have "S3Provider_write_table L2 table_name df if_exists \<sigma>2 = (Inr n2, \<tau>2)"
    by (simp add: S3Provider_def)
  with ro_S3Provider_write_table show "n2 = int (len df)" by (rule ro_D)
next
  assume "write_table (RedshiftProvider L3) table_name df if_exists \<sigma>3 = (Inr n3, \<tau>3)"
  then have "RedshiftProvider_write_table L3 table_name df if_exists \<sigma>3 = (Inr n3, \<tau>3)"
    by (simp add: RedshiftProvider_def)
  with ro_RedshiftProvider_write_table show "n3 = int (len df)" by (rule ro_D)
next
  assume "write_table (BigQueryProvider L4) table_name df if_exists \<sigma>4 = (Inr n4, \<tau>4)"
  then have "BigQueryProvider_write_table L4 table_name df if_exists \<sigma>4 = (Inr n4, \<tau>4)"
    by (simp add: BigQueryProvider_def)
  with ro_BigQueryProvider_write_table show "n4 = int (len df)" by (rule ro_D)
next
  assume h: "\<forall>c x nm w r w'. write_pandas L5 c x nm w = (Inr r, w') \<longrightarrow> snd (snd r) = int (len x)"
    and "write_table (SnowflakeProvider L5) table_name df if_exists \<sigma>5 = (Inr n5, \<tau>5)"
  then have r: "SnowflakeProvider_write_table L5 table_name df if_exists \<sigma>5 = (Inr n5, \<tau>5)"
    by (simp add: SnowflakeProvider_def)
  from h have h': "\<And>c x nm w r w'. write_pandas L5 c x nm w = (Inr r, w') \<Longrightarrow> snd (snd r) = int (len x)"
    by blast
  have "returns_only (SnowflakeProvider_write_table L5 table_name df if_exists) (int (len df))"
    using h' by (rule ro_SnowflakeProvider_write_table)
  then show "n5 = int (len df)" using r by (rule ro_D)
next
  assume h: "s3_client ob = Some c \<and> truthy (s3_bucket ob) \<and> truthy (s3_key ob table_name)
        \<and> get_object_body L2 c (s3_bucket ob) (s3_key ob table_name) w = (Inr body, w1)
        \<and> is_parquet_key (s3_key ob table_name) = Inr False
        \<and> read_csv L2 body = Inr existing \<and> \<not> df_empty existing
        \<and> to_csv L2 (concat_frames existing df) = Inr out
        \<and> put_object L2 c (s3_bucket ob) (s3_key ob table_name) out w1 = (Inr (), w2)"
  then have "S3Provider_write_table L2 table_name df ''append'' (ob, w) = (Inr (int (len df)), (ob, w2))"
    by (intro S3Provider_append_existing[where c = c and body = body and existing = existing
          and out = out and ?w1.0 = w1]) simp_all
  then show "write_table (S3Provider L2) table_name df ''append'' (ob, w)
              = (Inr (int (len df)), (ob, w2))"
    by (simp add: S3Provider_def)
next
  show "len (concat_frames existing df) = len existing + len df"
    by (rule len_concat_frames)
qed

theorem write_table_returns_input_rows_witness:
  "s3_client s3_connected = Some 1
   \<and> get_object_body stand_in_s3_lib 1 (PStr ''lake'') (PStr ''t.csv'') lake_with_two_rows
       = (Inr (Inr two_rows_frame), lake_with_two_rows)
   \<and> \<not> df_empty two_rows_frame
   \<and> write_table (S3Provider stand_in_s3_lib) ''t.csv'' sample_frame ''append''
        (s3_connected, lake_with_two_rows)
       = (Inr 5, (s3_connected,
            [((PStr ''lake'', PStr ''t.csv''), Inr (concat_frames two_rows_frame sample_frame))]))
   \<and> len (concat_frames two_rows_frame sample_frame) = 7"
proof -
  have cl: "s3_client s3_connected = Some 1"
    by (simp add: s3_connected_def)
  have bk: "s3_bucket s3_connected = PStr ''lake''"
    by (simp add: s3_bucket_def s3_connected_def S3Provider_init_def s3_credentials_def dict_get_def)
  have ky: "s3_key s3_connected ''t.csv'' = PStr ''t.csv''"
    by (simp add: s3_key_def py_or_def)
  have rd: "get_object_body stand_in_s3_lib 1 (PStr ''lake'') (PStr ''t.csv'') lake_with_two_rows
       = (Inr (Inr two_rows_frame), lake_with_two_rows)"
    by (simp add: stand_in_s3_lib_def s3_served_def lake_with_two_rows_def)
  have pq: "is_parquet_key (PStr ''t.csv'') = Inr False"
    by (simp add: is_parquet_key_def endswith_def lower_def)
  have ps: "read_csv stand_in_s3_lib (Inr two_rows_frame) = Inr two_rows_frame"
    by (simp add: stand_in_s3_lib_def stand_in_parse_def)
  have ne: "\<not> df_empty two_rows_frame"
    by (simp add: df_empty_def two_rows_frame_def)
  have sr: "to_csv stand_in_s3_lib (concat_frames two_rows_frame sample_frame)
      = Inr (Inr (concat_frames two_rows_frame sample_frame))"
    by (simp add: stand_in_s3_lib_def)
  have pt: "put_object stand_in_s3_lib 1 (PStr ''lake'') (PStr ''t.csv'')
        (Inr (concat_frames two_rows_frame sample_frame)) lake_with_two_rows
      = (Inr (), [((PStr ''lake'', PStr ''t.csv''), Inr (concat_frames two_rows_frame sample_frame))])"
    by (simp add: stand_in_s3_lib_def s3_served_def lake_with_two_rows_def)
  have hyp: "s3_client s3_connected = Some 1 \<and> truthy (s3_bucket s3_connected)
        \<and> truthy (s3_key s3_connected ''t.csv'')
        \<and> get_object_body stand_in_s3_lib 1 (s3_bucket s3_connected) (s3_key s3_connected ''t.csv'')
             lake_with_two_rows = (Inr (Inr two_rows_frame), lake_with_two_rows)
        \<and> is_parquet_key (s3_key s3_connected ''t.csv'') = Inr False
        \<and> read_csv stand_in_s3_lib (Inr two_rows_frame) = Inr two_rows_frame
        \<and> \<not> df_empty two_rows_frame
        \<and> to_csv stand_in_s3_lib (concat_frames two_rows_frame sample_frame)
            = Inr (Inr (concat_frames two_rows_frame sample_frame))
        \<and> put_object stand_in_s3_lib 1 (s3_bucket s3_connected) (s3_key s3_connected ''t.csv'')
            (Inr (concat_frames two_rows_frame sample_frame)) lake_with_two_rows
            = (Inr (), [((PStr ''lake'', PStr ''t.csv''), Inr (concat_frames two_rows_frame sample_frame))])"
    unfolding bk ky by (intro conjI cl rd pq ps ne sr pt) simp_all
  have th: "s3_client s3_connected = Some 1 \<and> truthy (s3_bucket s3_connected)
        \<and> truthy (s3_key s3_connected ''t.csv'')
        \<and> get_object_body stand_in_s3_lib 1 (s3_bucket s3_connected) (s3_key s3_connected ''t.csv'')
             lake_with_two_rows = (Inr (Inr two_rows_frame), lake_with_two_rows)
        \<and> is_parquet_key (s3_key s3_connected ''t.csv'') = Inr False
        \<and> read_csv stand_in_s3_lib (Inr two_rows_frame) = Inr two_rows_frame
        \<and> \<not> df_empty two_rows_frame
        \<and> to_csv stand_in_s3_lib (concat_frames two_rows_frame sample_frame)
            = Inr (Inr (concat_frames two_rows_frame sample_frame))
        \<and> put_object stand_in_s3_lib 1 (s3_bucket s3_connected) (s3_key s3_connected ''t.csv'')
            (Inr (concat_frames two_rows_frame sample_frame)) lake_with_two_rows
            = (Inr (), [((PStr ''lake'', PStr ''t.csv''), Inr (concat_frames two_rows_frame sample_frame))])
        \<longrightarrow> write_table (S3Provider stand_in_s3_lib) ''t.csv'' sample_frame ''append''
                (s3_connected, lake_with_two_rows)
              = (Inr (int (len sample_frame)), (s3_connected,
                  [((PStr ''lake'', PStr ''t.csv''), Inr (concat_frames two_rows_frame sample_frame))]))
            \<and> len (concat_frames two_rows_frame sample_frame) = len two_rows_frame + len sample_frame"
    by (rule write_table_returns_input_rows[where ?L2.0 = stand_in_s3_lib and ob = s3_connected
        and c = 1 and table_name = "''t.csv''" and w = lake_with_two_rows
        and body = "Inr two_rows_frame" and ?w1.0 = lake_with_two_rows and existing = two_rows_frame
        and df = sample_frame and out = "Inr (concat_frames two_rows_frame sample_frame)"
        and ?w2.0 = "[((PStr ''lake'', PStr ''t.csv''), Inr (concat_frames two_rows_frame sample_frame))]",
        THEN conjunct2, THEN conjunct2, THEN conjunct2, THEN conjunct2, THEN conjunct2])
  from th hyp have res: "write_table (S3Provider stand_in_s3_lib) ''t.csv'' sample_frame ''append''
                (s3_connected, lake_with_two_rows)
              = (Inr (int (len sample_frame)), (s3_connected,
                  [((PStr ''lake'', PStr ''t.csv''), Inr (concat_frames two_rows_frame sample_frame))]))"
    and ln: "len (concat_frames two_rows_frame sample_frame) = len two_rows_frame + len sample_frame"
    by blast+
  have l5: "len sample_frame = 5" by (simp add: len_def sample_frame_def)
  have l2: "len two_rows_frame = 2" by (simp add: len_def two_rows_frame_def)
  have res': "write_table (S3Provider stand_in_s3_lib) ''t.csv'' sample_frame ''append''
        (s3_connected, lake_with_two_rows)
       = (Inr 5, (s3_connected,
            [((PStr ''lake'', PStr ''t.csv''), Inr (concat_frames two_rows_frame sample_frame))]))"
    using res unfolding l5 by simp
  have ln': "len (concat_frames two_rows_frame sample_frame) = 7"
    using ln unfolding l5 l2 by simp
  show ?thesis
    by (intro conjI cl rd ne res' ln')
qed

lemma BigQueryProvider_full_table_ref_state:
  "snd (BigQueryProvider_full_table_ref L table_name \<sigma>) = \<sigma>"
  by (cases \<sigma>)
    (simp add: BigQueryProvider_full_table_ref_def self_def attr_def raise_def return_def Let_def
      split: option.splits)

lemma BigQueryProvider_full_table_ref_run:
  assumes "fst (BigQueryProvider_full_table_ref L table_name \<sigma>) = Inr full"
  shows "BigQueryProvider_full_table_ref L table_name \<sigma> = (Inr full, \<sigma>)"
  using assms BigQueryProvider_full_table_ref_state[of L table_name \<sigma>]
  by (metis prod.collapse)

lemma stand_in_full_table_ref:
  "BigQueryProvider_full_table_ref stand_in_bigquery_lib ''orders'' (bigquery_connected, w)
     = (Inr ''demo.sales.orders'', (bigquery_connected, w))"
  by (simp add: BigQueryProvider_full_table_ref_def self_def attr_def return_def Let_def
      bigquery_connected_def BigQueryProvider_init_def bigquery_credentials_def dict_get_def
      stand_in_bigquery_lib_def)

text \<open>
  Claim C5, for the BigQuery provider. In a mode other than \<^verbatim>\<open>replace\<close>, \<^verbatim>\<open>write_table\<close>
  first fetches the table: when that lookup raises, as it does for a table that does not
  exist, \<^verbatim>\<open>write_table\<close> raises the same exception and the frame is never loaded. In
  \<^verbatim>\<open>replace\<close> mode the table is not fetched and a failing deletion is ignored, so a load
  that succeeds creates the table and the number of rows of the frame is returned.
\<close>

theorem BigQueryProvider_write_table_absent:
  "(bq_client ob = Some c
      \<and> fst (BigQueryProvider_full_table_ref L table_name (ob, w)) = Inr full
      \<and> if_exists \<noteq> ''replace''
      \<and> bq_get_table L c full w = (Inl x, w1)
      \<longrightarrow> write_table (BigQueryProvider L) table_name df if_exists (ob, w) = (Inl x, (ob, w1)))
   \<and> (bq_client ob = Some c
      \<and> fst (BigQueryProvider_full_table_ref L table_name (ob, w)) = Inr full
      \<and> bq_delete_table L c full False w = (r, w1)
      \<and> bq_load_table_from_dataframe L c df full w1 = (Inr (), w2)
      \<longrightarrow> write_table (BigQueryProvider L) table_name df ''replace'' (ob, w)
            = (Inr (int (len df)), (ob, w2)))"
proof (intro conjI impI)
  assume h: "bq_client ob = Some c
      \<and> fst (BigQueryProvider_full_table_ref L table_name (ob, w)) = Inr full
      \<and> if_exists \<noteq> ''replace''
      \<and> bq_get_table L c full w = (Inl x, w1)"
  then have f: "BigQueryProvider_full_table_ref L table_name (ob, w) = (Inr full, (ob, w))"
    by (intro BigQueryProvider_full_table_ref_run) simp
  from h have cl: "bq_client ob = Some c" and m: "if_exists \<noteq> ''replace''"
    and g: "bq_get_table L c full w = (Inl x, w1)"
    by simp_all
  have "BigQueryProvider_write_table L table_name df if_exists (ob, w) = (Inl x, (ob, w1))"
    using m by (simp add: BigQueryProvider_write_table_def bind_def f seq_def self_def attr_def cl
        ext_def g)
  then show "write_table (BigQueryProvider L) table_name df if_exists (ob, w) = (Inl x, (ob, w1))"
    by (simp add: BigQueryProvider_def)
next
  assume h: "bq_client ob = Some c
      \<and> fst (BigQueryProvider_full_table_ref L table_name (ob, w)) = Inr full
      \<and> bq_delete_table L c full False w = (r, w1)
      \<and> bq_load_table_from_dataframe L c df full w1 = (Inr (), w2)"
  then have f: "BigQueryProvider_full_table_ref L table_name (ob, w) = (Inr full, (ob, w))"
    by (intro BigQueryProvider_full_table_ref_run) simp
  from h have cl: "bq_client ob = Some c"
    and d: "bq_delete_table L c full False w = (r, w1)"
    and l: "bq_load_table_from_dataframe L c df full w1 = (Inr (), w2)"
    by simp_all
  have "BigQueryProvider_write_table L table_name df ''replace'' (ob, w)
      = (Inr (int (len df)), (ob, w2))"
    by (cases r)
      (simp_all add: BigQueryProvider_write_table_def bind_def f seq_def self_def attr_def cl
        ext_def d l try_except_def return_def)
  then show "write_table (BigQueryProvider L) table_name df ''replace'' (ob, w)
            = (Inr (int (len df)), (ob, w2))"
    by (simp add: BigQueryProvider_def)
qed

theorem BigQueryProvider_write_table_absent_witness:
  "bq_client bigquery_connected = Some 1
   \<and> bq_get_table stand_in_bigquery_lib 1 ''demo.sales.orders'' [] = (Inl (LibraryError ''NotFound''), [])
   \<and> write_table (BigQueryProvider stand_in_bigquery_lib) ''orders'' sample_frame ''append''
        (bigquery_connected, [])
       = (Inl (LibraryError ''NotFound''), (bigquery_connected, []))
   \<and> write_table (BigQueryProvider stand_in_bigquery_lib) ''orders'' sample_frame ''replace''
        (bigquery_connected, [])
       = (Inr 5, (bigquery_connected, [(''demo.sales.orders'', sample_frame)]))"
proof -
  have cl: "bq_client bigquery_connected = Some 1"
    by (simp add: bigquery_connected_def)
  have f: "fst (BigQueryProvider_full_table_ref stand_in_bigquery_lib ''orders'' (bigquery_connected, []))
      = Inr ''demo.sales.orders''"
    by (simp add: stand_in_full_table_ref)
  have m: "''append'' \<noteq> ''replace''"
    by simp
  have g: "bq_get_table stand_in_bigquery_lib 1 ''demo.sales.orders'' [] = (Inl (LibraryError ''NotFound''), [])"
    by (simp add: stand_in_bigquery_lib_def)
  have d: "bq_delete_table stand_in_bigquery_lib 1 ''demo.sales.orders'' False []
      = (Inl (LibraryError ''NotFound''), [])"
    by (simp add: stand_in_bigquery_lib_def)
  have l: "bq_load_table_from_dataframe stand_in_bigquery_lib 1 sample_frame ''demo.sales.orders'' []
      = (Inr (), [(''demo.sales.orders'', sample_frame)])"
    by (simp add: stand_in_bigquery_lib_def stored_append_def)
  have a: "write_table (BigQueryProvider stand_in_bigquery_lib) ''orders'' sample_frame ''append''
        (bigquery_connected, [])
       = (Inl (LibraryError ''NotFound''), (bigquery_connected, []))"
    using BigQueryProvider_write_table_absent[where L = stand_in_bigquery_lib and ob = bigquery_connected
        and c = 1 and table_name = "''orders''" and w = "[]" and full = "''demo.sales.orders''"
        and if_exists = "''append''" and x = "LibraryError ''NotFound''" and ?w1.0 = "[]"
        and df = sample_frame, THEN conjunct1] cl f m g
    by blast
  have "write_table (BigQueryProvider stand_in_bigquery_lib) ''orders'' sample_frame ''replace''
        (bigquery_connected, [])
       = (Inr (int (len sample_frame)), (bigquery_connected, [(''demo.sales.orders'', sample_frame)]))"
    using BigQueryProvider_write_table_absent[where L = stand_in_bigquery_lib and ob = bigquery_connected
        and c = 1 and table_name = "''orders''" and w = "[]" and full = "''demo.sales.orders''"
        and r = "Inl (LibraryError ''NotFound'')" and ?w1.0 = "[]"
        and ?w2.0 = "[(''demo.sales.orders'', sample_frame)]"
        and df = sample_frame, THEN conjunct2] cl f d l
    by blast
  then have b: "write_table (BigQueryProvider stand_in_bigquery_lib) ''orders'' sample_frame ''replace''
        (bigquery_connected, [])
       = (Inr 5, (bigquery_connected, [(''demo.sales.orders'', sample_frame)]))"
    by (simp add: len_def sample_frame_def)
  show ?thesis
    by (intro conjI cl g a b)
qed

section \<open>Deleting rows\<close>

lemma S3Provider_delete_rows_unconfigured:
  assumes "\<not> truthy (s3_bucket ob) \<or> \<not> truthy (s3_key ob table_name)"
  shows "S3Provider_delete_rows L table_name where_clause (ob, w) = (Inr 0, (ob, w))"
  using assms by (auto simp add: S3Provider_delete_rows_def self_def Let_def return_def)

lemma S3Provider_delete_rows_read_fault:
  assumes b: "truthy (s3_bucket ob)" and k: "truthy (s3_key ob table_name)"
      and rd: "S3Provider_read_object_df L (s3_bucket ob) (s3_key ob table_name) (ob, w) = (Inl x, \<sigma>)"
  shows "S3Provider_delete_rows L table_name where_clause (ob, w) = (Inl x, \<sigma>)"
  using b k by (simp add: S3Provider_delete_rows_def self_def Let_def bind_def rd)

lemma S3Provider_delete_rows_empty:
  assumes b: "truthy (s3_bucket ob)" and k: "truthy (s3_key ob table_name)"
      and rd: "S3Provider_read_object_df L (s3_bucket ob) (s3_key ob table_name) (ob, w)
                 = (Inr stored, (ob, w1))"
      and em: "df_empty stored"
  shows "S3Provider_delete_rows L table_name where_clause (ob, w) = (Inr 0, (ob, w1))"
  using b k em by (simp add: S3Provider_delete_rows_def self_def Let_def bind_def rd return_def)

lemma S3Provider_delete_rows_swallows:
  assumes b: "truthy (s3_bucket ob)" and k: "truthy (s3_key ob table_name)"
      and rd: "S3Provider_read_object_df L (s3_bucket ob) (s3_key ob table_name) (ob, w)
                 = (Inr stored, (ob, w1))"
      and ne: "\<not> df_empty stored"
      and hp: "has_predicate where_clause"
      and q: "df_query L stored (the where_clause) = Inl y"
  shows "S3Provider_delete_rows L table_name where_clause (ob, w)
     = bind (S3Provider_serialise L (s3_key ob table_name) stored) (\<lambda>body.
       seq (self (\<lambda>ob'. attr (s3_client ob') (\<lambda>c.
              ext (put_object L c (s3_bucket ob) (s3_key ob table_name) body))))
           (return 0)) (ob, w1)"
proof -
  have t: "try_except
             (bind (lift (df_query L stored (the where_clause))) (\<lambda>selected.
              return (drop_positions stored selected)))
             (return stored) (ob, w1) = (Inr stored, (ob, w1))"
    by (simp add: try_except_def bind_def lift_def q raise_def return_def)
  have r': "bind (S3Provider_read_object_df L (s3_bucket ob) (s3_key ob table_name)) f (ob, w)
      = f stored (ob, w1)" for f
    by (simp add: bind_def rd)
  have t': "bind (try_except
             (bind (lift (df_query L stored (the where_clause))) (\<lambda>selected.
              return (drop_positions stored selected)))
             (return stored)) f (ob, w1)
      = f (stored) (ob, w1)" for f
    using t by (rule bind_Inr)
  show ?thesis
    using b k ne hp
    by (simp add: S3Provider_delete_rows_def self_def Let_def r' t')
qed

lemma S3Provider_delete_rows_selected:
  assumes b: "truthy (s3_bucket ob)" and k: "truthy (s3_key ob table_name)"
      and rd: "S3Provider_read_object_df L (s3_bucket ob) (s3_key ob table_name) (ob, w)
                 = (Inr stored, (ob, w1))"
      and ne: "\<not> df_empty stored"
      and hp: "has_predicate where_clause"
      and q: "df_query L stored (the where_clause) = Inr selected"
  shows "S3Provider_delete_rows L table_name where_clause (ob, w)
     = bind (S3Provider_serialise L (s3_key ob table_name) (drop_positions stored selected)) (\<lambda>body.
       seq (self (\<lambda>ob'. attr (s3_client ob') (\<lambda>c.
              ext (put_object L c (s3_bucket ob) (s3_key ob table_name) body))))
           (return (int (len stored) - int (len (drop_positions stored selected))))) (ob, w1)"
proof -
  have t: "try_except
             (bind (lift (df_query L stored (the where_clause))) (\<lambda>selected.
              return (drop_positions stored selected)))
             (return stored) (ob, w1) = (Inr (drop_positions stored selected), (ob, w1))"
    by (simp add: try_except_def bind_def lift_def q return_def)
  have r': "bind (S3Provider_read_object_df L (s3_bucket ob) (s3_key ob table_name)) f (ob, w)
      = f stored (ob, w1)" for f
    by (simp add: bind_def rd)
  have t': "bind (try_except
             (bind (lift (df_query L stored (the where_clause))) (\<lambda>selected.
              return (drop_positions stored selected)))
             (return stored)) f (ob, w1)
      = f (drop_positions stored selected) (ob, w1)" for f
    using t by (rule bind_Inr)
  show ?thesis
    using b k ne hp
    by (simp add: S3Provider_delete_rows_def self_def Let_def r' t')
qed

lemma S3Provider_delete_rows_all:
  assumes b: "truthy (s3_bucket ob)" and k: "truthy (s3_key ob table_name)"
      and rd: "S3Provider_read_object_df L (s3_bucket ob) (s3_key ob table_name) (ob, w)
                 = (Inr stored, (ob, w1))"
      and ne: "\<not> df_empty stored"
      and hp: "\<not> has_predicate where_clause"
  shows "S3Provider_delete_rows L table_name where_clause (ob, w)
     = bind (S3Provider_serialise L (s3_key ob table_name) (stored\<lparr>rows := []\<rparr>)) (\<lambda>body.
       seq (self (\<lambda>ob'. attr (s3_client ob') (\<lambda>c.
              ext (put_object L c (s3_bucket ob) (s3_key ob table_name) body))))
           (return (int (len stored) - int (len (stored\<lparr>rows := []\<rparr>))))) (ob, w1)"
proof -
  have t: "return (stored\<lparr>rows := []\<rparr>) (ob, w1) = (Inr (stored\<lparr>rows := []\<rparr>), (ob, w1))"
    by (simp add: return_def)
  have r': "bind (S3Provider_read_object_df L (s3_bucket ob) (s3_key ob table_name)) f (ob, w)
      = f stored (ob, w1)" for f
    by (simp add: bind_def rd)
  have t': "bind (return (stored\<lparr>rows := []\<rparr>)) f (ob, w1)
      = f (stored\<lparr>rows := []\<rparr>) (ob, w1)" for f
    using t by (rule bind_Inr)
  show ?thesis
    using b k ne hp
    by (simp add: S3Provider_delete_rows_def self_def Let_def r' t')
qed

lemma stand_in_read_object_df:
  "S3Provider_read_object_df stand_in_s3_lib (PStr ''lake'') (PStr ''t.csv'')
     (s3_connected, lake_with_two_rows) = (Inr two_rows_frame, (s3_connected, lake_with_two_rows))"
  by (simp add: S3Provider_read_object_df_def self_def attr_def s3_connected_def bind_def ext_def
      stand_in_s3_lib_def s3_served_def lake_with_two_rows_def lift_def is_parquet_key_def
      endswith_def lower_def stand_in_parse_def return_def)

lemma stand_in_write_back:
  "bind (S3Provider_serialise stand_in_s3_lib (PStr ''t.csv'') df) (\<lambda>body.
     seq (self (\<lambda>ob'. attr (s3_client ob') (\<lambda>c.
            ext (put_object stand_in_s3_lib c (PStr ''lake'') (PStr ''t.csv'') body))))
         (return n)) (s3_connected, lake_with_two_rows)
     = (Inr n, (s3_connected, [((PStr ''lake'', PStr ''t.csv''), Inr df)]))"
  by (simp add: S3Provider_serialise_def bind_def lift_def is_parquet_key_def endswith_def lower_def
      stand_in_s3_lib_def return_def seq_def self_def attr_def s3_connected_def ext_def s3_served_def
      lake_with_two_rows_def)

lemma s3_connected_bucket: "s3_bucket s3_connected = PStr ''lake''"
  by (simp add: s3_bucket_def s3_connected_def S3Provider_init_def s3_credentials_def dict_get_def)

lemma s3_connected_key: "name \<noteq> [] \<Longrightarrow> s3_key ob name = PStr name"
  by (simp add: s3_key_def py_or_def)

text \<open>
  Claim C8, where the S3 provider breaks it. The object \<^verbatim>\<open>t.csv\<close> holds two rows and the
  predicate \<^verbatim>\<open>a ==\<close> is malformed: the query evaluator raises, and \<^verbatim>\<open>delete_rows\<close>
  returns 0 with the object left as it was.
\<close>

theorem S3Provider_delete_rows_swallows_malformed_predicate:
  "df_query stand_in_s3_lib two_rows_frame ''a =='' = Inl (LibraryError ''SyntaxError'')
   \<and> delete_rows (S3Provider stand_in_s3_lib) ''t.csv'' (Some ''a =='')
        (s3_connected, lake_with_two_rows)
       = (Inr 0, (s3_connected, lake_with_two_rows))"
proof -
  have q: "df_query stand_in_s3_lib two_rows_frame ''a =='' = Inl (LibraryError ''SyntaxError'')"
    by (simp add: stand_in_s3_lib_def stand_in_query_def)
  have ky: "s3_key s3_connected ''t.csv'' = PStr ''t.csv''"
    by (simp add: s3_connected_key)
  have "S3Provider_delete_rows stand_in_s3_lib ''t.csv'' (Some ''a =='') (s3_connected, lake_with_two_rows)
      = bind (S3Provider_serialise stand_in_s3_lib (s3_key s3_connected ''t.csv'') two_rows_frame) (\<lambda>body.
       seq (self (\<lambda>ob'. attr (s3_client ob') (\<lambda>c.
              ext (put_object stand_in_s3_lib c (s3_bucket s3_connected) (s3_key s3_connected ''t.csv'') body))))
           (return 0)) (s3_connected, lake_with_two_rows)"
  proof (rule S3Provider_delete_rows_swallows[where y = "LibraryError ''SyntaxError''"])
    show "truthy (s3_bucket s3_connected)" by (simp add: s3_connected_bucket)
    show "truthy (s3_key s3_connected ''t.csv'')" by (simp add: ky)
    show "S3Provider_read_object_df stand_in_s3_lib (s3_bucket s3_connected) (s3_key s3_connected ''t.csv'')
        (s3_connected, lake_with_two_rows) = (Inr two_rows_frame, (s3_connected, lake_with_two_rows))"
      unfolding s3_connected_bucket ky by (rule stand_in_read_object_df)
    show "\<not> df_empty two_rows_frame"
      by (simp add: df_empty_def two_rows_frame_def)
    show "has_predicate (Some ''a =='')"
      by (simp add: has_predicate_def is_space_def)
    show "df_query stand_in_s3_lib two_rows_frame (the (Some ''a =='')) = Inl (LibraryError ''SyntaxError'')"
      by (simp add: q)
  qed
  also have "\<dots> = (Inr 0, (s3_connected, [((PStr ''lake'', PStr ''t.csv''), Inr two_rows_frame)]))"
    unfolding s3_connected_bucket ky by (rule stand_in_write_back)
  finally have r: "delete_rows (S3Provider stand_in_s3_lib) ''t.csv'' (Some ''a =='')
        (s3_connected, lake_with_two_rows) = (Inr 0, (s3_connected, lake_with_two_rows))"
    by (simp add: S3Provider_def lake_with_two_rows_def)
  show ?thesis
    by (intro conjI q r)
qed

text \<open>
  Claim C8, amended. For the SQLite, Redshift, BigQuery and Snowflake providers every
  fault of \<^verbatim>\<open>delete_rows\<close> reaches the caller unchanged, with the provider object
  untouched: a connection that was never opened raises AttributeError, an exception
  raised by the execution of the DELETE statement, as for a malformed predicate that the
  backend rejects, is raised as it is, and a value is returned only when the statement
  was executed (the row count, or 0 when there is none). For the S3 provider an exception
  raised while the object is read, serialised or written back is raised unchanged too,
  for CSV and parquet keys alike, but an exception raised by the evaluation of the
  predicate is swallowed: the call then does what writing back the frame it has read
  does, and returns 0. Without a bucket or a key, and on an empty object, it returns 0
  and writes nothing.
\<close>

theorem delete_rows_faults:
  "(sqlite_engine ob1 = None
      \<longrightarrow> delete_rows (SQLiteProvider L1) table_name where_clause (ob1, w1)
            = (Inl AttributeError, (ob1, w1)))
   \<and> (sqlite_engine ob1 = Some e1
      \<and> engine_begin_execute L1 e1 (delete_statement table_name where_clause) w1 = (Inl x, w1')
      \<longrightarrow> delete_rows (SQLiteProvider L1) table_name where_clause (ob1, w1) = (Inl x, (ob1, w1')))
   \<and> (sqlite_engine ob1 = Some e1
      \<and> engine_begin_execute L1 e1 (delete_statement table_name where_clause) w1 = (Inr rc, w1')
      \<longrightarrow> delete_rows (SQLiteProvider L1) table_name where_clause (ob1, w1)
            = (Inr (rowcount_or_zero rc), (ob1, w1')))
   \<and> (rs_engine ob3 = None
      \<longrightarrow> delete_rows (RedshiftProvider L3) table_name where_clause (ob3, w3)
            = (Inl AttributeError, (ob3, w3)))
   \<and> (rs_engine ob3 = Some e3
      \<and> engine_begin_execute L3 e3 (delete_statement (rs_table_ref ob3 table_name) where_clause) w3
          = (Inl x, w3')
      \<longrightarrow> delete_rows (RedshiftProvider L3) table_name where_clause (ob3, w3) = (Inl x, (ob3, w3')))
   \<and> (rs_engine ob3 = Some e3
      \<and> engine_begin_execute L3 e3 (delete_statement (rs_table_ref ob3 table_name) where_clause) w3
          = (Inr rc, w3')
      \<longrightarrow> delete_rows (RedshiftProvider L3) table_name where_clause (ob3, w3)
            = (Inr (rowcount_or_zero rc), (ob3, w3')))
   \<and> (bq_client ob4 = None
      \<longrightarrow> delete_rows (BigQueryProvider L4) table_name where_clause (ob4, w4)
            = (Inl AttributeError, (ob4, w4)))
   \<and> (bq_client ob4 = Some c4
      \<and> fst (BigQueryProvider_full_table_ref L4 table_name (ob4, w4)) = Inr full
      \<and> bq_query L4 c4 (bq_delete_statement full where_clause) w4 = (Inl x, w4')
      \<longrightarrow> delete_rows (BigQueryProvider L4) table_name where_clause (ob4, w4) = (Inl x, (ob4, w4')))
   \<and> (bq_client ob4 = Some c4
      \<and> fst (BigQueryProvider_full_table_ref L4 table_name (ob4, w4)) = Inr full
      \<and> bq_query L4 c4 (bq_delete_statement full where_clause) w4 = (Inr res, w4')
      \<longrightarrow> delete_rows (BigQueryProvider L4) table_name where_clause (ob4, w4)
            = (Inr (affected_or_zero (snd res)), (ob4, w4')))
   \<and> (sf_conn ob5 = None
      \<longrightarrow> delete_rows (SnowflakeProvider L5) table_name where_clause (ob5, w5)
            = (Inl AttributeError, (ob5, w5)))
   \<and> (sf_conn ob5 = Some c5
      \<and> sf_execute L5 c5 (delete_statement (dquote @ table_name @ dquote) where_clause) w5 = (Inl x, w5')
      \<longrightarrow> delete_rows (SnowflakeProvider L5) table_name where_clause (ob5, w5) = (Inl x, (ob5, w5')))
   \<and> (sf_conn ob5 = Some c5
      \<and> sf_execute L5 c5 (delete_statement (dquote @ table_name @ dquote) where_clause) w5 = (Inr rc, w5')
      \<longrightarrow> delete_rows (SnowflakeProvider L5) table_name where_clause (ob5, w5)
            = (Inr (case rc of None \<Rightarrow> 0 | Some n \<Rightarrow> n), (ob5, w5')))
   \<and> (\<not> truthy (s3_bucket ob2) \<or> \<not> truthy (s3_key ob2 table_name)
      \<longrightarrow> delete_rows (S3Provider L2) table_name where_clause (ob2, w2) = (Inr 0, (ob2, w2)))
   \<and> (truthy (s3_bucket ob2) \<and> truthy (s3_key ob2 table_name)
      \<and> S3Provider_read_object_df L2 (s3_bucket ob2) (s3_key ob2 table_name) (ob2, w2) = (Inl x, \<sigma>2)
      \<longrightarrow> delete_rows (S3Provider L2) table_name where_clause (ob2, w2) = (Inl x, \<sigma>2))
   \<and> (truthy (s3_bucket ob2) \<and> truthy (s3_key ob2 table_name)
      \<and> S3Provider_read_object_df L2 (s3_bucket ob2) (s3_key ob2 table_name) (ob2, w2)
          = (Inr stored, (ob2, w2a))
      \<and> df_empty stored
      \<longrightarrow> delete_rows (S3Provider L2) table_name where_clause (ob2, w2) = (Inr 0, (ob2, w2a)))
   \<and> (truthy (s3_bucket ob2) \<and> truthy (s3_key ob2 table_name)
      \<and> S3Provider_read_object_df L2 (s3_bucket ob2) (s3_key ob2 table_name) (ob2, w2)
          = (Inr stored, (ob2, w2a))
      \<and> \<not> df_empty stored
      \<and> has_predicate where_clause \<and> df_query L2 stored (the where_clause) = Inl y
      \<longrightarrow> delete_rows (S3Provider L2) table_name where_clause (ob2, w2)
            = bind (S3Provider_serialise L2 (s3_key ob2 table_name) stored) (\<lambda>body.
              seq (self (\<lambda>ob'. attr (s3_client ob') (\<lambda>c.
                     ext (put_object L2 c (s3_bucket ob2) (s3_key ob2 table_name) body))))
                  (return 0)) (ob2, w2a))
   \<and> (truthy (s3_bucket ob2) \<and> truthy (s3_key ob2 table_name)
      \<and> S3Provider_read_object_df L2 (s3_bucket ob2) (s3_key ob2 table_name) (ob2, w2)
          = (Inr stored, (ob2, w2a))
      \<and> \<not> df_empty stored
      \<and> has_predicate where_clause \<and> df_query L2 stored (the where_clause) = Inr selected
      \<longrightarrow> delete_rows (S3Provider L2) table_name where_clause (ob2, w2)
            = bind (S3Provider_serialise L2 (s3_key ob2 table_name) (drop_positions stored selected))
                (\<lambda>body.
              seq (self (\<lambda>ob'. attr (s3_client ob') (\<lambda>c.
                     ext (put_object L2 c (s3_bucket ob2) (s3_key ob2 table_name) body))))
                  (return (int (len stored) - int (len (drop_positions stored selected)))))
                (ob2, w2a))
   \<and> (truthy (s3_bucket ob2) \<and> truthy (s3_key ob2 table_name)
      \<and> S3Provider_read_object_df L2 (s3_bucket ob2) (s3_key ob2 table_name) (ob2, w2)
          = (Inr stored, (ob2, w2a))
      \<and> \<not> df_empty stored
      \<and> \<not> has_predicate where_clause
      \<longrightarrow> delete_rows (S3Provider L2) table_name where_clause (ob2, w2)
            = bind (S3Provider_serialise L2 (s3_key ob2 table_name) (stored\<lparr>rows := []\<rparr>)) (\<lambda>body.
              seq (self (\<lambda>ob'. attr (s3_client ob') (\<lambda>c.
                     ext (put_object L2 c (s3_bucket ob2) (s3_key ob2 table_name) body))))
                  (return (int (len stored) - int (len (stored\<lparr>rows := []\<rparr>))))) (ob2, w2a))"
proof -
  note sqlite = SQLiteProvider_def SQLiteProvider_delete_rows_def Let_def self_def attr_def
    bind_def ext_def raise_def return_def
  note redshift = RedshiftProvider_def RedshiftProvider_delete_rows_def Let_def self_def attr_def
    bind_def ext_def raise_def return_def
  note snowflake = SnowflakeProvider_def SnowflakeProvider_delete_rows_def Let_def self_def attr_def
    bind_def ext_def raise_def return_def try_except_def
  have s1: "sqlite_engine ob1 = None
      \<longrightarrow> delete_rows (SQLiteProvider L1) table_name where_clause (ob1, w1)
            = (Inl AttributeError, (ob1, w1))"
    by (simp add: sqlite)
  have s2: "sqlite_engine ob1 = Some e1
      \<and> engine_begin_execute L1 e1 (delete_statement table_name where_clause) w1 = (Inl x, w1')
      \<longrightarrow> delete_rows (SQLiteProvider L1) table_name where_clause (ob1, w1) = (Inl x, (ob1, w1'))"
    by (simp add: sqlite)
  have s3: "sqlite_engine ob1 = Some e1
      \<and> engine_begin_execute L1 e1 (delete_statement table_name where_clause) w1 = (Inr rc, w1')
      \<longrightarrow> delete_rows (SQLiteProvider L1) table_name where_clause (ob1, w1)
            = (Inr (rowcount_or_zero rc), (ob1, w1'))"
    by (simp add: sqlite)
  have r1: "rs_engine ob3 = None
      \<longrightarrow> delete_rows (RedshiftProvider L3) table_name where_clause (ob3, w3)
            = (Inl AttributeError, (ob3, w3))"
    by (simp add: redshift)
  have r2: "rs_engine ob3 = Some e3
      \<and> engine_begin_execute L3 e3 (delete_statement (rs_table_ref ob3 table_name) where_clause) w3
          = (Inl x, w3')
      \<longrightarrow> delete_rows (RedshiftProvider L3) table_name where_clause (ob3, w3) = (Inl x, (ob3, w3'))"
    by (simp add: redshift)
  have r3: "rs_engine ob3 = Some e3
      \<and> engine_begin_execute L3 e3 (delete_statement (rs_table_ref ob3 table_name) where_clause) w3
          = (Inr rc, w3')
      \<longrightarrow> delete_rows (RedshiftProvider L3) table_name where_clause (ob3, w3)
            = (Inr (rowcount_or_zero rc), (ob3, w3'))"
    by (simp add: redshift)
  have b1: "bq_client ob4 = None
      \<longrightarrow> delete_rows (BigQueryProvider L4) table_name where_clause (ob4, w4)
            = (Inl AttributeError, (ob4, w4))"
    by (simp add: BigQueryProvider_def BigQueryProvider_delete_rows_def
        BigQueryProvider_full_table_ref_def bind_def self_def attr_def raise_def Let_def)
  have b2: "bq_client ob4 = Some c4
      \<and> fst (BigQueryProvider_full_table_ref L4 table_name (ob4, w4)) = Inr full
      \<and> bq_query L4 c4 (bq_delete_statement full where_clause) w4 = (Inl x, w4')
      \<longrightarrow> delete_rows (BigQueryProvider L4) table_name where_clause (ob4, w4) = (Inl x, (ob4, w4'))"
  proof
    assume h: "bq_client ob4 = Some c4
      \<and> fst (BigQueryProvider_full_table_ref L4 table_name (ob4, w4)) = Inr full
      \<and> bq_query L4 c4 (bq_delete_statement full where_clause) w4 = (Inl x, w4')"
    then have f: "BigQueryProvider_full_table_ref L4 table_name (ob4, w4) = (Inr full, (ob4, w4))"
      by (intro BigQueryProvider_full_table_ref_run) simp
    from h have cl: "bq_client ob4 = Some c4"
      and q: "bq_query L4 c4 (bq_delete_statement full where_clause) w4 = (Inl x, w4')"
      by simp_all
    have "BigQueryProvider_delete_rows L4 table_name where_clause (ob4, w4) = (Inl x, (ob4, w4'))"
      using q unfolding bq_delete_statement_def
      by (simp add: BigQueryProvider_delete_rows_def bind_def f Let_def self_def attr_def cl ext_def)
    then show "delete_rows (BigQueryProvider L4) table_name where_clause (ob4, w4) = (Inl x, (ob4, w4'))"
      by (simp add: BigQueryProvider_def)
  qed
  have b3: "bq_client ob4 = Some c4
      \<and> fst (BigQueryProvider_full_table_ref L4 table_name (ob4, w4)) = Inr full
      \<and> bq_query L4 c4 (bq_delete_statement full where_clause) w4 = (Inr res, w4')
      \<longrightarrow> delete_rows (BigQueryProvider L4) table_name where_clause (ob4, w4)
            = (Inr (affected_or_zero (snd res)), (ob4, w4'))"
  proof
    assume h: "bq_client ob4 = Some c4
      \<and> fst (BigQueryProvider_full_table_ref L4 table_name (ob4, w4)) = Inr full
      \<and> bq_query L4 c4 (bq_delete_statement full where_clause) w4 = (Inr res, w4')"
    then have f: "BigQueryProvider_full_table_ref L4 table_name (ob4, w4) = (Inr full, (ob4, w4))"
      by (intro BigQueryProvider_full_table_ref_run) simp
    from h have cl: "bq_client ob4 = Some c4"
      and q: "bq_query L4 c4 (bq_delete_statement full where_clause) w4 = (Inr res, w4')"
      by simp_all
    have "BigQueryProvider_delete_rows L4 table_name where_clause (ob4, w4)
        = (Inr (affected_or_zero (snd res)), (ob4, w4'))"
      using q unfolding bq_delete_statement_def
      by (simp add: BigQueryProvider_delete_rows_def bind_def f Let_def self_def attr_def cl ext_def
          return_def)
    then show "delete_rows (BigQueryProvider L4) table_name where_clause (ob4, w4)
            = (Inr (affected_or_zero (snd res)), (ob4, w4'))"
      by (simp add: BigQueryProvider_def)
  qed
  have f1: "sf_conn ob5 = None
      \<longrightarrow> delete_rows (SnowflakeProvider L5) table_name where_clause (ob5, w5)
            = (Inl AttributeError, (ob5, w5))"
    by (simp add: snowflake)
  have f2: "sf_conn ob5 = Some c5
      \<and> sf_execute L5 c5 (delete_statement (dquote @ table_name @ dquote) where_clause) w5 = (Inl x, w5')
      \<longrightarrow> delete_rows (SnowflakeProvider L5) table_name where_clause (ob5, w5) = (Inl x, (ob5, w5'))"
    by (simp add: snowflake)
  have f3: "sf_conn ob5 = Some c5
      \<and> sf_execute L5 c5 (delete_statement (dquote @ table_name @ dquote) where_clause) w5 = (Inr rc, w5')
      \<longrightarrow> delete_rows (SnowflakeProvider L5) table_name where_clause (ob5, w5)
            = (Inr (case rc of None \<Rightarrow> 0 | Some n \<Rightarrow> n), (ob5, w5'))"
    by (cases rc) (simp_all add: snowflake)
  have g0: "\<not> truthy (s3_bucket ob2) \<or> \<not> truthy (s3_key ob2 table_name)
      \<longrightarrow> delete_rows (S3Provider L2) table_name where_clause (ob2, w2) = (Inr 0, (ob2, w2))"
  proof
    assume "\<not> truthy (s3_bucket ob2) \<or> \<not> truthy (s3_key ob2 table_name)"
    then have "S3Provider_delete_rows L2 table_name where_clause (ob2, w2) = (Inr 0, (ob2, w2))"
      by (rule S3Provider_delete_rows_unconfigured)
    then show "delete_rows (S3Provider L2) table_name where_clause (ob2, w2) = (Inr 0, (ob2, w2))"
      by (simp add: S3Provider_def)
  qed
  have dr: "delete_rows (S3Provider L2) = S3Provider_delete_rows L2"
    by (simp add: S3Provider_def)
  have g1: "truthy (s3_bucket ob2) \<and> truthy (s3_key ob2 table_name)
      \<and> S3Provider_read_object_df L2 (s3_bucket ob2) (s3_key ob2 table_name) (ob2, w2) = (Inl x, \<sigma>2)
      \<longrightarrow> delete_rows (S3Provider L2) table_name where_clause (ob2, w2) = (Inl x, \<sigma>2)"
    unfolding dr by (intro impI S3Provider_delete_rows_read_fault) simp_all
  have g2: "truthy (s3_bucket ob2) \<and> truthy (s3_key ob2 table_name)
      \<and> S3Provider_read_object_df L2 (s3_bucket ob2) (s3_key ob2 table_name) (ob2, w2)
          = (Inr stored, (ob2, w2a))
      \<and> df_empty stored
      \<longrightarrow> delete_rows (S3Provider L2) table_name where_clause (ob2, w2) = (Inr 0, (ob2, w2a))"
    unfolding dr by (intro impI S3Provider_delete_rows_empty[where stored = stored]) simp_all
  have g3: "truthy (s3_bucket ob2) \<and> truthy (s3_key ob2 table_name)
      \<and> S3Provider_read_object_df L2 (s3_bucket ob2) (s3_key ob2 table_name) (ob2, w2)
          = (Inr stored, (ob2, w2a))
      \<and> \<not> df_empty stored
      \<and> has_predicate where_clause \<and> df_query L2 stored (the where_clause) = Inl y
      \<longrightarrow> delete_rows (S3Provider L2) table_name where_clause (ob2, w2)
            = bind (S3Provider_serialise L2 (s3_key ob2 table_name) stored) (\<lambda>body.
              seq (self (\<lambda>ob'. attr (s3_client ob') (\<lambda>c.
                     ext (put_object L2 c (s3_bucket ob2) (s3_key ob2 table_name) body))))
                  (return 0)) (ob2, w2a)"
    unfolding dr by (intro impI S3Provider_delete_rows_swallows[where y = y]) simp_all
  have g4: "truthy (s3_bucket ob2) \<and> truthy (s3_key ob2 table_name)
      \<and> S3Provider_read_object_df L2 (s3_bucket ob2) (s3_key ob2 table_name) (ob2, w2)
          = (Inr stored, (ob2, w2a))
      \<and> \<not> df_empty stored
      \<and> has_predicate where_clause \<and> df_query L2 stored (the where_clause) = Inr selected
      \<longrightarrow> delete_rows (S3Provider L2) table_name where_clause (ob2, w2)
            = bind (S3Provider_serialise L2 (s3_key ob2 table_name) (drop_positions stored selected))
                (\<lambda>body.
              seq (self (\<lambda>ob'. attr (s3_client ob') (\<lambda>c.
                     ext (put_object L2 c (s3_bucket ob2) (s3_key ob2 table_name) body))))
                  (return (int (len stored) - int (len (drop_positions stored selected)))))
                (ob2, w2a)"
    unfolding dr by (intro impI S3Provider_delete_rows_selected) simp_all
  have g5: "truthy (s3_bucket ob2) \<and> truthy (s3_key ob2 table_name)
      \<and> S3Provider_read_object_df L2 (s3_bucket ob2) (s3_key ob2 table_name) (ob2, w2)
          = (Inr stored, (ob2, w2a))
      \<and> \<not> df_empty stored
      \<and> \<not> has_predicate where_clause
      \<longrightarrow> delete_rows (S3Provider L2) table_name where_clause (ob2, w2)
            = bind (S3Provider_serialise L2 (s3_key ob2 table_name) (stored\<lparr>rows := []\<rparr>)) (\<lambda>body.
              seq (self (\<lambda>ob'. attr (s3_client ob') (\<lambda>c.
                     ext (put_object L2 c (s3_bucket ob2) (s3_key ob2 table_name) body))))
                  (return (int (len stored) - int (len (stored\<lparr>rows := []\<rparr>))))) (ob2, w2a)"
    unfolding dr by (intro impI S3Provider_delete_rows_all) simp_all
  show ?thesis
    by (intro conjI s1 s2 s3 r1 r2 r3 b1 b2 b3 f1 f2 f3 g0 g1 g2 g3 g4 g5)
qed

theorem delete_rows_faults_witness:
  "delete_rows (SQLiteProvider stand_in_sql_lib) ''t'' (Some ''a =='') (SQLiteProvider_init sqlite_credentials, stored_t)
     = (Inl AttributeError, (SQLiteProvider_init sqlite_credentials, stored_t))
   \<and> delete_rows (SQLiteProvider stand_in_sql_lib) ''t'' (Some ''a =='') (sqlite_connected, stored_t)
     = (Inl (LibraryError ''syntax error''), (sqlite_connected, stored_t))
   \<and> delete_rows (SQLiteProvider stand_in_sql_lib) ''t'' None (sqlite_connected, stored_t)
     = (Inr 2, (sqlite_connected, [(''t'', no_rows_frame)]))
   \<and> delete_rows (RedshiftProvider stand_in_sql_lib) ''t'' (Some ''a =='') (RedshiftProvider_init redshift_credentials, stored_public_t)
     = (Inl AttributeError, (RedshiftProvider_init redshift_credentials, stored_public_t))
   \<and> delete_rows (RedshiftProvider stand_in_sql_lib) ''t'' (Some ''a =='') (redshift_connected, stored_public_t)
     = (Inl (LibraryError ''syntax error''), (redshift_connected, stored_public_t))
   \<and> delete_rows (RedshiftProvider stand_in_sql_lib) ''t'' None (redshift_connected, stored_public_t)
     = (Inr 2, (redshift_connected, [(dquote @ ''public'' @ dquote @ ''.'' @ dquote @ ''t'' @ dquote, no_rows_frame)]))
   \<and> delete_rows (BigQueryProvider stand_in_bigquery_lib) ''orders'' (Some ''a =='')
        (BigQueryProvider_init bigquery_credentials, stored_orders)
     = (Inl AttributeError, (BigQueryProvider_init bigquery_credentials, stored_orders))
   \<and> delete_rows (BigQueryProvider stand_in_bigquery_lib) ''orders'' (Some ''a =='') (bigquery_connected, stored_orders)
     = (Inl (LibraryError ''BadRequest''), (bigquery_connected, stored_orders))
   \<and> delete_rows (BigQueryProvider stand_in_bigquery_lib) ''orders'' None (bigquery_connected, stored_orders)
     = (Inr 2, (bigquery_connected, [(''demo.sales.orders'', no_rows_frame)]))
   \<and> delete_rows (SnowflakeProvider stand_in_snowflake_lib) ''t'' (Some ''a =='')
        (SnowflakeProvider_init snowflake_credentials, stored_quoted_t)
     = (Inl AttributeError, (SnowflakeProvider_init snowflake_credentials, stored_quoted_t))
   \<and> delete_rows (SnowflakeProvider stand_in_snowflake_lib) ''t'' (Some ''a =='') (snowflake_connected, stored_quoted_t)
     = (Inl (LibraryError ''syntax error''), (snowflake_connected, stored_quoted_t))
   \<and> delete_rows (SnowflakeProvider stand_in_snowflake_lib) ''t'' None (snowflake_connected, stored_quoted_t)
     = (Inr 2, (snowflake_connected, [(dquote @ ''t'' @ dquote, no_rows_frame)]))
   \<and> delete_rows (S3Provider stand_in_s3_lib) ''t.csv'' (Some ''a =='') (S3Provider_init Map.empty, lake_with_two_rows)
     = (Inr 0, (S3Provider_init Map.empty, lake_with_two_rows))
   \<and> delete_rows (S3Provider stand_in_s3_lib) ''missing.csv'' (Some ''a =='') (s3_connected, lake_with_two_rows)
     = (Inl (ClientError ''NoSuchKey''), (s3_connected, lake_with_two_rows))
   \<and> delete_rows (S3Provider stand_in_s3_lib) ''t.csv'' (Some ''a =='') (s3_connected, lake_with_header)
     = (Inr 0, (s3_connected, lake_with_header))
   \<and> delete_rows (S3Provider stand_in_s3_lib) ''t.parquet'' (Some ''a =='') (s3_connected, lake_with_parquet)
     = (Inr 0, (s3_connected, lake_with_parquet))
   \<and> delete_rows (S3Provider stand_in_s3_lib) ''t.csv'' (Some ''index >= 0'') (s3_connected, lake_with_two_rows)
     = (Inr 2, (s3_connected, [((PStr ''lake'', PStr ''t.csv''), Inr no_rows_frame)]))
   \<and> delete_rows (S3Provider stand_in_s3_lib) ''t.csv'' None (s3_connected, lake_with_two_rows)
     = (Inr 2, (s3_connected, [((PStr ''lake'', PStr ''t.csv''), Inr no_rows_frame)]))"
proof -
  have a1: "sqlite_engine (SQLiteProvider_init sqlite_credentials) = None"
    by (simp add: SQLiteProvider_init_def)
  have c1: "delete_rows (SQLiteProvider stand_in_sql_lib) ''t'' (Some ''a =='') (SQLiteProvider_init sqlite_credentials, stored_t)
     = (Inl AttributeError, (SQLiteProvider_init sqlite_credentials, stored_t))"
    by (rule delete_rows_faults[THEN conjunct1, THEN mp, OF a1])
  have a2: "sqlite_engine sqlite_connected = Some 2
      \<and> engine_begin_execute stand_in_sql_lib 2 (delete_statement ''t'' (Some ''a =='')) stored_t
          = (Inl (LibraryError ''syntax error''), stored_t)"
    by (simp add: sqlite_connected_def stand_in_sql_lib_def stored_t_def delete_statement_def has_predicate_def is_space_def stand_in_execute_def starts_with_def after_prefix_def raise_def return_def len_def two_rows_frame_def no_rows_frame_def dquote_def)
  have c2: "delete_rows (SQLiteProvider stand_in_sql_lib) ''t'' (Some ''a =='') (sqlite_connected, stored_t)
     = (Inl (LibraryError ''syntax error''), (sqlite_connected, stored_t))"
    by (rule delete_rows_faults[THEN conjunct2, THEN conjunct1, THEN mp, OF a2])
  have a3: "sqlite_engine sqlite_connected = Some 2
      \<and> engine_begin_execute stand_in_sql_lib 2 (delete_statement ''t'' None) stored_t
          = (Inr (Some 2), [(''t'', no_rows_frame)])"
    by (simp add: sqlite_connected_def stand_in_sql_lib_def stored_t_def delete_statement_def has_predicate_def is_space_def stand_in_execute_def starts_with_def after_prefix_def raise_def return_def len_def two_rows_frame_def no_rows_frame_def dquote_def)
  have k3: "delete_rows (SQLiteProvider stand_in_sql_lib) ''t'' None (sqlite_connected, stored_t)
     = (Inr (rowcount_or_zero (Some 2)), (sqlite_connected, [(''t'', no_rows_frame)]))"
    by (rule delete_rows_faults[THEN conjunct2, THEN conjunct2, THEN conjunct1, THEN mp, OF a3])
  have c3: "delete_rows (SQLiteProvider stand_in_sql_lib) ''t'' None (sqlite_connected, stored_t)
     = (Inr 2, (sqlite_connected, [(''t'', no_rows_frame)]))"
    using k3 by (simp add: rowcount_or_zero_def affected_or_zero_def)
  have a4: "rs_engine (RedshiftProvider_init redshift_credentials) = None"
    by (simp add: RedshiftProvider_init_def)
  have c4: "delete_rows (RedshiftProvider stand_in_sql_lib) ''t'' (Some ''a =='') (RedshiftProvider_init redshift_credentials, stored_public_t)
     = (Inl AttributeError, (RedshiftProvider_init redshift_credentials, stored_public_t))"
    by (rule delete_rows_faults[THEN conjunct2, THEN conjunct2, THEN conjunct2, THEN conjunct1, THEN mp, OF a4])
  have a5: "rs_engine redshift_connected = Some 2
      \<and> engine_begin_execute stand_in_sql_lib 2
          (delete_statement (rs_table_ref redshift_connected ''t'') (Some ''a =='')) stored_public_t
          = (Inl (LibraryError ''syntax error''), stored_public_t)"
    by (simp add: redshift_connected_def stand_in_sql_lib_def stored_public_t_def rs_table_ref_def rs_schema_def dict_get_default_def redshift_credentials_def RedshiftProvider_init_def delete_statement_def has_predicate_def is_space_def stand_in_execute_def starts_with_def after_prefix_def raise_def return_def len_def two_rows_frame_def no_rows_frame_def dquote_def)
  have c5: "delete_rows (RedshiftProvider stand_in_sql_lib) ''t'' (Some ''a =='') (redshift_connected, stored_public_t)
     = (Inl (LibraryError ''syntax error''), (redshift_connected, stored_public_t))"
    by (rule delete_rows_faults[THEN conjunct2, THEN conjunct2, THEN conjunct2, THEN conjunct2, THEN conjunct1, THEN mp, OF a5])
  have a6: "rs_engine redshift_connected = Some 2
      \<and> engine_begin_execute stand_in_sql_lib 2
          (delete_statement (rs_table_ref redshift_connected ''t'') None) stored_public_t
          = (Inr (Some 2), [(dquote @ ''public'' @ dquote @ ''.'' @ dquote @ ''t'' @ dquote, no_rows_frame)])"
    by (simp add: redshift_connected_def stand_in_sql_lib_def stored_public_t_def rs_table_ref_def rs_schema_def dict_get_default_def redshift_credentials_def RedshiftProvider_init_def delete_statement_def has_predicate_def is_space_def stand_in_execute_def starts_with_def after_prefix_def raise_def return_def len_def two_rows_frame_def no_rows_frame_def dquote_def)
  have k6: "delete_rows (RedshiftProvider stand_in_sql_lib) ''t'' None (redshift_connected, stored_public_t)
     = (Inr (rowcount_or_zero (Some 2)),
        (redshift_connected, [(dquote @ ''public'' @ dquote @ ''.'' @ dquote @ ''t'' @ dquote, no_rows_frame)]))"
    by (rule delete_rows_faults[THEN conjunct2, THEN conjunct2, THEN conjunct2, THEN conjunct2, THEN conjunct2, THEN conjunct1, THEN mp, OF a6])
  have c6: "delete_rows (RedshiftProvider stand_in_sql_lib) ''t'' None (redshift_connected, stored_public_t)
     = (Inr 2, (redshift_connected, [(dquote @ ''public'' @ dquote @ ''.'' @ dquote @ ''t'' @ dquote, no_rows_frame)]))"
    using k6 by (simp add: rowcount_or_zero_def affected_or_zero_def)
  have a7: "bq_client (BigQueryProvider_init bigquery_credentials) = None"
    by (simp add: BigQueryProvider_init_def)
  have c7: "delete_rows (BigQueryProvider stand_in_bigquery_lib) ''orders'' (Some ''a =='')
        (BigQueryProvider_init bigquery_credentials, stored_orders)
     = (Inl AttributeError, (BigQueryProvider_init bigquery_credentials, stored_orders))"
    by (rule delete_rows_faults[THEN conjunct2, THEN conjunct2, THEN conjunct2, THEN conjunct2, THEN conjunct2, THEN conjunct2, THEN conjunct1, THEN mp, OF a7])
  have a8: "bq_client bigquery_connected = Some 1
      \<and> fst (BigQueryProvider_full_table_ref stand_in_bigquery_lib ''orders'' (bigquery_connected, stored_orders))
          = Inr ''demo.sales.orders''
      \<and> bq_query stand_in_bigquery_lib 1 (bq_delete_statement ''demo.sales.orders'' (Some ''a =='')) stored_orders
          = (Inl (LibraryError ''BadRequest''), stored_orders)"
    proof (intro conjI)
    show "bq_client bigquery_connected = Some 1"
      by (simp add: bigquery_connected_def)
    show "fst (BigQueryProvider_full_table_ref stand_in_bigquery_lib ''orders'' (bigquery_connected, stored_orders))
          = Inr ''demo.sales.orders''"
      by (simp add: stand_in_full_table_ref)
    show "bq_query stand_in_bigquery_lib 1 (bq_delete_statement ''demo.sales.orders'' (Some ''a =='')) stored_orders
          = (Inl (LibraryError ''BadRequest''), stored_orders)"
      by (simp add: stand_in_bigquery_lib_def bq_delete_statement_def has_predicate_def is_space_def
          raise_def starts_with_def after_prefix_def endswith_def backtick_def stored_orders_def
          Let_def len_def two_rows_frame_def no_rows_frame_def empty_frame_def)
  qed
  have c8: "delete_rows (BigQueryProvider stand_in_bigquery_lib) ''orders'' (Some ''a =='') (bigquery_connected, stored_orders)
     = (Inl (LibraryError ''BadRequest''), (bigquery_connected, stored_orders))"
    by (rule delete_rows_faults[THEN conjunct2, THEN conjunct2, THEN conjunct2, THEN conjunct2, THEN conjunct2, THEN conjunct2, THEN conjunct2, THEN conjunct1, THEN mp, OF a8])
  have a9: "bq_client bigquery_connected = Some 1
      \<and> fst (BigQueryProvider_full_table_ref stand_in_bigquery_lib ''orders'' (bigquery_connected, stored_orders))
          = Inr ''demo.sales.orders''
      \<and> bq_query stand_in_bigquery_lib 1 (bq_delete_statement ''demo.sales.orders'' None) stored_orders
          = (Inr (empty_frame, Some 2), [(''demo.sales.orders'', no_rows_frame)])"
    proof (intro conjI)
    show "bq_client bigquery_connected = Some 1"
      by (simp add: bigquery_connected_def)
    show "fst (BigQueryProvider_full_table_ref stand_in_bigquery_lib ''orders'' (bigquery_connected, stored_orders))
          = Inr ''demo.sales.orders''"
      by (simp add: stand_in_full_table_ref)
    show "bq_query stand_in_bigquery_lib 1 (bq_delete_statement ''demo.sales.orders'' None) stored_orders
          = (Inr (empty_frame, Some 2), [(''demo.sales.orders'', no_rows_frame)])"
      by (simp add: stand_in_bigquery_lib_def bq_delete_statement_def has_predicate_def is_space_def
          raise_def starts_with_def after_prefix_def endswith_def backtick_def stored_orders_def
          Let_def len_def two_rows_frame_def no_rows_frame_def empty_frame_def)
  qed
  have k9: "delete_rows (BigQueryProvider stand_in_bigquery_lib) ''orders'' None (bigquery_connected, stored_orders)
     = (Inr (affected_or_zero (snd (empty_frame, Some 2))),
        (bigquery_connected, [(''demo.sales.orders'', no_rows_frame)]))"
    by (rule delete_rows_faults[THEN conjunct2, THEN conjunct2, THEN conjunct2, THEN conjunct2, THEN conjunct2, THEN conjunct2, THEN conjunct2, THEN conjunct2, THEN conjunct1, THEN mp, OF a9])
  have c9: "delete_rows (BigQueryProvider stand_in_bigquery_lib) ''orders'' None (bigquery_connected, stored_orders)
     = (Inr 2, (bigquery_connected, [(''demo.sales.orders'', no_rows_frame)]))"
    using k9 by (simp add: rowcount_or_zero_def affected_or_zero_def)
  have a10: "sf_conn (SnowflakeProvider_init snowflake_credentials) = None"
    by (simp add: SnowflakeProvider_init_def)
  have c10: "delete_rows (SnowflakeProvider stand_in_snowflake_lib) ''t'' (Some ''a =='')
        (SnowflakeProvider_init snowflake_credentials, stored_quoted_t)
     = (Inl AttributeError, (SnowflakeProvider_init snowflake_credentials, stored_quoted_t))"
    by (rule delete_rows_faults[THEN conjunct2, THEN conjunct2, THEN conjunct2, THEN conjunct2, THEN conjunct2, THEN conjunct2, THEN conjunct2, THEN conjunct2, THEN conjunct2, THEN conjunct1, THEN mp, OF a10])
  have a11: "sf_conn snowflake_connected = Some 1
      \<and> sf_execute stand_in_snowflake_lib 1
          (delete_statement (dquote @ ''t'' @ dquote) (Some ''a =='')) stored_quoted_t
          = (Inl (LibraryError ''syntax error''), stored_quoted_t)"
    by (simp add: snowflake_connected_def stand_in_snowflake_lib_def stored_quoted_t_def delete_statement_def has_predicate_def is_space_def stand_in_execute_def starts_with_def after_prefix_def raise_def return_def len_def two_rows_frame_def no_rows_frame_def dquote_def)
  have c11: "delete_rows (SnowflakeProvider stand_in_snowflake_lib) ''t'' (Some ''a =='') (snowflake_connected, stored_quoted_t)
     = (Inl (LibraryError ''syntax error''), (snowflake_connected, stored_quoted_t))"
    by (rule delete_rows_faults[THEN conjunct2, THEN conjunct2, THEN conjunct2, THEN conjunct2, THEN conjunct2, THEN conjunct2, THEN conjunct2, THEN conjunct2, THEN conjunct2, THEN conjunct2, THEN conjunct1, THEN mp, OF a11])
  have a12: "sf_conn snowflake_connected = Some 1
      \<and> sf_execute stand_in_snowflake_lib 1
          (delete_statement (dquote @ ''t'' @ dquote) None) stored_quoted_t
          = (Inr (Some 2), [(dquote @ ''t'' @ dquote, no_rows_frame)])"
    by (simp add: snowflake_connected_def stand_in_snowflake_lib_def stored_quoted_t_def delete_statement_def has_predicate_def is_space_def stand_in_execute_def starts_with_def after_prefix_def raise_def return_def len_def two_rows_frame_def no_rows_frame_def dquote_def)
  have k12: "delete_rows (SnowflakeProvider stand_in_snowflake_lib) ''t'' None (snowflake_connected, stored_quoted_t)
     = (Inr (case Some 2 of None \<Rightarrow> 0 | Some n \<Rightarrow> n),
        (snowflake_connected, [(dquote @ ''t'' @ dquote, no_rows_frame)]))"
    by (rule delete_rows_faults[THEN conjunct2, THEN conjunct2, THEN conjunct2, THEN conjunct2, THEN conjunct2, THEN conjunct2, THEN conjunct2, THEN conjunct2, THEN conjunct2, THEN conjunct2, THEN conjunct2, THEN conjunct1, THEN mp, OF a12])
  have c12: "delete_rows (SnowflakeProvider stand_in_snowflake_lib) ''t'' None (snowflake_connected, stored_quoted_t)
     = (Inr 2, (snowflake_connected, [(dquote @ ''t'' @ dquote, no_rows_frame)]))"
    using k12 by (simp add: rowcount_or_zero_def affected_or_zero_def)
  have a13: "\<not> truthy (s3_bucket (S3Provider_init Map.empty)) \<or> \<not> truthy (s3_key (S3Provider_init Map.empty) ''t.csv'')"
    by (simp add: s3_bucket_def S3Provider_init_def dict_get_def)
  have c13: "delete_rows (S3Provider stand_in_s3_lib) ''t.csv'' (Some ''a =='') (S3Provider_init Map.empty, lake_with_two_rows)
     = (Inr 0, (S3Provider_init Map.empty, lake_with_two_rows))"
    by (rule delete_rows_faults[THEN conjunct2, THEN conjunct2, THEN conjunct2, THEN conjunct2, THEN conjunct2, THEN conjunct2, THEN conjunct2, THEN conjunct2, THEN conjunct2, THEN conjunct2, THEN conjunct2, THEN conjunct2, THEN conjunct1, THEN mp, OF a13])
  have a14: "truthy (s3_bucket s3_connected) \<and> truthy (s3_key s3_connected ''missing.csv'')
      \<and> S3Provider_read_object_df stand_in_s3_lib (s3_bucket s3_connected) (s3_key s3_connected ''missing.csv'')
           (s3_connected, lake_with_two_rows) = (Inl (ClientError ''NoSuchKey''), (s3_connected, lake_with_two_rows))"
    by (simp add: S3Provider_read_object_df_def self_def attr_def s3_connected_def bind_def ext_def stand_in_s3_lib_def s3_served_def lift_def is_parquet_key_def endswith_def lower_def lower_char_def Let_def stand_in_parse_def return_def raise_def S3Provider_serialise_def seq_def s3_bucket_def s3_key_def py_or_def S3Provider_init_def s3_credentials_def dict_get_def stand_in_query_def has_predicate_def is_space_def df_empty_def two_rows_frame_def header_only_frame_def no_rows_frame_def drop_positions_def len_def lake_with_two_rows_def lake_with_parquet_def lake_with_header_def)
  have c14: "delete_rows (S3Provider stand_in_s3_lib) ''missing.csv'' (Some ''a =='') (s3_connected, lake_with_two_rows)
     = (Inl (ClientError ''NoSuchKey''), (s3_connected, lake_with_two_rows))"
    by (rule delete_rows_faults[THEN conjunct2, THEN conjunct2, THEN conjunct2, THEN conjunct2, THEN conjunct2, THEN conjunct2, THEN conjunct2, THEN conjunct2, THEN conjunct2, THEN conjunct2, THEN conjunct2, THEN conjunct2, THEN conjunct2, THEN conjunct1, THEN mp, OF a14])
  have a15: "truthy (s3_bucket s3_connected) \<and> truthy (s3_key s3_connected ''t.csv'')
      \<and> S3Provider_read_object_df stand_in_s3_lib (s3_bucket s3_connected) (s3_key s3_connected ''t.csv'')
           (s3_connected, lake_with_header) = (Inr header_only_frame, (s3_connected, lake_with_header))
      \<and> df_empty header_only_frame"
    by (simp add: S3Provider_read_object_df_def self_def attr_def s3_connected_def bind_def ext_def stand_in_s3_lib_def s3_served_def lift_def is_parquet_key_def endswith_def lower_def lower_char_def Let_def stand_in_parse_def return_def raise_def S3Provider_serialise_def seq_def s3_bucket_def s3_key_def py_or_def S3Provider_init_def s3_credentials_def dict_get_def stand_in_query_def has_predicate_def is_space_def df_empty_def two_rows_frame_def header_only_frame_def no_rows_frame_def drop_positions_def len_def lake_with_two_rows_def lake_with_parquet_def lake_with_header_def)
  have c15: "delete_rows (S3Provider stand_in_s3_lib) ''t.csv'' (Some ''a =='') (s3_connected, lake_with_header)
     = (Inr 0, (s3_connected, lake_with_header))"
    by (rule delete_rows_faults[THEN conjunct2, THEN conjunct2, THEN conjunct2, THEN conjunct2, THEN conjunct2, THEN conjunct2, THEN conjunct2, THEN conjunct2, THEN conjunct2, THEN conjunct2, THEN conjunct2, THEN conjunct2, THEN conjunct2, THEN conjunct2, THEN conjunct1, THEN mp, OF a15])
  have a16: "truthy (s3_bucket s3_connected) \<and> truthy (s3_key s3_connected ''t.parquet'')
      \<and> S3Provider_read_object_df stand_in_s3_lib (s3_bucket s3_connected) (s3_key s3_connected ''t.parquet'')
           (s3_connected, lake_with_parquet) = (Inr two_rows_frame, (s3_connected, lake_with_parquet))
      \<and> \<not> df_empty two_rows_frame
      \<and> has_predicate (Some ''a =='')
      \<and> df_query stand_in_s3_lib two_rows_frame (the (Some ''a =='')) = Inl (LibraryError ''SyntaxError'')"
    by (simp add: S3Provider_read_object_df_def self_def attr_def s3_connected_def bind_def ext_def stand_in_s3_lib_def s3_served_def lift_def is_parquet_key_def endswith_def lower_def lower_char_def Let_def stand_in_parse_def return_def raise_def S3Provider_serialise_def seq_def s3_bucket_def s3_key_def py_or_def S3Provider_init_def s3_credentials_def dict_get_def stand_in_query_def has_predicate_def is_space_def df_empty_def two_rows_frame_def header_only_frame_def no_rows_frame_def drop_positions_def len_def lake_with_two_rows_def lake_with_parquet_def lake_with_header_def)
  have e16: "delete_rows (S3Provider stand_in_s3_lib) ''t.parquet'' (Some ''a =='') (s3_connected, lake_with_parquet)
     = bind (S3Provider_serialise stand_in_s3_lib (s3_key s3_connected ''t.parquet'') two_rows_frame) (\<lambda>body.
          seq (self (\<lambda>ob'. attr (s3_client ob') (\<lambda>c.
                 ext (put_object stand_in_s3_lib c (s3_bucket s3_connected) (s3_key s3_connected ''t.parquet'') body))))
              (return 0)) (s3_connected, lake_with_parquet)"
    by (rule delete_rows_faults[THEN conjunct2, THEN conjunct2, THEN conjunct2, THEN conjunct2, THEN conjunct2, THEN conjunct2, THEN conjunct2, THEN conjunct2, THEN conjunct2, THEN conjunct2, THEN conjunct2, THEN conjunct2, THEN conjunct2, THEN conjunct2, THEN conjunct2, THEN conjunct1, THEN mp, OF a16])
  have c16: "delete_rows (S3Provider stand_in_s3_lib) ''t.parquet'' (Some ''a =='') (s3_connected, lake_with_parquet)
     = (Inr 0, (s3_connected, lake_with_parquet))"
    unfolding e16
    by (simp add: S3Provider_read_object_df_def self_def attr_def s3_connected_def bind_def ext_def stand_in_s3_lib_def s3_served_def lift_def is_parquet_key_def endswith_def lower_def lower_char_def Let_def stand_in_parse_def return_def raise_def S3Provider_serialise_def seq_def s3_bucket_def s3_key_def py_or_def S3Provider_init_def s3_credentials_def dict_get_def stand_in_query_def has_predicate_def is_space_def df_empty_def two_rows_frame_def header_only_frame_def no_rows_frame_def drop_positions_def len_def lake_with_two_rows_def lake_with_parquet_def lake_with_header_def S3Provider_def)
  have a17: "truthy (s3_bucket s3_connected) \<and> truthy (s3_key s3_connected ''t.csv'')
      \<and> S3Provider_read_object_df stand_in_s3_lib (s3_bucket s3_connected) (s3_key s3_connected ''t.csv'')
           (s3_connected, lake_with_two_rows) = (Inr two_rows_frame, (s3_connected, lake_with_two_rows))
      \<and> \<not> df_empty two_rows_frame
      \<and> has_predicate (Some ''index >= 0'')
      \<and> df_query stand_in_s3_lib two_rows_frame (the (Some ''index >= 0'')) = Inr [0, 1]"
    by (simp add: S3Provider_read_object_df_def self_def attr_def s3_connected_def bind_def ext_def stand_in_s3_lib_def s3_served_def lift_def is_parquet_key_def endswith_def lower_def lower_char_def Let_def stand_in_parse_def return_def raise_def S3Provider_serialise_def seq_def s3_bucket_def s3_key_def py_or_def S3Provider_init_def s3_credentials_def dict_get_def stand_in_query_def has_predicate_def is_space_def df_empty_def two_rows_frame_def header_only_frame_def no_rows_frame_def drop_positions_def len_def lake_with_two_rows_def lake_with_parquet_def lake_with_header_def)
  have e17: "delete_rows (S3Provider stand_in_s3_lib) ''t.csv'' (Some ''index >= 0'') (s3_connected, lake_with_two_rows)
     = bind (S3Provider_serialise stand_in_s3_lib (s3_key s3_connected ''t.csv'') (drop_positions two_rows_frame [0, 1])) (\<lambda>body.
          seq (self (\<lambda>ob'. attr (s3_client ob') (\<lambda>c.
                 ext (put_object stand_in_s3_lib c (s3_bucket s3_connected) (s3_key s3_connected ''t.csv'') body))))
              (return (int (len two_rows_frame) - int (len (drop_positions two_rows_frame [0, 1]))))) (s3_connected, lake_with_two_rows)"
    by (rule delete_rows_faults[THEN conjunct2, THEN conjunct2, THEN conjunct2, THEN conjunct2, THEN conjunct2, THEN conjunct2, THEN conjunct2, THEN conjunct2, THEN conjunct2, THEN conjunct2, THEN conjunct2, THEN conjunct2, THEN conjunct2, THEN conjunct2, THEN conjunct2, THEN conjunct2, THEN conjunct1, THEN mp, OF a17])
  have c17: "delete_rows (S3Provider stand_in_s3_lib) ''t.csv'' (Some ''index >= 0'') (s3_connected, lake_with_two_rows)
     = (Inr 2, (s3_connected, [((PStr ''lake'', PStr ''t.csv''), Inr no_rows_frame)]))"
    unfolding e17
    by (simp add: S3Provider_read_object_df_def self_def attr_def s3_connected_def bind_def ext_def stand_in_s3_lib_def s3_served_def lift_def is_parquet_key_def endswith_def lower_def lower_char_def Let_def stand_in_parse_def return_def raise_def S3Provider_serialise_def seq_def s3_bucket_def s3_key_def py_or_def S3Provider_init_def s3_credentials_def dict_get_def stand_in_query_def has_predicate_def is_space_def df_empty_def two_rows_frame_def header_only_frame_def no_rows_frame_def drop_positions_def len_def lake_with_two_rows_def lake_with_parquet_def lake_with_header_def S3Provider_def)
  have a18: "truthy (s3_bucket s3_connected) \<and> truthy (s3_key s3_connected ''t.csv'')
      \<and> S3Provider_read_object_df stand_in_s3_lib (s3_bucket s3_connected) (s3_key s3_connected ''t.csv'')
           (s3_connected, lake_with_two_rows) = (Inr two_rows_frame, (s3_connected, lake_with_two_rows))
      \<and> \<not> df_empty two_rows_frame
      \<and> \<not> has_predicate None"
    by (simp add: S3Provider_read_object_df_def self_def attr_def s3_connected_def bind_def ext_def stand_in_s3_lib_def s3_served_def lift_def is_parquet_key_def endswith_def lower_def lower_char_def Let_def stand_in_parse_def return_def raise_def S3Provider_serialise_def seq_def s3_bucket_def s3_key_def py_or_def S3Provider_init_def s3_credentials_def dict_get_def stand_in_query_def has_predicate_def is_space_def df_empty_def two_rows_frame_def header_only_frame_def no_rows_frame_def drop_positions_def len_def lake_with_two_rows_def lake_with_parquet_def lake_with_header_def)
  have e18: "delete_rows (S3Provider stand_in_s3_lib) ''t.csv'' None (s3_connected, lake_with_two_rows)
     = bind (S3Provider_serialise stand_in_s3_lib (s3_key s3_connected ''t.csv'') (two_rows_frame\<lparr>rows := []\<rparr>)) (\<lambda>body.
          seq (self (\<lambda>ob'. attr (s3_client ob') (\<lambda>c.
                 ext (put_object stand_in_s3_lib c (s3_bucket s3_connected) (s3_key s3_connected ''t.csv'') body))))
              (return (int (len two_rows_frame) - int (len (two_rows_frame\<lparr>rows := []\<rparr>))))) (s3_connected, lake_with_two_rows)"
    by (rule delete_rows_faults[THEN conjunct2, THEN conjunct2, THEN conjunct2, THEN conjunct2, THEN conjunct2, THEN conjunct2, THEN conjunct2, THEN conjunct2, THEN conjunct2, THEN conjunct2, THEN conjunct2, THEN conjunct2, THEN conjunct2, THEN conjunct2, THEN conjunct2, THEN conjunct2, THEN conjunct2, THEN mp, OF a18])
  have c18: "delete_rows (S3Provider stand_in_s3_lib) ''t.csv'' None (s3_connected, lake_with_two_rows)
     = (Inr 2, (s3_connected, [((PStr ''lake'', PStr ''t.csv''), Inr no_rows_frame)]))"
    unfolding e18
    by (simp add: S3Provider_read_object_df_def self_def attr_def s3_connected_def bind_def ext_def stand_in_s3_lib_def s3_served_def lift_def is_parquet_key_def endswith_def lower_def lower_char_def Let_def stand_in_parse_def return_def raise_def S3Provider_serialise_def seq_def s3_bucket_def s3_key_def py_or_def S3Provider_init_def s3_credentials_def dict_get_def stand_in_query_def has_predicate_def is_space_def df_empty_def two_rows_frame_def header_only_frame_def no_rows_frame_def drop_positions_def len_def lake_with_two_rows_def lake_with_parquet_def lake_with_header_def S3Provider_def)
  show ?thesis
    by (intro conjI c1 c2 c3 c4 c5 c6 c7 c8 c9 c10 c11 c12 c13 c14 c15 c16 c17 c18)
qed

end
